theory Spec2Isabelle
  imports Main "HOL-Library.Word"
begin

unbundle bit_operations_syntax

section \<open>Primitive types\<close>

text \<open>
  Modelled from the spec: \<open>pl_vm_address_t\<close> and \<open>pl_vm_size_t\<close> are declared in a header
  that is not part of the sources. The spec calls them address-sized integers of the target
  process; they are taken at the Mach VM width of 64 bits.
\<close>

type_synonym pl_vm_address_t = "64 word"
type_synonym pl_vm_size_t = "64 word"

text \<open>
  Modelled from the spec: the status codes (\<open>plcrash_error_t\<close>, declared in the same absent
  header). These are the five the source file names, which are also the kinds the spec's error
  taxonomy lists.
\<close>

datatype plcrash_error_t =
    PLCRASH_ESUCCESS
  | PLCRASH_EUNKNOWN
  | PLCRASH_ENOTFOUND
  | PLCRASH_EINVAL
  | PLCRASH_EACCESS

definition kObjCSegmentName :: string where "kObjCSegmentName = ''__OBJC''"
definition kDataSegmentName :: string where "kDataSegmentName = ''__DATA''"
definition kObjCModuleInfoSectionName :: string where "kObjCModuleInfoSectionName = ''__module_info''"
definition kClassListSectionName :: string where "kClassListSectionName = ''__objc_classlist''"
definition kCategoryListSectionName :: string where "kCategoryListSectionName = ''__objc_catlist''"
definition kObjCConstSectionName :: string where "kObjCConstSectionName = ''__objc_const''"
definition kObjCDataSectionName :: string where "kObjCDataSectionName = ''__objc_data''"

definition CLS_NO_METHOD_ARRAY :: "32 word" where "CLS_NO_METHOD_ARRAY = 0x4000"
definition END_OF_METHODS_LIST :: "32 word" where "END_OF_METHODS_LIST = - 1"
definition RW_REALIZED :: "32 word" where "RW_REALIZED = push_bit 31 1"
definition RW_COPIED_RO :: "32 word" where "RW_COPIED_RO = push_bit 27 1"

text \<open>
  \<open>TAGGED_ISA\<close> is a macro chosen by \<open>#ifdef __arm64__\<close>; the build target is the
  first argument.
\<close>

definition TAGGED_ISA :: "bool \<Rightarrow> pl_vm_address_t \<Rightarrow> pl_vm_address_t" where
  "TAGGED_ISA arm64 x = (if arm64 then x AND 0x1fffffff8 else x)"

section \<open>Records read from the target process\<close>

text \<open>
  The structures of the source, one record each. The 32-bit and 64-bit variants of an ObjC2
  structure differ only in the width of their pointer fields; a record holds each field as the
  source uses it, that is after \<open>image->byteorder->swapNN\<close> and widened to
  \<open>pl_vm_address_t\<close> where the source assigns it to one. (\<open>flags\<close> of the class_rw
  structure is tested by the source without a byte swap, and is held as stored.)
\<close>

record pl_objc1_module =
  mod_version :: "32 word"
  mod_size :: "32 word"
  mod_name :: "32 word"
  mod_symtab :: "32 word"

record pl_objc1_symtab =
  sel_ref_cnt :: "32 word"
  refs :: "32 word"
  cls_def_count :: "16 word"
  cat_def_count :: "16 word"

record pl_objc1_class =
  objc1_isa :: "32 word"
  objc1_super :: "32 word"
  objc1_name :: "32 word"
  objc1_version :: "32 word"
  objc1_info :: "32 word"
  objc1_instance_size :: "32 word"
  objc1_ivars :: "32 word"
  objc1_methods :: "32 word"
  objc1_cache :: "32 word"
  objc1_protocols :: "32 word"

record pl_objc1_method_list =
  obsolete :: "32 word"
  method_count :: "32 word"

record pl_objc1_method =
  objc1_method_name :: "32 word"
  objc1_method_types :: "32 word"
  objc1_method_imp :: "32 word"

record pl_objc2_class =
  isa :: pl_vm_address_t
  superclass :: pl_vm_address_t
  objc2_cache :: pl_vm_address_t
  vtable :: pl_vm_address_t
  data_rw :: pl_vm_address_t

record pl_objc2_class_data_rw =
  rw_flags :: "32 word"
  rw_version :: "32 word"
  data_ro :: pl_vm_address_t

record pl_objc2_class_data_ro =
  ro_flags :: "32 word"
  instanceStart :: "32 word"
  instanceSize :: "32 word"
  ivarLayout :: pl_vm_address_t
  ro_name :: pl_vm_address_t
  baseMethods :: pl_vm_address_t
  baseProtocols :: pl_vm_address_t
  ro_ivars :: pl_vm_address_t
  weakIvarLayout :: pl_vm_address_t
  baseProperties :: pl_vm_address_t

record pl_objc2_method =
  method_name :: pl_vm_address_t
  method_types :: pl_vm_address_t
  method_imp :: pl_vm_address_t

record pl_objc2_list_header =
  list_entsize :: "32 word"
  list_count :: "32 word"

text \<open>\<open>sizeof\<close> of the structures, by the width of the image (\<open>m64\<close>).\<close>

definition sizeof_pointer :: "bool \<Rightarrow> nat" where
  "sizeof_pointer is64 = (if is64 then 8 else 4)"
definition sizeof_objc2_class :: "bool \<Rightarrow> nat" where
  "sizeof_objc2_class is64 = (if is64 then 40 else 20)"
definition sizeof_objc2_class_data_rw :: "bool \<Rightarrow> nat" where
  "sizeof_objc2_class_data_rw is64 = (if is64 then 16 else 12)"
definition sizeof_objc2_class_data_ro :: "bool \<Rightarrow> nat" where
  "sizeof_objc2_class_data_ro is64 = (if is64 then 72 else 40)"
definition sizeof_objc2_category :: nat where
  "sizeof_objc2_category = 24"
definition sizeof_objc2_list_header :: nat where
  "sizeof_objc2_list_header = 8"
definition sizeof_objc1_module :: nat where
  "sizeof_objc1_module = 16"
definition sizeof_objc1_symtab :: nat where
  "sizeof_objc1_symtab = 12"
definition sizeof_objc1_class :: nat where
  "sizeof_objc1_class = 40"
definition sizeof_objc1_method_list :: nat where
  "sizeof_objc1_method_list = 8"
definition sizeof_objc1_method :: nat where
  "sizeof_objc1_method = 12"

section \<open>The image and the memory of the target task\<close>

text \<open>
  Modelled from the spec: a memory object (\<open>plcrash_async_mobject_t\<close>) is a section mapped
  for reading; the source reads its target-task base address and its length.
\<close>

record plcrash_async_mobject_t =
  task_address :: pl_vm_address_t
  mobj_length :: pl_vm_size_t

text \<open>
  Modelled from the spec: the Mach-O image abstraction, the cross-task copy and the lazy string
  reader are external collaborators (spec section 6.1) whose code is not part of the sources.
  The image record holds what they answer for this image:
  \<^item> \<open>image_ptr\<close>: the address of the image object (\<open>map_sections\<close> compares pointers);
  \<^item> \<open>section_status\<close>, \<open>section_mobj\<close>: the status \<open>map_section\<close> returns for a
    segment and section, and the memory object it fills in on success;
  \<^item> \<open>memcpy_status\<close>: the status of a cross-task read of a number of bytes at an address;
  \<^item> \<open>string_status\<close>, \<open>string_at\<close>: the status of \<open>string_init\<close> at an address and
    the string found there;
  \<^item> the \<open>..._at\<close> views: the contents of the target's memory at an address, read as one of
    the structures. A cross-task copy and a remapped local pointer see the same memory.
  Every field is arbitrary: nothing is assumed about what the collaborators answer.
\<close>

record plcrash_async_macho_t =
  image_ptr :: nat
  m64 :: bool
  section_status :: "string \<Rightarrow> string \<Rightarrow> plcrash_error_t"
  section_mobj :: "string \<Rightarrow> string \<Rightarrow> plcrash_async_mobject_t"
  memcpy_status :: "pl_vm_address_t \<Rightarrow> nat \<Rightarrow> plcrash_error_t"
  string_status :: "pl_vm_address_t \<Rightarrow> plcrash_error_t"
  string_at :: "pl_vm_address_t \<Rightarrow> string"
  uint32_at :: "pl_vm_address_t \<Rightarrow> 32 word"
  pointer_at :: "pl_vm_address_t \<Rightarrow> pl_vm_address_t"
  objc1_module_at :: "pl_vm_address_t \<Rightarrow> pl_objc1_module"
  objc1_symtab_at :: "pl_vm_address_t \<Rightarrow> pl_objc1_symtab"
  objc1_class_at :: "pl_vm_address_t \<Rightarrow> pl_objc1_class"
  objc1_method_list_at :: "pl_vm_address_t \<Rightarrow> pl_objc1_method_list"
  objc1_method_at :: "pl_vm_address_t \<Rightarrow> pl_objc1_method"
  objc2_class_at :: "pl_vm_address_t \<Rightarrow> pl_objc2_class"
  objc2_class_data_rw_at :: "pl_vm_address_t \<Rightarrow> pl_objc2_class_data_rw"
  objc2_class_data_ro_at :: "pl_vm_address_t \<Rightarrow> pl_objc2_class_data_ro"
  objc2_list_header_at :: "pl_vm_address_t \<Rightarrow> pl_objc2_list_header"
  objc2_method_at :: "pl_vm_address_t \<Rightarrow> pl_objc2_method"

text \<open>
  Modelled from the spec: \<open>map_section\<close>, \<open>task_memcpy\<close> and \<open>string_init\<close> (spec
  section 6.1), whose code is not part of the sources, as what the image record answers. The
  data a successful copy or string read delivers is read through the views. (An image is
  written \<open>img\<close> throughout.)
\<close>

definition plcrash_async_macho_map_section ::
  "plcrash_async_macho_t \<Rightarrow> string \<Rightarrow> string \<Rightarrow> plcrash_error_t \<times> plcrash_async_mobject_t" where
  "plcrash_async_macho_map_section img seg sect =
     (section_status img seg sect, section_mobj img seg sect)"

definition plcrash_async_task_memcpy ::
  "plcrash_async_macho_t \<Rightarrow> pl_vm_address_t \<Rightarrow> nat \<Rightarrow> plcrash_error_t" where
  "plcrash_async_task_memcpy img address len = memcpy_status img address len"

definition plcrash_async_macho_string_init ::
  "plcrash_async_macho_t \<Rightarrow> pl_vm_address_t \<Rightarrow> plcrash_error_t" where
  "plcrash_async_macho_string_init img address = string_status img address"

text \<open>
  Modelled from the spec: \<open>remap_address(mobj, task_addr, offset, length)\<close> is the
  bounds-checked translation of a target address into a local pointer, null when the range
  asked for is outside the memory object. The source always passes offset 0. The result is
  whether the pointer is non-null; the data behind it is read through the image's views.
\<close>

definition plcrash_async_mobject_remap_address ::
  "plcrash_async_mobject_t \<Rightarrow> pl_vm_address_t \<Rightarrow> nat \<Rightarrow> bool" where
  "plcrash_async_mobject_remap_address mobj address len =
     (task_address mobj \<le> address \<and>
      unat (address - task_address mobj) + len \<le> unat (mobj_length mobj))"

section \<open>The parser cache\<close>

text \<open>
  \<open>plcrash_async_objc_cache_t\<close>, field by field as the source uses it. \<open>lastImage\<close> is a
  pointer (\<open>None\<close> is NULL). The two arrays of the class cache are one allocation of
  \<open>classCacheSize\<close> keys followed by as many values; an array is a function from the index.
\<close>

record plcrash_async_objc_cache_t =
  gotObjC2Info :: bool
  lastImage :: "nat option"
  objcConstMobj :: plcrash_async_mobject_t
  objcConstMobjInitialized :: bool
  classMobj :: plcrash_async_mobject_t
  classMobjInitialized :: bool
  catMobj :: plcrash_async_mobject_t
  catMobjInitialized :: bool
  objcDataMobj :: plcrash_async_mobject_t
  objcDataMobjInitialized :: bool
  classCacheSize :: nat
  classCacheKeys :: "(nat \<Rightarrow> pl_vm_address_t) option"
  classCacheValues :: "(nat \<Rightarrow> pl_vm_address_t) option"

definition cache_index :: "plcrash_async_objc_cache_t \<Rightarrow> pl_vm_address_t \<Rightarrow> nat" where
  "cache_index context key = unat (drop_bit 2 key) mod classCacheSize context"

text \<open>
  \<open>cache_lookup\<close>. With a positive size the arrays are allocated in every state the source
  reaches; the last case (a null array with a positive size) is there to make the function
  total.
\<close>

definition cache_lookup :: "plcrash_async_objc_cache_t \<Rightarrow> pl_vm_address_t \<Rightarrow> pl_vm_address_t" where
  "cache_lookup context key =
     (if classCacheSize context > 0 then
        (case (classCacheKeys context, classCacheValues context) of
           (Some keys, Some vals) \<Rightarrow>
             (let index = cache_index context key in
              if keys index = key then vals index else 0)
         | _ \<Rightarrow> 0)
      else 0)"

text \<open>
  The second half of \<open>cache_set\<close> (the hash table write): the bucket is written only when its
  key is 0.
\<close>

definition cache_set_bucket ::
  "plcrash_async_objc_cache_t \<Rightarrow> pl_vm_address_t \<Rightarrow> pl_vm_address_t \<Rightarrow> plcrash_async_objc_cache_t" where
  "cache_set_bucket context key val =
     (case (classCacheKeys context, classCacheValues context) of
        (Some keys, Some vals) \<Rightarrow>
          (let index = cache_index context key in
           if keys index = 0 then
             context\<lparr>classCacheKeys := Some (keys(index := key)),
                     classCacheValues := Some (vals(index := val))\<rparr>
           else context)
      | _ \<Rightarrow> context)"

text \<open>
  \<open>cache_set\<close>. The first argument is whether \<open>vm_allocate\<close>, a kernel call, succeeds when
  the arena has to be allocated; the pages it returns are zero-filled.
\<close>

definition cache_set ::
  "bool \<Rightarrow> plcrash_async_objc_cache_t \<Rightarrow> pl_vm_address_t \<Rightarrow> pl_vm_address_t \<Rightarrow> plcrash_async_objc_cache_t" where
  "cache_set vm_allocate_ok context key val =
     (case classCacheKeys context of
        None \<Rightarrow>
          (if vm_allocate_ok then
             cache_set_bucket
               (context\<lparr>classCacheSize := 1024,
                        classCacheKeys := Some (\<lambda>i. 0),
                        classCacheValues := Some (\<lambda>i. 0)\<rparr>) key val
           else context\<lparr>classCacheSize := 0\<rparr>)
      | Some keys \<Rightarrow> cache_set_bucket context key val)"

definition free_mapped_sections :: "plcrash_async_objc_cache_t \<Rightarrow> plcrash_async_objc_cache_t" where
  "free_mapped_sections context =
     context\<lparr>objcConstMobjInitialized := False, classMobjInitialized := False,
             catMobjInitialized := False, objcDataMobjInitialized := False\<rparr>"

text \<open>
  \<open>map_sections\<close>. Each \<open>goto cleanup\<close> is the return of the status with the cache as it is
  at that point. A mapping that fails leaves its slot as it was.
\<close>

definition map_sections ::
  "plcrash_async_macho_t \<Rightarrow> plcrash_async_objc_cache_t \<Rightarrow> plcrash_error_t \<times> plcrash_async_objc_cache_t" where
  "map_sections img context =
     (if Some (image_ptr img) = lastImage context then (PLCRASH_ESUCCESS, context)
      else
        let context = (free_mapped_sections context)\<lparr>lastImage := None\<rparr>;
            (err, mobj) = plcrash_async_macho_map_section img kDataSegmentName kObjCConstSectionName
        in if err \<noteq> PLCRASH_ESUCCESS then (err, context)
        else
        let context = context\<lparr>objcConstMobj := mobj, objcConstMobjInitialized := True\<rparr>;
            (err, mobj) = plcrash_async_macho_map_section img kDataSegmentName kClassListSectionName
        in if err \<noteq> PLCRASH_ESUCCESS then (err, context)
        else
        let context = context\<lparr>classMobj := mobj, classMobjInitialized := True\<rparr>;
            (err, mobj) = plcrash_async_macho_map_section img kDataSegmentName kCategoryListSectionName
        in if err \<noteq> PLCRASH_ESUCCESS then (err, context)
        else
        let context = context\<lparr>catMobj := mobj, catMobjInitialized := True\<rparr>;
            (err, mobj) = plcrash_async_macho_map_section img kDataSegmentName kObjCDataSectionName
        in if err \<noteq> PLCRASH_ESUCCESS then (err, context)
        else
        let context = context\<lparr>objcDataMobj := mobj, objcDataMobjInitialized := True\<rparr>
        in (err, context\<lparr>lastImage := Some (image_ptr img)\<rparr>))"

definition plcrash_async_objc_cache_init ::
  "plcrash_async_objc_cache_t \<Rightarrow> plcrash_error_t \<times> plcrash_async_objc_cache_t" where
  "plcrash_async_objc_cache_init cache =
     (PLCRASH_ESUCCESS,
      cache\<lparr>gotObjC2Info := False, lastImage := None,
            objcConstMobjInitialized := False, classMobjInitialized := False,
            catMobjInitialized := False, objcDataMobjInitialized := False,
            classCacheSize := 0, classCacheKeys := None, classCacheValues := None\<rparr>)"

section \<open>The callback\<close>

text \<open>
  \<open>plcrash_async_objc_found_method_cb\<close>: a function called with the is-meta flag, the class
  name, the method name, the IMP and the caller's context pointer. It returns nothing; what it
  does to the memory behind its context is the new context it returns here. The two string
  arguments are the strings that the lazy string handles resolve to.
\<close>

type_synonym 'ctx plcrash_async_objc_found_method_cb =
  "bool \<Rightarrow> string \<Rightarrow> string \<Rightarrow> pl_vm_address_t \<Rightarrow> 'ctx \<Rightarrow> 'ctx"

text \<open>
  What the build and the kernel decide: whether the host is arm64 (the \<open>TAGGED_ISA\<close> macro)
  and whether \<open>vm_allocate\<close> succeeds when the class cache is first written.
\<close>

record host_env =
  host_arm64 :: bool
  vm_allocate_ok :: bool

section \<open>The ObjC1 walker\<close>

text \<open>
  The \<open>for\<close> loop over the methods of one method list (the indices \<open>0 ..< count\<close> are the
  list argument). A failing read leaves the loop with its status (\<open>goto cleanup\<close>).
\<close>

fun obj1_methods_loop ::
  "plcrash_async_macho_t \<Rightarrow> bool \<Rightarrow> string \<Rightarrow> 'ctx plcrash_async_objc_found_method_cb \<Rightarrow>
   pl_vm_address_t \<Rightarrow> nat list \<Rightarrow> 'ctx \<Rightarrow> plcrash_error_t \<times> 'ctx" where
  "obj1_methods_loop img isMetaClass className callback thisListPtr [] ctx = (PLCRASH_ESUCCESS, ctx)"
| "obj1_methods_loop img isMetaClass className callback thisListPtr (i # rest) ctx =
     (let methodPtr = thisListPtr + of_nat sizeof_objc1_method_list + of_nat i * of_nat sizeof_objc1_method;
          err = plcrash_async_task_memcpy img methodPtr sizeof_objc1_method
      in if err \<noteq> PLCRASH_ESUCCESS then (err, ctx)
      else
        let method = objc1_method_at img methodPtr;
            methodNamePtr = ucast (objc1_method_name method);
            err = plcrash_async_macho_string_init img methodNamePtr
        in if err \<noteq> PLCRASH_ESUCCESS then (err, ctx)
        else
          let imp = ucast (objc1_method_imp method)
          in obj1_methods_loop img isMetaClass className callback thisListPtr rest
               (callback isMetaClass className (string_at img methodNamePtr) imp ctx))"

text \<open>Reading one \<open>method_list\<close> structure at \<open>thisListPtr\<close> and iterating over its methods.\<close>

definition obj1_method_list ::
  "plcrash_async_macho_t \<Rightarrow> bool \<Rightarrow> string \<Rightarrow> 'ctx plcrash_async_objc_found_method_cb \<Rightarrow>
   pl_vm_address_t \<Rightarrow> 'ctx \<Rightarrow> plcrash_error_t \<times> 'ctx" where
  "obj1_method_list img isMetaClass className callback thisListPtr ctx =
     (let err = plcrash_async_task_memcpy img thisListPtr sizeof_objc1_method_list
      in if err \<noteq> PLCRASH_ESUCCESS then (err, ctx)
      else
        let methodList = objc1_method_list_at img thisListPtr;
            count = unat (method_count methodList)
        in obj1_methods_loop img isMetaClass className callback thisListPtr [0..<count] ctx)"

text \<open>
  The \<open>while (true)\<close> loop of \<open>pl_async_parse_obj1_class\<close> over the method lists. Nothing
  bounds it in the source (it runs until a terminator or a failing read), so it takes fuel:
  one unit for each iteration, and \<open>None\<close> when the fuel runs out.
\<close>

fun obj1_method_lists_loop ::
  "nat \<Rightarrow> plcrash_async_macho_t \<Rightarrow> bool \<Rightarrow> bool \<Rightarrow> string \<Rightarrow>
   'ctx plcrash_async_objc_found_method_cb \<Rightarrow> pl_vm_address_t \<Rightarrow> 'ctx \<Rightarrow>
   (plcrash_error_t \<times> 'ctx) option" where
  "obj1_method_lists_loop 0 img hasMultipleMethodLists isMetaClass className callback
     methodListCursor ctx = None"
| "obj1_method_lists_loop (Suc fuel) img hasMultipleMethodLists isMetaClass className callback
     methodListCursor ctx =
     (if hasMultipleMethodLists then
        (let err = plcrash_async_task_memcpy img methodListCursor 4
         in if err \<noteq> PLCRASH_ESUCCESS then Some (err, ctx)
         else
           let thisListPtr = (ucast (uint32_at img methodListCursor) :: pl_vm_address_t)
           in if thisListPtr = 0 \<or> thisListPtr = ucast END_OF_METHODS_LIST
              then Some (PLCRASH_ESUCCESS, ctx)
              else
                (case obj1_method_list img isMetaClass className callback thisListPtr ctx of
                   (err, ctx') \<Rightarrow>
                     if err \<noteq> PLCRASH_ESUCCESS then Some (err, ctx')
                     else obj1_method_lists_loop fuel img hasMultipleMethodLists isMetaClass
                            className callback (methodListCursor + 4) ctx'))
      else
        (let thisListPtr = methodListCursor
         in if thisListPtr = 0 then Some (PLCRASH_ESUCCESS, ctx)
            else Some (obj1_method_list img isMetaClass className callback thisListPtr ctx)))"

definition pl_async_parse_obj1_class ::
  "nat \<Rightarrow> plcrash_async_macho_t \<Rightarrow> pl_objc1_class \<Rightarrow> bool \<Rightarrow>
   'ctx plcrash_async_objc_found_method_cb \<Rightarrow> 'ctx \<Rightarrow> (plcrash_error_t \<times> 'ctx) option" where
  "pl_async_parse_obj1_class fuel img cls isMetaClass callback ctx =
     (let namePtr = ucast (objc1_name cls);
          err = plcrash_async_macho_string_init img namePtr
      in if err \<noteq> PLCRASH_ESUCCESS then Some (err, ctx)
      else
        let className = string_at img namePtr;
            methodListPtr = ucast (objc1_methods cls);
            hasMultipleMethodLists = (objc1_info cls AND CLS_NO_METHOD_ARRAY = 0)
        in obj1_method_lists_loop fuel img hasMultipleMethodLists isMetaClass className callback
             methodListPtr ctx)"

text \<open>The loop over the classes of one symtab: each class, then its metaclass.\<close>

fun objc1_classes_loop ::
  "nat \<Rightarrow> plcrash_async_macho_t \<Rightarrow> 'ctx plcrash_async_objc_found_method_cb \<Rightarrow>
   pl_vm_address_t \<Rightarrow> nat list \<Rightarrow> 'ctx \<Rightarrow> (plcrash_error_t \<times> 'ctx) option" where
  "objc1_classes_loop fuel img callback symtabPtr [] ctx = Some (PLCRASH_ESUCCESS, ctx)"
| "objc1_classes_loop fuel img callback symtabPtr (i # rest) ctx =
     (let cursor = symtabPtr + of_nat sizeof_objc1_symtab + of_nat i * 4;
          err = plcrash_async_task_memcpy img cursor 4
      in if err \<noteq> PLCRASH_ESUCCESS then Some (err, ctx)
      else
        let classPtr = (ucast (uint32_at img cursor) :: pl_vm_address_t);
            err = plcrash_async_task_memcpy img classPtr sizeof_objc1_class
        in if err \<noteq> PLCRASH_ESUCCESS then Some (err, ctx)
        else
          let cls = objc1_class_at img classPtr
          in case pl_async_parse_obj1_class fuel img cls False callback ctx of
               None \<Rightarrow> None
             | Some (err, ctx1) \<Rightarrow>
                 if err \<noteq> PLCRASH_ESUCCESS then Some (err, ctx1)
                 else
                   let isa = (ucast (objc1_isa cls) :: pl_vm_address_t);
                       err = plcrash_async_task_memcpy img isa sizeof_objc1_class
                   in if err \<noteq> PLCRASH_ESUCCESS then Some (err, ctx1)
                   else
                     let metaclass = objc1_class_at img isa
                     in case pl_async_parse_obj1_class fuel img metaclass True callback ctx1 of
                          None \<Rightarrow> None
                        | Some (err, ctx2) \<Rightarrow>
                            if err \<noteq> PLCRASH_ESUCCESS then Some (err, ctx2)
                            else objc1_classes_loop fuel img callback symtabPtr rest ctx2)"

text \<open>The loop over the module structures of the \<open>__module_info\<close> section.\<close>

fun objc1_modules_loop ::
  "nat \<Rightarrow> plcrash_async_macho_t \<Rightarrow> 'ctx plcrash_async_objc_found_method_cb \<Rightarrow>
   plcrash_async_mobject_t \<Rightarrow> nat list \<Rightarrow> 'ctx \<Rightarrow> (plcrash_error_t \<times> 'ctx) option" where
  "objc1_modules_loop fuel img callback moduleMobj [] ctx = Some (PLCRASH_ESUCCESS, ctx)"
| "objc1_modules_loop fuel img callback moduleMobj (moduleIndex # rest) ctx =
     (let symtabPtr =
            (ucast (mod_symtab (objc1_module_at img
               (task_address moduleMobj + of_nat moduleIndex * of_nat sizeof_objc1_module)))
             :: pl_vm_address_t)
      in if symtabPtr = 0 then objc1_modules_loop fuel img callback moduleMobj rest ctx
      else
        let err = plcrash_async_task_memcpy img symtabPtr sizeof_objc1_symtab
        in if err \<noteq> PLCRASH_ESUCCESS then Some (err, ctx)
        else
          let symtab = objc1_symtab_at img symtabPtr;
              classCount = unat (cls_def_count symtab)
          in case objc1_classes_loop fuel img callback symtabPtr [0..<classCount] ctx of
               None \<Rightarrow> None
             | Some (err, ctx1) \<Rightarrow>
                 if err \<noteq> PLCRASH_ESUCCESS then Some (err, ctx1)
                 else objc1_modules_loop fuel img callback moduleMobj rest ctx1)"

text \<open>
  \<open>pl_async_objc_parse_from_module_info\<close>. The loop counter \<open>moduleIndex\<close> is an
  \<open>unsigned\<close> compared with a \<open>size_t\<close> bound: with \<open>2 ^ 32\<close> modules or more it wraps to 0
  before it reaches the bound, and the loop ends only at a failing read (\<open>None\<close> otherwise).
\<close>

definition pl_async_objc_parse_from_module_info ::
  "nat \<Rightarrow> plcrash_async_macho_t \<Rightarrow> 'ctx plcrash_async_objc_found_method_cb \<Rightarrow> 'ctx \<Rightarrow>
   (plcrash_error_t \<times> 'ctx) option" where
  "pl_async_objc_parse_from_module_info fuel img callback ctx =
     (let (err, moduleMobj) =
            plcrash_async_macho_map_section img kObjCSegmentName kObjCModuleInfoSectionName
      in if err \<noteq> PLCRASH_ESUCCESS then Some (err, ctx)
      else if \<not> plcrash_async_mobject_remap_address moduleMobj (task_address moduleMobj)
                  sizeof_objc1_module
      then Some (PLCRASH_ENOTFOUND, ctx)
      else
        let n = unat (mobj_length moduleMobj) div sizeof_objc1_module
        in if n < 2 ^ 32 then objc1_modules_loop fuel img callback moduleMobj [0..<n] ctx
           else
             (case objc1_modules_loop fuel img callback moduleMobj [0..<2 ^ 32] ctx of
                None \<Rightarrow> None
              | Some (err, ctx1) \<Rightarrow> if err \<noteq> PLCRASH_ESUCCESS then Some (err, ctx1) else None))"

section \<open>The ObjC2 walker\<close>

text \<open>
  The loop over the entries of an ObjC2 method list. \<open>cursor\<close> is a local pointer that starts
  at the remapped \<open>method_list_start\<close> and advances by \<open>entsize\<close>; entry \<open>i\<close> is the
  target's memory at \<open>method_list_start + i * entsize\<close>.
\<close>

fun objc2_methods_loop ::
  "plcrash_async_macho_t \<Rightarrow> string \<Rightarrow> bool \<Rightarrow> 'ctx plcrash_async_objc_found_method_cb \<Rightarrow>
   pl_vm_address_t \<Rightarrow> 32 word \<Rightarrow> nat list \<Rightarrow> 'ctx \<Rightarrow> plcrash_error_t \<times> 'ctx" where
  "objc2_methods_loop img class_name is_meta_class callback method_list_start entsize [] ctx =
     (PLCRASH_ESUCCESS, ctx)"
| "objc2_methods_loop img class_name is_meta_class callback method_list_start entsize (i # rest) ctx =
     (let cursor = method_list_start + of_nat i * ucast entsize;
          method = objc2_method_at img cursor;
          methodNamePtr = method_name method;
          err = plcrash_async_macho_string_init img methodNamePtr
      in if err \<noteq> PLCRASH_ESUCCESS then (err, ctx)
      else
        let imp = method_imp method
        in objc2_methods_loop img class_name is_meta_class callback method_list_start entsize rest
             (callback is_meta_class class_name (string_at img methodNamePtr) imp ctx))"

definition pl_async_objc_parse_objc2_method_list ::
  "plcrash_async_macho_t \<Rightarrow> plcrash_async_objc_cache_t \<Rightarrow> string \<Rightarrow> bool \<Rightarrow> pl_vm_address_t \<Rightarrow>
   'ctx plcrash_async_objc_found_method_cb \<Rightarrow> 'ctx \<Rightarrow> plcrash_error_t \<times> 'ctx" where
  "pl_async_objc_parse_objc2_method_list img objc_cache class_name is_meta_class method_list_addr
     callback ctx =
     (if \<not> plcrash_async_mobject_remap_address (objcConstMobj objc_cache) method_list_addr
             sizeof_objc2_list_header
      then (PLCRASH_EINVAL, ctx)
      else
        let header = objc2_list_header_at img method_list_addr;
            entsize = list_entsize header AND NOT 3;
            count = list_count header;
            method_list_start = method_list_addr + of_nat sizeof_objc2_list_header;
            method_list_length = (ucast entsize * ucast count :: pl_vm_size_t)
        in if \<not> plcrash_async_mobject_remap_address (objcConstMobj objc_cache) method_list_start
                  (unat method_list_length)
           then (PLCRASH_EINVAL, ctx)
           else objc2_methods_loop img class_name is_meta_class callback method_list_start entsize
                  [0..<unat count] ctx)"

text \<open>
  The first half of \<open>pl_async_objc_parse_objc2_class\<close>: finding the class_ro structure of
  the class whose (masked) class_rw pointer is \<open>data_ptr\<close>, from the cache or else from the
  class_rw structure, and checking that it can be read. The result is the status, the cache
  (a miss that succeeds stores the address) and the address of the class_ro structure; the
  structure itself is the target's memory at that address, whether the source reads it through
  the remapped \<open>__objc_const\<close> section or copies it.
\<close>

definition objc2_class_data_ro ::
  "host_env \<Rightarrow> plcrash_async_macho_t \<Rightarrow> plcrash_async_objc_cache_t \<Rightarrow> pl_vm_address_t \<Rightarrow>
   plcrash_error_t \<times> plcrash_async_objc_cache_t \<times> pl_vm_address_t" where
  "objc2_class_data_ro host img objc_cache data_ptr =
     (let class_ro_length = sizeof_objc2_class_data_ro (m64 img);
          cached_data_ro_addr = cache_lookup objc_cache data_ptr
      in if cached_data_ro_addr = 0 then
           (let err = plcrash_async_task_memcpy img data_ptr (sizeof_objc2_class_data_rw (m64 img))
            in if err \<noteq> PLCRASH_ESUCCESS then (err, objc_cache, cached_data_ro_addr)
            else
              let cls_data_rw = objc2_class_data_rw_at img data_ptr
              in if rw_flags cls_data_rw AND RW_REALIZED = 0
                 then (PLCRASH_ENOTFOUND, objc_cache, cached_data_ro_addr)
                 else
                   let cached_data_ro_addr = data_ro cls_data_rw;
                       err =
                         (if rw_flags cls_data_rw AND RW_COPIED_RO \<noteq> 0
                          then plcrash_async_task_memcpy img cached_data_ro_addr class_ro_length
                          else if plcrash_async_mobject_remap_address (objcConstMobj objc_cache)
                                    cached_data_ro_addr class_ro_length
                          then PLCRASH_ESUCCESS else PLCRASH_EINVAL)
                   in if err \<noteq> PLCRASH_ESUCCESS then (err, objc_cache, cached_data_ro_addr)
                      else (PLCRASH_ESUCCESS,
                            cache_set (vm_allocate_ok host) objc_cache data_ptr cached_data_ro_addr,
                            cached_data_ro_addr))
         else if plcrash_async_mobject_remap_address (objcConstMobj objc_cache)
                   cached_data_ro_addr class_ro_length
         then (PLCRASH_ESUCCESS, objc_cache, cached_data_ro_addr)
         else if plcrash_async_task_memcpy img cached_data_ro_addr class_ro_length = PLCRASH_ESUCCESS
         then (PLCRASH_ESUCCESS, objc_cache, cached_data_ro_addr)
         else (PLCRASH_EINVAL, objc_cache, cached_data_ro_addr))"

text \<open>
  \<open>pl_async_objc_parse_objc2_class\<close>, the template over the 32-bit and 64-bit structures.
  \<open>cls\<close> is the class structure the caller's local pointer points to.
\<close>

definition pl_async_objc_parse_objc2_class ::
  "host_env \<Rightarrow> plcrash_async_macho_t \<Rightarrow> plcrash_async_objc_cache_t \<Rightarrow> pl_objc2_class \<Rightarrow> bool \<Rightarrow>
   'ctx plcrash_async_objc_found_method_cb \<Rightarrow> 'ctx \<Rightarrow>
   plcrash_error_t \<times> plcrash_async_objc_cache_t \<times> 'ctx" where
  "pl_async_objc_parse_objc2_class host img objc_cache cls is_meta_class callback ctx =
     (let data_ptr = data_rw cls AND NOT 3
      in case objc2_class_data_ro host img objc_cache data_ptr of
           (err, objc_cache, cached_data_ro_addr) \<Rightarrow>
             if err \<noteq> PLCRASH_ESUCCESS then (err, objc_cache, ctx)
             else
               let cls_data_ro = objc2_class_data_ro_at img cached_data_ro_addr;
                   class_name_ptr = ro_name cls_data_ro;
                   err = plcrash_async_macho_string_init img class_name_ptr
               in if err \<noteq> PLCRASH_ESUCCESS then (err, objc_cache, ctx)
                  else
                    let class_name = string_at img class_name_ptr;
                        methods_ptr = baseMethods cls_data_ro
                    in if methods_ptr = 0 then (PLCRASH_ESUCCESS, objc_cache, ctx)
                       else
                         (case pl_async_objc_parse_objc2_method_list img objc_cache class_name
                                 is_meta_class methods_ptr callback ctx of
                            (err, ctx') \<Rightarrow> (err, objc_cache, ctx')))"

text \<open>\<open>pl_async_objc_parse_objc2_category\<close> is a stub in the source: it returns success.\<close>

definition pl_async_objc_parse_objc2_category ::
  "plcrash_async_macho_t \<Rightarrow> plcrash_async_objc_cache_t \<Rightarrow> pl_vm_address_t \<Rightarrow>
   'ctx plcrash_async_objc_found_method_cb \<Rightarrow> 'ctx \<Rightarrow> plcrash_error_t" where
  "pl_async_objc_parse_objc2_category img objcContext cat callback ctx = PLCRASH_ESUCCESS"

text \<open>
  The loop over the class list. \<open>classPtrs\<close> is the local view of the mapped
  \<open>__objc_classlist\<close> section; its entry \<open>i\<close> is the pointer-sized word of the target's memory
  at the section's address plus \<open>i\<close> pointers.
\<close>

fun objc2_classes_loop ::
  "host_env \<Rightarrow> plcrash_async_macho_t \<Rightarrow> 'ctx plcrash_async_objc_found_method_cb \<Rightarrow>
   pl_vm_address_t \<Rightarrow> nat list \<Rightarrow> plcrash_async_objc_cache_t \<Rightarrow> 'ctx \<Rightarrow>
   plcrash_error_t \<times> plcrash_async_objc_cache_t \<times> 'ctx" where
  "objc2_classes_loop host img callback classPtrs [] objcContext ctx =
     (PLCRASH_ESUCCESS, objcContext, ctx)"
| "objc2_classes_loop host img callback classPtrs (i # rest) objcContext ctx =
     (let ptr = pointer_at img (classPtrs + of_nat i * of_nat (sizeof_pointer (m64 img)))
      in if \<not> plcrash_async_mobject_remap_address (objcDataMobj objcContext) ptr
                (sizeof_objc2_class (m64 img))
         then (PLCRASH_EINVAL, objcContext, ctx)
         else
           let cls = objc2_class_at img ptr
           in case pl_async_objc_parse_objc2_class host img objcContext cls False callback ctx of
                (err, objcContext1, ctx1) \<Rightarrow>
                  if err \<noteq> PLCRASH_ESUCCESS then (err, objcContext1, ctx1)
                  else
                    let isa = isa cls
                    in if \<not> plcrash_async_mobject_remap_address (objcDataMobj objcContext1)
                              (TAGGED_ISA (host_arm64 host) isa) (sizeof_objc2_class (m64 img))
                       then (PLCRASH_EINVAL, objcContext1, ctx1)
                       else
                         let metaclass = objc2_class_at img (TAGGED_ISA (host_arm64 host) isa)
                         in case pl_async_objc_parse_objc2_class host img objcContext1 metaclass
                                   True callback ctx1 of
                              (err, objcContext2, ctx2) \<Rightarrow>
                                if err \<noteq> PLCRASH_ESUCCESS then (err, objcContext2, ctx2)
                                else objc2_classes_loop host img callback classPtrs rest
                                       objcContext2 ctx2)"

text \<open>
  The category pointer the category loop reads at index \<open>i\<close>. The source sets up the two views
  \<open>catPtrs_32\<close> and \<open>catPtrs_64\<close> from \<open>classPtrs\<close>, so the argument is the local view of
  the class list.
\<close>

definition objc2_category_ptr ::
  "plcrash_async_macho_t \<Rightarrow> pl_vm_address_t \<Rightarrow> nat \<Rightarrow> pl_vm_address_t" where
  "objc2_category_ptr img catPtrs_view i =
     pointer_at img (catPtrs_view + of_nat i * of_nat (sizeof_pointer (m64 img)))"

fun objc2_categories_loop ::
  "plcrash_async_macho_t \<Rightarrow> plcrash_async_objc_cache_t \<Rightarrow>
   'ctx plcrash_async_objc_found_method_cb \<Rightarrow> pl_vm_address_t \<Rightarrow> nat list \<Rightarrow> 'ctx \<Rightarrow>
   plcrash_error_t" where
  "objc2_categories_loop img objcContext callback catPtrs_view [] ctx = PLCRASH_ESUCCESS"
| "objc2_categories_loop img objcContext callback catPtrs_view (i # rest) ctx =
     (let ptr = objc2_category_ptr img catPtrs_view i
      in if \<not> plcrash_async_mobject_remap_address (objcDataMobj objcContext) ptr
                sizeof_objc2_category
         then PLCRASH_EINVAL
         else
           let err = pl_async_objc_parse_objc2_category img objcContext ptr callback ctx
           in if err \<noteq> PLCRASH_ESUCCESS then err
              else objc2_categories_loop img objcContext callback catPtrs_view rest ctx)"

text \<open>
  \<open>pl_async_objc_parse_from_data_section\<close>. The two counts are \<open>unsigned\<close>, so the quotient
  is taken modulo \<open>2 ^ 32\<close>.
\<close>

definition pl_async_objc_parse_from_data_section ::
  "host_env \<Rightarrow> plcrash_async_macho_t \<Rightarrow> plcrash_async_objc_cache_t \<Rightarrow>
   'ctx plcrash_async_objc_found_method_cb \<Rightarrow> 'ctx \<Rightarrow>
   plcrash_error_t \<times> plcrash_async_objc_cache_t \<times> 'ctx" where
  "pl_async_objc_parse_from_data_section host img objcContext callback ctx =
     (case map_sections img objcContext of
        (err, objcContext) \<Rightarrow>
          if err \<noteq> PLCRASH_ESUCCESS then (err, objcContext, ctx)
          else if \<not> plcrash_async_mobject_remap_address (classMobj objcContext)
                      (task_address (classMobj objcContext)) (unat (mobj_length (classMobj objcContext)))
          then (PLCRASH_EINVAL, objcContext, ctx)
          else
            let classPtrs = task_address (classMobj objcContext);
                classCount = (unat (mobj_length (classMobj objcContext)) div sizeof_pointer (m64 img))
                               mod 2 ^ 32
            in case objc2_classes_loop host img callback classPtrs [0..<classCount] objcContext ctx of
                 (err, objcContext1, ctx1) \<Rightarrow>
                   if err \<noteq> PLCRASH_ESUCCESS then (err, objcContext1, ctx1)
                   else if \<not> plcrash_async_mobject_remap_address (catMobj objcContext1)
                               (task_address (catMobj objcContext1))
                               (unat (mobj_length (catMobj objcContext1)))
                   then (PLCRASH_EINVAL, objcContext1, ctx1)
                   else
                     let catPtrs_view = classPtrs;
                         catCount = (unat (mobj_length (catMobj objcContext1))
                                       div sizeof_pointer (m64 img)) mod 2 ^ 32
                     in (objc2_categories_loop img objcContext1 callback catPtrs_view
                           [0..<catCount] ctx1,
                         objcContext1, ctx1))"

section \<open>The unified parser and the best-IMP finder\<close>

text \<open>\<open>plcrash_async_objc_parse\<close>. The cache is a pointer: \<open>None\<close> is NULL.\<close>

definition plcrash_async_objc_parse ::
  "nat \<Rightarrow> host_env \<Rightarrow> plcrash_async_macho_t \<Rightarrow> plcrash_async_objc_cache_t option \<Rightarrow>
   'ctx plcrash_async_objc_found_method_cb \<Rightarrow> 'ctx \<Rightarrow>
   (plcrash_error_t \<times> plcrash_async_objc_cache_t option \<times> 'ctx) option" where
  "plcrash_async_objc_parse fuel host img cache callback ctx =
     (case cache of
        None \<Rightarrow> Some (PLCRASH_EACCESS, None, ctx)
      | Some c \<Rightarrow>
          (case (if \<not> gotObjC2Info c
                 then pl_async_objc_parse_from_module_info fuel img callback ctx
                 else Some (PLCRASH_ENOTFOUND, ctx)) of
             None \<Rightarrow> None
           | Some (err, ctx1) \<Rightarrow>
               if err = PLCRASH_ENOTFOUND then
                 (case pl_async_objc_parse_from_data_section host img c callback ctx1 of
                    (err, c1, ctx2) \<Rightarrow>
                      if err = PLCRASH_ESUCCESS
                      then Some (err, Some (c1\<lparr>gotObjC2Info := True\<rparr>), ctx2)
                      else Some (err, Some c1, ctx2))
               else Some (err, Some c, ctx1)))"

record pl_async_objc_find_method_search_context =
  searchIMP :: pl_vm_address_t
  bestIMP :: pl_vm_address_t

record 'u pl_async_objc_find_method_call_context =
  call_searchIMP :: pl_vm_address_t
  outerCallback :: "'u plcrash_async_objc_found_method_cb option"
  outerCallbackCtx :: 'u

definition pl_async_objc_find_method_search_callback ::
  "pl_async_objc_find_method_search_context plcrash_async_objc_found_method_cb" where
  "pl_async_objc_find_method_search_callback isClassMethod className methodName imp ctxStruct =
     (if imp \<ge> bestIMP ctxStruct \<and> imp \<le> searchIMP ctxStruct
      then ctxStruct\<lparr>bestIMP := imp\<rparr> else ctxStruct)"

definition pl_async_objc_find_method_call_callback ::
  "'u pl_async_objc_find_method_call_context plcrash_async_objc_found_method_cb" where
  "pl_async_objc_find_method_call_callback isClassMethod className methodName imp ctxStruct =
     (case outerCallback ctxStruct of
        None \<Rightarrow> ctxStruct
      | Some cb \<Rightarrow>
          if imp = call_searchIMP ctxStruct
          then ctxStruct\<lparr>outerCallbackCtx :=
                            cb isClassMethod className methodName imp (outerCallbackCtx ctxStruct),
                          outerCallback := None\<rparr>
          else ctxStruct)"

text \<open>
  \<open>plcrash_async_objc_find_method\<close>. The callback is a function pointer (\<open>None\<close> is NULL).
  The result is the status, the cache as the call leaves it and the caller's context.
\<close>

definition plcrash_async_objc_find_method ::
  "nat \<Rightarrow> host_env \<Rightarrow> plcrash_async_macho_t \<Rightarrow> plcrash_async_objc_cache_t option \<Rightarrow>
   pl_vm_address_t \<Rightarrow> 'u plcrash_async_objc_found_method_cb option \<Rightarrow> 'u \<Rightarrow>
   (plcrash_error_t \<times> plcrash_async_objc_cache_t option \<times> 'u) option" where
  "plcrash_async_objc_find_method fuel host img objcContext imp callback ctx =
     (case plcrash_async_objc_parse fuel host img objcContext
             pl_async_objc_find_method_search_callback \<lparr>searchIMP = imp, bestIMP = 0\<rparr> of
        None \<Rightarrow> None
      | Some (err, objcContext1, searchCtx) \<Rightarrow>
          if err \<noteq> PLCRASH_ESUCCESS then Some (err, objcContext1, ctx)
          else if bestIMP searchCtx = 0 then Some (PLCRASH_ENOTFOUND, objcContext1, ctx)
          else
            (case plcrash_async_objc_parse fuel host img objcContext1
                    pl_async_objc_find_method_call_callback
                    \<lparr>call_searchIMP = bestIMP searchCtx, outerCallback = callback,
                     outerCallbackCtx = ctx\<rparr> of
               None \<Rightarrow> None
             | Some (err, objcContext2, callCtx) \<Rightarrow>
                 Some (err, objcContext2, outerCallbackCtx callCtx)))"

section \<open>Notions used in the statements\<close>

subsection \<open>Sequences of stores into the class cache\<close>

text \<open>
  A sequence of \<open>cache_set\<close> calls, in order, and the first pair of a sequence whose key falls
  into bucket \<open>i\<close> of the 1024 buckets.
\<close>

definition store_all ::
  "bool \<Rightarrow> plcrash_async_objc_cache_t \<Rightarrow> (pl_vm_address_t \<times> pl_vm_address_t) list \<Rightarrow>
   plcrash_async_objc_cache_t" where
  "store_all allocate_ok context kvs =
     foldl (\<lambda>c (k, v). cache_set allocate_ok c k v) context kvs"

definition first_stored ::
  "(pl_vm_address_t \<times> pl_vm_address_t) list \<Rightarrow> nat \<Rightarrow> (pl_vm_address_t \<times> pl_vm_address_t) option" where
  "first_stored kvs i = find (\<lambda>(k, v). unat (drop_bit 2 k) mod 1024 = i) kvs"

subsection \<open>The methods a walk presents\<close>

text \<open>
  One callback invocation is the tuple of its arguments. \<open>collect_method\<close> is the callback
  that appends each invocation to a list, so that \<open>plcrash_async_objc_enumerate\<close> is the walk
  of \<open>plcrash_async_objc_parse\<close> with every method it presents written down in order (also
  those presented before a walk fails).
\<close>

type_synonym found_method = "bool \<times> string \<times> string \<times> pl_vm_address_t"

definition found_imp :: "found_method \<Rightarrow> pl_vm_address_t" where
  "found_imp m = (case m of (isMeta, className, methodName, imp) \<Rightarrow> imp)"

definition invoke :: "'ctx plcrash_async_objc_found_method_cb \<Rightarrow> found_method \<Rightarrow> 'ctx \<Rightarrow> 'ctx" where
  "invoke callback m ctx =
     (case m of (isMeta, className, methodName, imp) \<Rightarrow> callback isMeta className methodName imp ctx)"

definition collect_method :: "found_method list plcrash_async_objc_found_method_cb" where
  "collect_method isMeta className methodName imp ms = ms @ [(isMeta, className, methodName, imp)]"

definition plcrash_async_objc_enumerate ::
  "nat \<Rightarrow> host_env \<Rightarrow> plcrash_async_macho_t \<Rightarrow> plcrash_async_objc_cache_t option \<Rightarrow>
   (plcrash_error_t \<times> plcrash_async_objc_cache_t option \<times> found_method list) option" where
  "plcrash_async_objc_enumerate fuel host img cache =
     plcrash_async_objc_parse fuel host img cache collect_method []"

text \<open>
  Walk-then-select: the greatest IMP of a list that is at most the target (0 when there is
  none), and what the caller's context becomes when the callback, if there is one, is invoked
  once on the first method of a list whose IMP is \<open>best\<close>, if there is one.
\<close>

definition best_imp :: "pl_vm_address_t \<Rightarrow> found_method list \<Rightarrow> pl_vm_address_t" where
  "best_imp target ms = Max (insert 0 {i \<in> found_imp ` set ms. i \<le> target})"

definition emitted ::
  "'u plcrash_async_objc_found_method_cb option \<Rightarrow> pl_vm_address_t \<Rightarrow> found_method list \<Rightarrow>
   'u \<Rightarrow> 'u" where
  "emitted callback best ms u =
     (case callback of
        None \<Rightarrow> u
      | Some cb \<Rightarrow>
          (case find (\<lambda>m. found_imp m = best) ms of None \<Rightarrow> u | Some m \<Rightarrow> invoke cb m u))"

subsection \<open>The ObjC2 attempt of the unified parser, and sequences of parse calls\<close>

text \<open>
  The ObjC2 attempt of \<open>plcrash_async_objc_parse\<close> on cache \<open>c\<close>: the walk of the data
  sections, after which the latch is set if it was set or if the walk succeeded.
\<close>

definition objc2_attempt ::
  "host_env \<Rightarrow> plcrash_async_macho_t \<Rightarrow> plcrash_async_objc_cache_t \<Rightarrow>
   'ctx plcrash_async_objc_found_method_cb \<Rightarrow> 'ctx \<Rightarrow>
   (plcrash_error_t \<times> plcrash_async_objc_cache_t option \<times> 'ctx) option" where
  "objc2_attempt host img c callback ctx =
     (case pl_async_objc_parse_from_data_section host img c callback ctx of
        (err2, c2, ctx2) \<Rightarrow>
          Some (err2, Some (c2\<lparr>gotObjC2Info := gotObjC2Info c \<or> err2 = PLCRASH_ESUCCESS\<rparr>), ctx2))"

text \<open>
  A sequence of parse calls on one cache, each with its image, callback and context: the list
  of the caches after each call (\<open>None\<close> when a call does not return).
\<close>

fun parse_sequence ::
  "nat \<Rightarrow> host_env \<Rightarrow>
   (plcrash_async_macho_t \<times> 'ctx plcrash_async_objc_found_method_cb \<times> 'ctx) list \<Rightarrow>
   plcrash_async_objc_cache_t \<Rightarrow> plcrash_async_objc_cache_t list option" where
  "parse_sequence fuel host [] c = Some []"
| "parse_sequence fuel host ((img, callback, ctx) # calls) c =
     (case plcrash_async_objc_parse fuel host img (Some c) callback ctx of
        Some (err, Some c1, ctx1) \<Rightarrow> map_option ((#) c1) (parse_sequence fuel host calls c1)
      | _ \<Rightarrow> None)"

subsection \<open>Class cache entries and the second walk\<close>

text \<open>
  \<open>class_ro_from_rw\<close>: the class_rw structure at \<open>data_ptr\<close> can be copied, is realized and
  points to \<open>ro_addr\<close>, which can be read the way the flags of the class_rw structure ask for
  (copied when \<open>RW_COPIED_RO\<close> is set, else inside the \<open>__objc_const\<close> mapping): \<open>ro_addr\<close>
  is what a miss finds for \<open>data_ptr\<close>. \<open>class_entry_ok\<close>: the cache holds for \<open>data_ptr\<close>
  nothing, or what a miss would find in this image.
\<close>

definition class_ro_from_rw ::
  "plcrash_async_macho_t \<Rightarrow> plcrash_async_mobject_t \<Rightarrow> pl_vm_address_t \<Rightarrow> pl_vm_address_t \<Rightarrow> bool" where
  "class_ro_from_rw img constMobj data_ptr ro_addr =
     (plcrash_async_task_memcpy img data_ptr (sizeof_objc2_class_data_rw (m64 img)) = PLCRASH_ESUCCESS \<and>
      rw_flags (objc2_class_data_rw_at img data_ptr) AND RW_REALIZED \<noteq> 0 \<and>
      data_ro (objc2_class_data_rw_at img data_ptr) = ro_addr \<and>
      (if rw_flags (objc2_class_data_rw_at img data_ptr) AND RW_COPIED_RO \<noteq> 0
       then plcrash_async_task_memcpy img ro_addr (sizeof_objc2_class_data_ro (m64 img)) = PLCRASH_ESUCCESS
       else plcrash_async_mobject_remap_address constMobj ro_addr (sizeof_objc2_class_data_ro (m64 img))))"

definition class_entry_ok ::
  "plcrash_async_macho_t \<Rightarrow> plcrash_async_objc_cache_t \<Rightarrow> pl_vm_address_t \<Rightarrow> bool" where
  "class_entry_ok img c data_ptr =
     (cache_lookup c data_ptr = 0 \<or>
      class_ro_from_rw img (objcConstMobj c) data_ptr (cache_lookup c data_ptr))"

definition same_sections :: "plcrash_async_objc_cache_t \<Rightarrow> plcrash_async_objc_cache_t \<Rightarrow> bool" where
  "same_sections c c' =
     (objcConstMobj c = objcConstMobj c' \<and> objcDataMobj c = objcDataMobj c' \<and>
      classMobj c = classMobj c' \<and> catMobj c = catMobj c' \<and> lastImage c = lastImage c')"

text \<open>
  The relation between the cache of a first walk and the cache of a second walk at the same
  point of the class list, for the class_rw pointers \<open>K\<close> that the walks look up: the
  sections are the same, and for each pointer of \<open>K\<close> either the two caches hold the same
  value under that (non-zero) key, whatever it is, or each holds nothing or what a miss would
  find. Key 0 is apart: it marks an empty bucket, so a value stored under it is lost as soon
  as another key takes the bucket.
\<close>

definition warm_rel ::
  "plcrash_async_macho_t \<Rightarrow> pl_vm_address_t set \<Rightarrow> plcrash_async_objc_cache_t \<Rightarrow>
   plcrash_async_objc_cache_t \<Rightarrow> bool" where
  "warm_rel img K c c' =
     (same_sections c c' \<and>
      (\<forall>d \<in> K. (class_entry_ok img c d \<and> class_entry_ok img c' d) \<or>
             (d \<noteq> 0 \<and> cache_lookup c d = cache_lookup c' d)))"

text \<open>
  The class_rw pointers that the loop over the class list looks up at index \<open>i\<close> (the one of
  the class and the one of its metaclass, masked as the source masks them), and whether one
  of the pointers the walk of the class list looks up is null. \<open>objcContext\<close> is the cache
  with the sections mapped.
\<close>

definition objc2_class_keys ::
  "host_env \<Rightarrow> plcrash_async_macho_t \<Rightarrow> pl_vm_address_t \<Rightarrow> nat \<Rightarrow> pl_vm_address_t list" where
  "objc2_class_keys host img classPtrs i =
     (let ptr = pointer_at img (classPtrs + of_nat i * of_nat (sizeof_pointer (m64 img)));
          cls = objc2_class_at img ptr;
          metaclass = objc2_class_at img (TAGGED_ISA (host_arm64 host) (isa cls))
      in [data_rw cls AND NOT 3, data_rw metaclass AND NOT 3])"

definition has_null_class_rw ::
  "host_env \<Rightarrow> plcrash_async_macho_t \<Rightarrow> plcrash_async_objc_cache_t \<Rightarrow> bool" where
  "has_null_class_rw host img objcContext =
     (let classPtrs = task_address (classMobj objcContext);
          classCount = (unat (mobj_length (classMobj objcContext)) div sizeof_pointer (m64 img))
                         mod 2 ^ 32
      in list_ex (\<lambda>i. 0 \<in> set (objc2_class_keys host img classPtrs i)) [0..<classCount])"

subsection \<open>Images with and without ObjC1 metadata\<close>

text \<open>
  \<open>pl_async_objc_parse_from_module_info\<close> documents its not-found status as: the image does
  not contain ObjC1 metadata. These are the two places where the source answers it before the
  loop over the modules: the \<open>__module_info\<close> section is not found, or it is too short for one
  module structure.
\<close>

definition objc1_metadata_absent :: "plcrash_async_macho_t \<Rightarrow> bool" where
  "objc1_metadata_absent img =
     (case plcrash_async_macho_map_section img kObjCSegmentName kObjCModuleInfoSectionName of
        (err, moduleMobj) \<Rightarrow>
          err = PLCRASH_ENOTFOUND \<or>
          (err = PLCRASH_ESUCCESS \<and>
           \<not> plcrash_async_mobject_remap_address moduleMobj (task_address moduleMobj)
               sizeof_objc1_module))"

subsection \<open>Callbacks related by a relation on their contexts\<close>

definition cb_rel ::
  "('a \<Rightarrow> 'b \<Rightarrow> bool) \<Rightarrow> 'a plcrash_async_objc_found_method_cb \<Rightarrow>
   'b plcrash_async_objc_found_method_cb \<Rightarrow> bool" where
  "cb_rel R cb1 cb2 = (\<forall>b c m i x y. R x y \<longrightarrow> R (cb1 b c m i x) (cb2 b c m i y))"

section \<open>Concrete images and caches\<close>

text \<open>
  The inputs at which the theorems below are evaluated: a cache and structures of zeroes, a
  host, and small images. An address that an image does not list is unmapped: a cross-task
  copy there answers not-found.
\<close>

definition zeroed_mobject :: plcrash_async_mobject_t where
  "zeroed_mobject = \<lparr>task_address = 0, mobj_length = 0\<rparr>"

definition zeroed_cache :: plcrash_async_objc_cache_t where
  "zeroed_cache =
     \<lparr>gotObjC2Info = False, lastImage = None,
      objcConstMobj = zeroed_mobject, objcConstMobjInitialized = False,
      classMobj = zeroed_mobject, classMobjInitialized = False,
      catMobj = zeroed_mobject, catMobjInitialized = False,
      objcDataMobj = zeroed_mobject, objcDataMobjInitialized = False,
      classCacheSize = 0, classCacheKeys = None, classCacheValues = None\<rparr>"

definition zeroed_objc1_class :: pl_objc1_class where
  "zeroed_objc1_class =
     \<lparr>objc1_isa = 0, objc1_super = 0, objc1_name = 0, objc1_version = 0, objc1_info = 0,
      objc1_instance_size = 0, objc1_ivars = 0, objc1_methods = 0, objc1_cache = 0,
      objc1_protocols = 0\<rparr>"

definition zeroed_objc2_class_data_ro :: pl_objc2_class_data_ro where
  "zeroed_objc2_class_data_ro =
     \<lparr>ro_flags = 0, instanceStart = 0, instanceSize = 0, ivarLayout = 0, ro_name = 0,
      baseMethods = 0, baseProtocols = 0, ro_ivars = 0, weakIvarLayout = 0, baseProperties = 0\<rparr>"

definition host0 :: host_env where
  "host0 = \<lparr>host_arm64 = False, vm_allocate_ok = True\<rparr>"

definition unmapped_image :: plcrash_async_macho_t where
  "unmapped_image =
     \<lparr>image_ptr = 1, m64 = False,
      section_status = (\<lambda>seg sect. PLCRASH_ENOTFOUND),
      section_mobj = (\<lambda>seg sect. zeroed_mobject),
      memcpy_status = (\<lambda>address len. PLCRASH_ENOTFOUND),
      string_status = (\<lambda>address. PLCRASH_ESUCCESS),
      string_at = (\<lambda>address. []),
      uint32_at = (\<lambda>address. 0),
      pointer_at = (\<lambda>address. 0),
      objc1_module_at = (\<lambda>address. \<lparr>mod_version = 0, mod_size = 0, mod_name = 0, mod_symtab = 0\<rparr>),
      objc1_symtab_at = (\<lambda>address. \<lparr>sel_ref_cnt = 0, refs = 0, cls_def_count = 0, cat_def_count = 0\<rparr>),
      objc1_class_at = (\<lambda>address. zeroed_objc1_class),
      objc1_method_list_at = (\<lambda>address. \<lparr>obsolete = 0, method_count = 0\<rparr>),
      objc1_method_at = (\<lambda>address. \<lparr>objc1_method_name = 0, objc1_method_types = 0, objc1_method_imp = 0\<rparr>),
      objc2_class_at = (\<lambda>address. \<lparr>isa = 0, superclass = 0, objc2_cache = 0, vtable = 0, data_rw = 0\<rparr>),
      objc2_class_data_rw_at = (\<lambda>address. \<lparr>rw_flags = 0, rw_version = 0, data_ro = 0\<rparr>),
      objc2_class_data_ro_at = (\<lambda>address. zeroed_objc2_class_data_ro),
      objc2_list_header_at = (\<lambda>address. \<lparr>list_entsize = 0, list_count = 0\<rparr>),
      objc2_method_at = (\<lambda>address. \<lparr>method_name = 0, method_types = 0, method_imp = 0\<rparr>)\<rparr>"

text \<open>
  Scenario 1 of the spec: a 32-bit ObjC1 image with one class \<open>Foo\<close>, whose methods
  \<open>bar\<close> (IMP 0x1000) and \<open>baz\<close> (IMP 0x2000) are in a single method list, and whose
  metaclass has the method \<open>qux\<close> (IMP 0x3000) in an array of method lists.
\<close>

definition objc1_image :: plcrash_async_macho_t where
  "objc1_image = unmapped_image
     \<lparr>section_status := (\<lambda>seg sect.
          if seg = ''__OBJC'' \<and> sect = ''__module_info'' then PLCRASH_ESUCCESS else PLCRASH_ENOTFOUND),
      section_mobj := (\<lambda>seg sect. \<lparr>task_address = 0x100, mobj_length = 16\<rparr>),
      memcpy_status := (\<lambda>address len.
          if address \<in> {0x200, 0x20C, 0x300, 0x400, 0x600, 0x608, 0x614, 0x700, 0x704, 0x710, 0x718}
          then PLCRASH_ESUCCESS else PLCRASH_ENOTFOUND),
      string_at := (\<lambda>address.
          if address = 0x500 then ''Foo'' else if address = 0x510 then ''bar''
          else if address = 0x520 then ''baz'' else if address = 0x530 then ''qux'' else []),
      uint32_at := (\<lambda>address.
          if address = 0x20C then 0x300 else if address = 0x700 then 0x710 else 0),
      objc1_module_at := (\<lambda>address.
          \<lparr>mod_version = 0, mod_size = 16, mod_name = 0,
           mod_symtab = (if address = 0x100 then 0x200 else 0)\<rparr>),
      objc1_symtab_at := (\<lambda>address.
          \<lparr>sel_ref_cnt = 0, refs = 0, cls_def_count = (if address = 0x200 then 1 else 0),
           cat_def_count = 0\<rparr>),
      objc1_class_at := (\<lambda>address.
          if address = 0x300
          then zeroed_objc1_class\<lparr>objc1_isa := 0x400, objc1_name := 0x500, objc1_info := 0x4000,
                                   objc1_methods := 0x600\<rparr>
          else if address = 0x400
          then zeroed_objc1_class\<lparr>objc1_name := 0x500, objc1_methods := 0x700\<rparr>
          else zeroed_objc1_class),
      objc1_method_list_at := (\<lambda>address.
          \<lparr>obsolete = 0,
           method_count = (if address = 0x600 then 2 else if address = 0x710 then 1 else 0)\<rparr>),
      objc1_method_at := (\<lambda>address.
          if address = 0x608
          then \<lparr>objc1_method_name = 0x510, objc1_method_types = 0, objc1_method_imp = 0x1000\<rparr>
          else if address = 0x614
          then \<lparr>objc1_method_name = 0x520, objc1_method_types = 0, objc1_method_imp = 0x2000\<rparr>
          else if address = 0x718
          then \<lparr>objc1_method_name = 0x530, objc1_method_types = 0, objc1_method_imp = 0x3000\<rparr>
          else \<lparr>objc1_method_name = 0, objc1_method_types = 0, objc1_method_imp = 0\<rparr>)\<rparr>"

text \<open>
  The same ObjC1 metadata in an image whose metaclass structure is unmapped, and which also
  has the four ObjC2 sections, all of them empty; and the cache one parse of it leaves.
\<close>

definition mixed_image :: plcrash_async_macho_t where
  "mixed_image = objc1_image
     \<lparr>section_status := (\<lambda>seg sect. PLCRASH_ESUCCESS),
      section_mobj := (\<lambda>seg sect.
          if sect = ''__module_info'' then \<lparr>task_address = 0x100, mobj_length = 16\<rparr>
          else \<lparr>task_address = 0x1000, mobj_length = 0\<rparr>),
      memcpy_status := (\<lambda>address len.
          if address \<in> {0x200, 0x20C, 0x300, 0x600, 0x608, 0x614}
          then PLCRASH_ESUCCESS else PLCRASH_ENOTFOUND)\<rparr>"

definition mixed_cache1 :: plcrash_async_objc_cache_t where
  "mixed_cache1 = zeroed_cache
     \<lparr>gotObjC2Info := True, lastImage := Some 1,
      objcConstMobj := \<lparr>task_address = 0x1000, mobj_length = 0\<rparr>, objcConstMobjInitialized := True,
      classMobj := \<lparr>task_address = 0x1000, mobj_length = 0\<rparr>, classMobjInitialized := True,
      catMobj := \<lparr>task_address = 0x1000, mobj_length = 0\<rparr>, catMobjInitialized := True,
      objcDataMobj := \<lparr>task_address = 0x1000, mobj_length = 0\<rparr>, objcDataMobjInitialized := True\<rparr>"

text \<open>
  Scenario 5 of the spec: a 64-bit ObjC2 image with one realized class \<open>Bar\<close> whose method
  list holds \<open>hello\<close> (IMP 0xdeadbe00, entsize 24); and the cache one parse of it leaves.
  Every class structure but the one at 0x2000 and the metaclass at 0x2040 has an unrealized
  class_rw structure (at 0x8040).
\<close>

definition objc2_image :: plcrash_async_macho_t where
  "objc2_image = unmapped_image
     \<lparr>image_ptr := 2, m64 := True,
      section_status := (\<lambda>seg sect.
          if seg = ''__DATA'' \<and> sect \<in> {''__objc_const'', ''__objc_classlist'', ''__objc_catlist'', ''__objc_data''}
          then PLCRASH_ESUCCESS else PLCRASH_ENOTFOUND),
      section_mobj := (\<lambda>seg sect.
          if sect = ''__objc_const'' then \<lparr>task_address = 0x3000, mobj_length = 0x1000\<rparr>
          else if sect = ''__objc_classlist'' then \<lparr>task_address = 0x1000, mobj_length = 8\<rparr>
          else if sect = ''__objc_catlist'' then \<lparr>task_address = 0x1100, mobj_length = 0\<rparr>
          else \<lparr>task_address = 0x2000, mobj_length = 0x1000\<rparr>),
      memcpy_status := (\<lambda>address len.
          if address \<in> {0x8000, 0x8020, 0x8040} then PLCRASH_ESUCCESS else PLCRASH_ENOTFOUND),
      string_at := (\<lambda>address.
          if address = 0x5000 then ''Bar'' else if address = 0x5010 then ''hello'' else []),
      pointer_at := (\<lambda>address. if address = 0x1000 then 0x2000 else 0),
      objc2_class_at := (\<lambda>address.
          \<lparr>isa = 0x2040, superclass = 0, objc2_cache = 0, vtable = 0,
           data_rw = (if address = 0x2000 then 0x8000 else if address = 0x2040 then 0x8020
                      else 0x8040)\<rparr>),
      objc2_class_data_rw_at := (\<lambda>address.
          \<lparr>rw_flags = (if address = 0x8000 \<or> address = 0x8020 then 0x80000000 else 0),
           rw_version = 0,
           data_ro = (if address = 0x8000 then 0x3000 else 0x3100)\<rparr>),
      objc2_class_data_ro_at := (\<lambda>address.
          zeroed_objc2_class_data_ro
            \<lparr>ro_name := 0x5000, baseMethods := (if address = 0x3000 then 0x3200 else 0)\<rparr>),
      objc2_list_header_at := (\<lambda>address. \<lparr>list_entsize = 24, list_count = 1\<rparr>),
      objc2_method_at := (\<lambda>address.
          \<lparr>method_name = 0x5010, method_types = 0, method_imp = 0xdeadbe00\<rparr>)\<rparr>"

definition objc2_cache1 :: plcrash_async_objc_cache_t where
  "objc2_cache1 = zeroed_cache
     \<lparr>gotObjC2Info := True, lastImage := Some 2,
      objcConstMobj := \<lparr>task_address = 0x3000, mobj_length = 0x1000\<rparr>, objcConstMobjInitialized := True,
      classMobj := \<lparr>task_address = 0x1000, mobj_length = 8\<rparr>, classMobjInitialized := True,
      catMobj := \<lparr>task_address = 0x1100, mobj_length = 0\<rparr>, catMobjInitialized := True,
      objcDataMobj := \<lparr>task_address = 0x2000, mobj_length = 0x1000\<rparr>, objcDataMobjInitialized := True,
      classCacheSize := 1024,
      classCacheKeys := Some ((\<lambda>i. 0)(0 := 0x8000, 8 := 0x8020)),
      classCacheValues := Some ((\<lambda>i. 0)(0 := 0x3000, 8 := 0x3100))\<rparr>"

text \<open>Variants of that image: the method at IMP 0; an unrealized class first in the class list;
  two categories in the category list; no category list section.\<close>

definition imp_zero_image :: plcrash_async_macho_t where
  "imp_zero_image = objc2_image
     \<lparr>objc2_method_at := (\<lambda>address.
          \<lparr>method_name = 0x5010, method_types = 0, method_imp = 0\<rparr>)\<rparr>"

definition unrealized_first_image :: plcrash_async_macho_t where
  "unrealized_first_image = objc2_image
     \<lparr>section_mobj := (\<lambda>seg sect.
          if sect = ''__objc_classlist'' then \<lparr>task_address = 0x1000, mobj_length = 16\<rparr>
          else section_mobj objc2_image seg sect),
      pointer_at := (\<lambda>address.
          if address = 0x1000 then 0x2080 else if address = 0x1008 then 0x2000 else 0)\<rparr>"

definition category_image :: plcrash_async_macho_t where
  "category_image = objc2_image
     \<lparr>section_mobj := (\<lambda>seg sect.
          if sect = ''__objc_catlist'' then \<lparr>task_address = 0x1100, mobj_length = 16\<rparr>
          else section_mobj objc2_image seg sect),
      pointer_at := (\<lambda>address.
          if address = 0x1000 then 0x2000 else if address = 0x1100 then 0x2100
          else if address = 0x1108 then 0x2120 else 0)\<rparr>"

definition catlist_missing_image :: plcrash_async_macho_t where
  "catlist_missing_image = objc2_image
     \<lparr>section_status := (\<lambda>seg sect.
          if sect = ''__objc_catlist'' then PLCRASH_ENOTFOUND
          else section_status objc2_image seg sect)\<rparr>"

text \<open>
  An image whose first class has a metaclass with a null class_rw pointer, and whose second
  class has its class_rw structure in bucket 0 of the class cache; a cache whose bucket 0 holds
  a value under the key 0; and the cache one parse of the image leaves from there.
\<close>

definition evicting_image :: plcrash_async_macho_t where
  "evicting_image = objc2_image
     \<lparr>section_mobj := (\<lambda>seg sect.
          if sect = ''__objc_classlist'' then \<lparr>task_address = 0x1000, mobj_length = 16\<rparr>
          else section_mobj objc2_image seg sect),
      memcpy_status := (\<lambda>address len.
          if address \<in> {0x8000, 0x8020} then PLCRASH_ESUCCESS else PLCRASH_ENOTFOUND),
      pointer_at := (\<lambda>address.
          if address = 0x1000 then 0x2000 else if address = 0x1008 then 0x2080 else 0),
      objc2_class_at := (\<lambda>address.
          if address = 0x2000
          then \<lparr>isa = 0x2040, superclass = 0, objc2_cache = 0, vtable = 0, data_rw = 0x8020\<rparr>
          else if address = 0x2040
          then \<lparr>isa = 0x2040, superclass = 0, objc2_cache = 0, vtable = 0, data_rw = 0\<rparr>
          else \<lparr>isa = 0x2080, superclass = 0, objc2_cache = 0, vtable = 0, data_rw = 0x8000\<rparr>),
      objc2_class_data_rw_at := (\<lambda>address.
          \<lparr>rw_flags = 0x80000000, rw_version = 0,
           data_ro = (if address = 0x8020 then 0x3000 else 0x3100)\<rparr>)\<rparr>"

definition stale_cache :: plcrash_async_objc_cache_t where
  "stale_cache = zeroed_cache
     \<lparr>classCacheSize := 1024, classCacheKeys := Some (\<lambda>i. 0),
      classCacheValues := Some ((\<lambda>i. 0)(0 := 0x3100))\<rparr>"

definition evicting_cache1 :: plcrash_async_objc_cache_t where
  "evicting_cache1 = zeroed_cache
     \<lparr>gotObjC2Info := True, lastImage := Some 2,
      objcConstMobj := \<lparr>task_address = 0x3000, mobj_length = 0x1000\<rparr>, objcConstMobjInitialized := True,
      classMobj := \<lparr>task_address = 0x1000, mobj_length = 16\<rparr>, classMobjInitialized := True,
      catMobj := \<lparr>task_address = 0x1100, mobj_length = 0\<rparr>, catMobjInitialized := True,
      objcDataMobj := \<lparr>task_address = 0x2000, mobj_length = 0x1000\<rparr>, objcDataMobjInitialized := True,
      classCacheSize := 1024,
      classCacheKeys := Some ((\<lambda>i. 0)(8 := 0x8020, 0 := 0x8000)),
      classCacheValues := Some ((\<lambda>i. 0)(0 := 0x3100, 8 := 0x3000, 0 := 0x3100))\<rparr>"

text \<open>
  The same with the method list in the second class instead of the first, and the cache one
  parse of that image leaves from a cache with the value 0x3100 under the key 0.
\<close>

definition evicting_image2 :: plcrash_async_macho_t where
  "evicting_image2 = evicting_image
     \<lparr>objc2_class_data_rw_at := (\<lambda>address.
          \<lparr>rw_flags = 0x80000000, rw_version = 0,
           data_ro = (if address = 0x8000 then 0x3000 else 0x3100)\<rparr>)\<rparr>"

definition evicting_cache2 :: plcrash_async_objc_cache_t where
  "evicting_cache2 = evicting_cache1
     \<lparr>classCacheValues := Some ((\<lambda>i. 0)(0 := 0x3100, 8 := 0x3100, 0 := 0x3000))\<rparr>"

text \<open>
  An image whose classes all have a null class_rw pointer, in a target where address 0 can be
  read and holds a realized class_rw structure: one parse of it from a new cache leaves the
  value 0x3100 in bucket 0 under the key 0.
\<close>

definition null_rw_image :: plcrash_async_macho_t where
  "null_rw_image = objc2_image
     \<lparr>image_ptr := 4,
      memcpy_status := (\<lambda>address len.
          if address = 0 then PLCRASH_ESUCCESS else PLCRASH_ENOTFOUND),
      objc2_class_at := (\<lambda>address.
          \<lparr>isa = 0x2040, superclass = 0, objc2_cache = 0, vtable = 0, data_rw = 0\<rparr>),
      objc2_class_data_rw_at := (\<lambda>address.
          \<lparr>rw_flags = 0x80000000, rw_version = 0, data_ro = 0x3100\<rparr>)\<rparr>"

definition null_rw_cache1 :: plcrash_async_objc_cache_t where
  "null_rw_cache1 = zeroed_cache
     \<lparr>gotObjC2Info := True, lastImage := Some 4,
      objcConstMobj := \<lparr>task_address = 0x3000, mobj_length = 0x1000\<rparr>, objcConstMobjInitialized := True,
      classMobj := \<lparr>task_address = 0x1000, mobj_length = 8\<rparr>, classMobjInitialized := True,
      catMobj := \<lparr>task_address = 0x1100, mobj_length = 0\<rparr>, catMobjInitialized := True,
      objcDataMobj := \<lparr>task_address = 0x2000, mobj_length = 0x1000\<rparr>, objcDataMobjInitialized := True,
      classCacheSize := 1024,
      classCacheKeys := Some (\<lambda>i. 0),
      classCacheValues := Some ((\<lambda>i. 0)(0 := 0x3100))\<rparr>"

text \<open>
  The ObjC2 image of scenario 5 with a metaclass pointer outside the \<open>__objc_data\<close> section
  (the walk presents \<open>hello\<close> and then fails), the cache one parse of it leaves, and the
  same with the method at IMP 0.
\<close>

definition bad_isa_image :: plcrash_async_macho_t where
  "bad_isa_image = objc2_image
     \<lparr>objc2_class_at := (\<lambda>address.
          \<lparr>isa = 0x9000, superclass = 0, objc2_cache = 0, vtable = 0,
           data_rw = (if address = 0x2000 then 0x8000 else 0x8040)\<rparr>)\<rparr>"

definition bad_isa_cache1 :: plcrash_async_objc_cache_t where
  "bad_isa_cache1 = zeroed_cache
     \<lparr>lastImage := Some 2,
      objcConstMobj := \<lparr>task_address = 0x3000, mobj_length = 0x1000\<rparr>, objcConstMobjInitialized := True,
      classMobj := \<lparr>task_address = 0x1000, mobj_length = 8\<rparr>, classMobjInitialized := True,
      catMobj := \<lparr>task_address = 0x1100, mobj_length = 0\<rparr>, catMobjInitialized := True,
      objcDataMobj := \<lparr>task_address = 0x2000, mobj_length = 0x1000\<rparr>, objcDataMobjInitialized := True,
      classCacheSize := 1024,
      classCacheKeys := Some ((\<lambda>i. 0)(0 := 0x8000)),
      classCacheValues := Some ((\<lambda>i. 0)(0 := 0x3000))\<rparr>"

definition imp_zero_bad_isa_image :: plcrash_async_macho_t where
  "imp_zero_bad_isa_image = bad_isa_image
     \<lparr>objc2_method_at := (\<lambda>address.
          \<lparr>method_name = 0x5010, method_types = 0, method_imp = 0\<rparr>)\<rparr>"

text \<open>
  Another image at the same addresses as the image of scenario 5, whose class_rw structure at
  0x8000 points to the class_ro structure at 0x3100 (which has no methods): what
  \<open>objc2_cache1\<close> holds for 0x8000 is not what a miss finds in this image.
\<close>

definition second_image :: plcrash_async_macho_t where
  "second_image = objc2_image
     \<lparr>image_ptr := 3,
      objc2_class_data_rw_at := (\<lambda>address.
          \<lparr>rw_flags = (if address = 0x8000 \<or> address = 0x8020 then 0x80000000 else 0),
           rw_version = 0, data_ro = 0x3100\<rparr>)\<rparr>"

section \<open>Lemmas\<close>

subsection \<open>Walks with related callbacks\<close>

lemma cb_relD: "cb_rel R cb1 cb2 \<Longrightarrow> R x y \<Longrightarrow> R (cb1 b c m i x) (cb2 b c m i y)"
  by (simp add: cb_rel_def)

lemma obj1_methods_loop_rel:
  assumes "cb_rel R cb1 cb2"
  shows "R x y \<Longrightarrow>
    rel_prod (=) R (obj1_methods_loop img isMeta cn cb1 p is x)
                   (obj1_methods_loop img isMeta cn cb2 p is y)"
proof (induction "is" arbitrary: x y)
  case Nil
  then show ?case by simp
next
  case (Cons i rest)
  show ?case
    using Cons.IH[OF cb_relD[OF assms Cons.prems]] Cons.prems
    by (simp add: Let_def)
qed

lemma obj1_method_list_rel:
  assumes "cb_rel R cb1 cb2" and "R x y"
  shows "rel_prod (=) R (obj1_method_list img isMeta cn cb1 p x)
                        (obj1_method_list img isMeta cn cb2 p y)"
  using obj1_methods_loop_rel[OF assms] assms(2)
  by (simp add: obj1_method_list_def Let_def)

lemma obj1_method_lists_loop_rel:
  assumes "cb_rel R cb1 cb2"
  shows "R x y \<Longrightarrow>
    rel_option (rel_prod (=) R)
      (obj1_method_lists_loop fuel img multi isMeta cn cb1 cur x)
      (obj1_method_lists_loop fuel img multi isMeta cn cb2 cur y)"
proof (induction fuel arbitrary: x y cur)
  case 0
  then show ?case by simp
next
  case (Suc fuel)
  note ml = obj1_method_list_rel[OF assms Suc.prems, of img isMeta cn]
  show ?case
  proof (cases multi)
    case False
    then show ?thesis using ml Suc.prems by (simp add: Let_def)
  next
    case True
    let ?p = "ucast (uint32_at img cur) :: pl_vm_address_t"
    obtain e1 x1 where r1: "obj1_method_list img isMeta cn cb1 ?p x = (e1, x1)" by fastforce
    obtain e2 y1 where r2: "obj1_method_list img isMeta cn cb2 ?p y = (e2, y1)" by fastforce
    from ml[of ?p] r1 r2 have e: "e1 = e2" and r: "R x1 y1" by auto
    show ?thesis using True Suc.prems Suc.IH[OF r] r1 r2 e r
      by (simp add: Let_def)
  qed
qed

lemma pl_async_parse_obj1_class_rel:
  assumes "cb_rel R cb1 cb2" and "R x y"
  shows "rel_option (rel_prod (=) R)
      (pl_async_parse_obj1_class fuel img cls isMeta cb1 x)
      (pl_async_parse_obj1_class fuel img cls isMeta cb2 y)"
  using obj1_method_lists_loop_rel[OF assms] assms(2)
  by (simp add: pl_async_parse_obj1_class_def Let_def)

lemma rel_option_prodE:
  assumes "rel_option (rel_prod (=) R) a b"
  obtains "a = None" "b = None"
  | e x y where "a = Some (e, x)" "b = Some (e, y)" "R x y"
  using assms by (cases a; cases b) auto

lemma objc1_classes_loop_rel:
  assumes "cb_rel R cb1 cb2"
  shows "R x y \<Longrightarrow>
    rel_option (rel_prod (=) R)
      (objc1_classes_loop fuel img cb1 sp is x)
      (objc1_classes_loop fuel img cb2 sp is y)"
proof (induction "is" arbitrary: x y)
  case Nil
  then show ?case by simp
next
  case (Cons i rest)
  let ?cursor = "sp + of_nat sizeof_objc1_symtab + of_nat i * 4"
  let ?classPtr = "ucast (uint32_at img ?cursor) :: pl_vm_address_t"
  let ?cls = "objc1_class_at img ?classPtr"
  let ?isa = "ucast (objc1_isa ?cls) :: pl_vm_address_t"
  let ?meta = "objc1_class_at img ?isa"
  from pl_async_parse_obj1_class_rel[OF assms Cons.prems, of fuel img ?cls False]
  show ?case
  proof (cases rule: rel_option_prodE)
    case 1
    then show ?thesis using Cons.prems by (simp add: Let_def)
  next
    case (2 e x1 y1)
    from pl_async_parse_obj1_class_rel[OF assms 2(3), of fuel img ?meta True]
    show ?thesis
    proof (cases rule: rel_option_prodE)
      case 1
      then show ?thesis using 2 Cons.prems by (simp add: Let_def)
    next
      case (2 e' x2 y2)
      then show ?thesis using \<open>R x1 y1\<close>
          \<open>pl_async_parse_obj1_class fuel img ?cls False cb1 x = Some (e, x1)\<close>
          \<open>pl_async_parse_obj1_class fuel img ?cls False cb2 y = Some (e, y1)\<close>
          Cons.prems Cons.IH[OF 2(3)]
        by (simp add: Let_def)
    qed
  qed
qed

lemma objc1_modules_loop_rel:
  assumes "cb_rel R cb1 cb2"
  shows "R x y \<Longrightarrow>
    rel_option (rel_prod (=) R)
      (objc1_modules_loop fuel img cb1 mobj is x)
      (objc1_modules_loop fuel img cb2 mobj is y)"
proof (induction "is" arbitrary: x y)
  case Nil
  then show ?case by simp
next
  case (Cons i rest)
  let ?sp = "ucast (mod_symtab (objc1_module_at img
               (task_address mobj + of_nat i * of_nat sizeof_objc1_module))) :: pl_vm_address_t"
  let ?n = "unat (cls_def_count (objc1_symtab_at img ?sp))"
  from objc1_classes_loop_rel[OF assms Cons.prems, of fuel img ?sp "[0..<?n]"]
  show ?case
  proof (cases rule: rel_option_prodE)
    case 1
    then show ?thesis using Cons.prems Cons.IH[OF Cons.prems] by (simp add: Let_def)
  next
    case (2 e x1 y1)
    then show ?thesis using Cons.prems Cons.IH[OF Cons.prems] Cons.IH[OF 2(3)]
      by (simp add: Let_def)
  qed
qed

lemma pl_async_objc_parse_from_module_info_rel:
  assumes "cb_rel R cb1 cb2" and "R x y"
  shows "rel_option (rel_prod (=) R)
      (pl_async_objc_parse_from_module_info fuel img cb1 x)
      (pl_async_objc_parse_from_module_info fuel img cb2 y)"
proof -
  let ?mobj = "section_mobj img kObjCSegmentName kObjCModuleInfoSectionName"
  let ?n = "unat (mobj_length ?mobj) div sizeof_objc1_module"
  have a: "rel_option (rel_prod (=) R)
      (objc1_modules_loop fuel img cb1 ?mobj [0..<?n] x)
      (objc1_modules_loop fuel img cb2 ?mobj [0..<?n] y)"
    by (rule objc1_modules_loop_rel[OF assms])
  from objc1_modules_loop_rel[OF assms, of fuel img ?mobj "[0..<2 ^ 32]"]
  have b: "rel_option (rel_prod (=) R)
     (case objc1_modules_loop fuel img cb1 ?mobj [0..<2 ^ 32] x of
                None \<Rightarrow> None
              | Some (err, ctx1) \<Rightarrow> if err \<noteq> PLCRASH_ESUCCESS then Some (err, ctx1) else None)
     (case objc1_modules_loop fuel img cb2 ?mobj [0..<2 ^ 32] y of
                None \<Rightarrow> None
              | Some (err, ctx1) \<Rightarrow> if err \<noteq> PLCRASH_ESUCCESS then Some (err, ctx1) else None)"
    by (cases rule: rel_option_prodE) auto
  show ?thesis
    using a b assms(2)
    by (simp add: pl_async_objc_parse_from_module_info_def plcrash_async_macho_map_section_def
        Let_def)
qed

lemma objc2_methods_loop_rel:
  assumes "cb_rel R cb1 cb2"
  shows "R x y \<Longrightarrow>
    rel_prod (=) R (objc2_methods_loop img cn isMeta cb1 st es is x)
                   (objc2_methods_loop img cn isMeta cb2 st es is y)"
proof (induction "is" arbitrary: x y)
  case Nil
  then show ?case by simp
next
  case (Cons i rest)
  show ?case
    using Cons.IH[OF cb_relD[OF assms Cons.prems]] Cons.prems
    by (simp add: Let_def)
qed

lemma pl_async_objc_parse_objc2_method_list_rel:
  assumes "cb_rel R cb1 cb2" and "R x y"
  shows "rel_prod (=) R (pl_async_objc_parse_objc2_method_list img c cn isMeta a cb1 x)
                        (pl_async_objc_parse_objc2_method_list img c cn isMeta a cb2 y)"
  using objc2_methods_loop_rel[OF assms] assms(2)
  by (simp add: pl_async_objc_parse_objc2_method_list_def Let_def)

lemma rel_prod3E:
  assumes "rel_prod (=) R a b"
  obtains e x y where "a = (e, x)" "b = (e, y)" "R x y"
  using assms by (cases a; cases b) auto

lemma pl_async_objc_parse_objc2_class_rel:
  assumes "cb_rel R cb1 cb2" and "R x y"
  shows "rel_prod (=) (rel_prod (=) R)
           (pl_async_objc_parse_objc2_class host img c cls isMeta cb1 x)
           (pl_async_objc_parse_objc2_class host img c cls isMeta cb2 y)"
proof -
  obtain e c1 ro where d: "objc2_class_data_ro host img c (data_rw cls AND NOT 3) = (e, c1, ro)"
    by (cases "objc2_class_data_ro host img c (data_rw cls AND NOT 3)") auto
  let ?ro = "objc2_class_data_ro_at img ro"
  from pl_async_objc_parse_objc2_method_list_rel[OF assms, of img c1
      "string_at img (ro_name ?ro)" isMeta "baseMethods ?ro"]
  show ?thesis
  proof (cases rule: rel_prod3E)
    case (1 e' x1 y1)
    then show ?thesis using d assms(2)
      by (simp add: pl_async_objc_parse_objc2_class_def Let_def)
  qed
qed

lemma rel_prod4E:
  assumes "rel_prod (=) (rel_prod (=) R) a b"
  obtains e c x y where "a = (e, c, x)" "b = (e, c, y)" "R x y"
  using assms by (cases a; cases b) auto

lemma objc2_classes_loop_rel:
  assumes "cb_rel R cb1 cb2"
  shows "R x y \<Longrightarrow>
    rel_prod (=) (rel_prod (=) R)
      (objc2_classes_loop host img cb1 base is c x)
      (objc2_classes_loop host img cb2 base is c y)"
proof (induction "is" arbitrary: x y c)
  case Nil
  then show ?case by simp
next
  case (Cons i rest)
  let ?ptr = "pointer_at img (base + of_nat i * of_nat (sizeof_pointer (m64 img)))"
  let ?cls = "objc2_class_at img ?ptr"
  let ?meta = "objc2_class_at img (TAGGED_ISA (host_arm64 host) (isa ?cls))"
  from pl_async_objc_parse_objc2_class_rel[OF assms Cons.prems, of host img c ?cls False]
  show ?case
  proof (cases rule: rel_prod4E)
    case (1 e c1 x1 y1)
    from pl_async_objc_parse_objc2_class_rel[OF assms 1(3), of host img c1 ?meta True]
    show ?thesis
    proof (cases rule: rel_prod4E)
      case (1 e' c2 x2 y2)
      then show ?thesis
        using \<open>pl_async_objc_parse_objc2_class host img c ?cls False cb1 x = (e, c1, x1)\<close>
          \<open>pl_async_objc_parse_objc2_class host img c ?cls False cb2 y = (e, c1, y1)\<close>
          \<open>R x1 y1\<close> Cons.prems Cons.IH[OF 1(3), of c2]
        by (simp add: Let_def)
    qed
  qed
qed

lemma objc2_categories_loop_indep:
  "objc2_categories_loop img c cb1 base is x = objc2_categories_loop img c cb2 base is y"
  by (induction "is") (simp_all add: Let_def pl_async_objc_parse_objc2_category_def)

lemma pl_async_objc_parse_from_data_section_rel:
  assumes "cb_rel R cb1 cb2" and "R x y"
  shows "rel_prod (=) (rel_prod (=) R)
      (pl_async_objc_parse_from_data_section host img c cb1 x)
      (pl_async_objc_parse_from_data_section host img c cb2 y)"
proof -
  obtain e0 c0 where m: "map_sections img c = (e0, c0)" by (cases "map_sections img c") auto
  let ?n = "(unat (mobj_length (classMobj c0)) div sizeof_pointer (m64 img)) mod 2 ^ 32"
  from objc2_classes_loop_rel[OF assms, of host img "task_address (classMobj c0)" "[0..<?n]" c0]
  show ?thesis
  proof (cases rule: rel_prod4E)
    case (1 e c1 x1 y1)
    then show ?thesis using m assms(2)
      objc2_categories_loop_indep[of img c1 cb1 "task_address (classMobj c0)" _ x1 cb2 y1]
      by (simp add: pl_async_objc_parse_from_data_section_def Let_def)
  qed
qed

lemma plcrash_async_objc_parse_rel:
  assumes "cb_rel R cb1 cb2" and "R x y"
  shows "rel_option (rel_prod (=) (rel_prod (=) R))
      (plcrash_async_objc_parse fuel host img cache cb1 x)
      (plcrash_async_objc_parse fuel host img cache cb2 y)"
proof (cases cache)
  case None
  then show ?thesis using assms(2) by (simp add: plcrash_async_objc_parse_def)
next
  case (Some c)
  have ds: "\<And>x1 y1. R x1 y1 \<Longrightarrow> rel_option (rel_prod (=) (rel_prod (=) R))
     (case pl_async_objc_parse_from_data_section host img c cb1 x1 of
                    (err, c1, ctx2) \<Rightarrow>
                      if err = PLCRASH_ESUCCESS
                      then Some (err, Some (c1\<lparr>gotObjC2Info := True\<rparr>), ctx2)
                      else Some (err, Some c1, ctx2))
     (case pl_async_objc_parse_from_data_section host img c cb2 y1 of
                    (err, c1, ctx2) \<Rightarrow>
                      if err = PLCRASH_ESUCCESS
                      then Some (err, Some (c1\<lparr>gotObjC2Info := True\<rparr>), ctx2)
                      else Some (err, Some c1, ctx2))"
  proof -
    fix x1 y1 assume r: "R x1 y1"
    from pl_async_objc_parse_from_data_section_rel[OF assms(1) r, of host img c]
    show "?thesis x1 y1" by (cases rule: rel_prod4E) simp
  qed
  show ?thesis
  proof (cases "gotObjC2Info c")
    case True
    then show ?thesis using Some ds[OF assms(2)] by (simp add: plcrash_async_objc_parse_def)
  next
    case False
    from pl_async_objc_parse_from_module_info_rel[OF assms, of fuel img]
    show ?thesis
    proof (cases rule: rel_option_prodE)
      case 1
      then show ?thesis using Some False by (simp add: plcrash_async_objc_parse_def)
    next
      case (2 e x1 y1)
      then show ?thesis using Some False ds[OF 2(3)]
        by (simp add: plcrash_async_objc_parse_def)
    qed
  qed
qed

subsection \<open>Enumeration, and the two callbacks of the finder\<close>

lemma cb_rel_collect:
  "cb_rel (\<lambda>x ms. x = fold (invoke cb) ms ctx) cb collect_method"
  by (simp add: cb_rel_def collect_method_def invoke_def)

lemma parse_enumerate:
  "plcrash_async_objc_parse fuel host img cache cb ctx =
     map_option (\<lambda>(err, cache', ms). (err, cache', fold (invoke cb) ms ctx))
       (plcrash_async_objc_enumerate fuel host img cache)"
proof -
  have "rel_option (rel_prod (=) (rel_prod (=) (\<lambda>x ms. x = fold (invoke cb) ms ctx)))
      (plcrash_async_objc_parse fuel host img cache cb ctx)
      (plcrash_async_objc_parse fuel host img cache collect_method [])"
    by (rule plcrash_async_objc_parse_rel[OF cb_rel_collect]) simp
  then show ?thesis
    unfolding plcrash_async_objc_enumerate_def
    by (cases "plcrash_async_objc_parse fuel host img cache cb ctx";
        cases "plcrash_async_objc_parse fuel host img cache collect_method []") auto
qed

lemma module_info_enumerate:
  "pl_async_objc_parse_from_module_info fuel img cb ctx =
     map_option (\<lambda>(err, ms). (err, fold (invoke cb) ms ctx))
       (pl_async_objc_parse_from_module_info fuel img collect_method [])"
proof -
  have "rel_option (rel_prod (=) (\<lambda>x ms. x = fold (invoke cb) ms ctx))
      (pl_async_objc_parse_from_module_info fuel img cb ctx)
      (pl_async_objc_parse_from_module_info fuel img collect_method [])"
    by (rule pl_async_objc_parse_from_module_info_rel[OF cb_rel_collect]) simp
  then show ?thesis
    by (cases "pl_async_objc_parse_from_module_info fuel img cb ctx";
        cases "pl_async_objc_parse_from_module_info fuel img collect_method []") auto
qed

lemma search_fold_searchIMP:
  "searchIMP (fold (invoke pl_async_objc_find_method_search_callback) ms s) = searchIMP s"
  by (induction ms arbitrary: s)
     (auto simp: invoke_def pl_async_objc_find_method_search_callback_def split: prod.splits)

lemma Max_insert_step:
  fixes b i :: pl_vm_address_t
  assumes "finite S"
  shows "Max (insert (max b i) S) = Max (insert b (insert i S))"
proof (cases "S = {}")
  case True
  then show ?thesis by (simp add: max.commute)
next
  case False
  with assms show ?thesis by (simp add: max.assoc max.left_commute)
qed

lemma search_fold_bestIMP:
  "bestIMP (fold (invoke pl_async_objc_find_method_search_callback) ms s) =
     Max (insert (bestIMP s) {i \<in> found_imp ` set ms. i \<le> searchIMP s})"
proof (induction ms arbitrary: s)
  case Nil
  then show ?case by simp
next
  case (Cons m ms)
  let ?s1 = "invoke pl_async_objc_find_method_search_callback m s"
  have t: "searchIMP ?s1 = searchIMP s"
    by (auto simp: invoke_def pl_async_objc_find_method_search_callback_def split: prod.splits)
  let ?S = "{i \<in> found_imp ` set ms. i \<le> searchIMP s}"
  have fin: "finite ?S" by simp
  have set_eq: "{i \<in> found_imp ` set (m # ms). i \<le> searchIMP s} =
      (if found_imp m \<le> searchIMP s then insert (found_imp m) ?S else ?S)"
    by auto
  show ?case
  proof (cases "found_imp m \<le> searchIMP s")
    case True
    then have b: "bestIMP ?s1 = max (bestIMP s) (found_imp m)"
      by (auto simp: invoke_def pl_async_objc_find_method_search_callback_def found_imp_def
          max_def split: prod.splits)
    show ?thesis
      using Cons.IH[of ?s1] t b True set_eq Max_insert_step[OF fin]
      by simp
  next
    case False
    then have b: "bestIMP ?s1 = bestIMP s"
      by (auto simp: invoke_def pl_async_objc_find_method_search_callback_def found_imp_def
          split: prod.splits)
    show ?thesis
      using Cons.IH[of ?s1] t b False set_eq by simp
  qed
qed

lemma call_fold_None:
  "outerCallback s = None \<Longrightarrow>
   fold (invoke pl_async_objc_find_method_call_callback) ms s = s"
  by (induction ms arbitrary: s)
     (auto simp: invoke_def pl_async_objc_find_method_call_callback_def split: prod.splits)

lemma call_fold_Some:
  "fold (invoke pl_async_objc_find_method_call_callback) ms
     \<lparr>call_searchIMP = b, outerCallback = Some cb, outerCallbackCtx = u\<rparr> =
   (case find (\<lambda>m. found_imp m = b) ms of
      None \<Rightarrow> \<lparr>call_searchIMP = b, outerCallback = Some cb, outerCallbackCtx = u\<rparr>
    | Some m \<Rightarrow> \<lparr>call_searchIMP = b, outerCallback = None, outerCallbackCtx = invoke cb m u\<rparr>)"
proof (induction ms)
  case Nil
  then show ?case by simp
next
  case (Cons m ms)
  show ?case
  proof (cases "found_imp m = b")
    case True
    then have "invoke pl_async_objc_find_method_call_callback m
        \<lparr>call_searchIMP = b, outerCallback = Some cb, outerCallbackCtx = u\<rparr> =
        \<lparr>call_searchIMP = b, outerCallback = None, outerCallbackCtx = invoke cb m u\<rparr>"
      by (auto simp: invoke_def pl_async_objc_find_method_call_callback_def found_imp_def
          split: prod.splits)
    then show ?thesis using True by (simp add: call_fold_None)
  next
    case False
    then have "invoke pl_async_objc_find_method_call_callback m
        \<lparr>call_searchIMP = b, outerCallback = Some cb, outerCallbackCtx = u\<rparr> =
        \<lparr>call_searchIMP = b, outerCallback = Some cb, outerCallbackCtx = u\<rparr>"
      by (auto simp: invoke_def pl_async_objc_find_method_call_callback_def found_imp_def
          split: prod.splits)
    then show ?thesis using False Cons.IH by simp
  qed
qed

lemma call_fold:
  "outerCallbackCtx (fold (invoke pl_async_objc_find_method_call_callback) ms
     \<lparr>call_searchIMP = b, outerCallback = callback, outerCallbackCtx = u\<rparr>) = emitted callback b ms u"
  by (cases callback) (auto simp: emitted_def call_fold_None call_fold_Some split: option.splits)

lemma find_method_closed_form:
  assumes "plcrash_async_objc_enumerate fuel host img cache = Some (err1, cache1, ms1)"
  shows "plcrash_async_objc_find_method fuel host img cache target callback u =
     (if err1 \<noteq> PLCRASH_ESUCCESS then Some (err1, cache1, u)
      else if best_imp target ms1 = 0 then Some (PLCRASH_ENOTFOUND, cache1, u)
      else map_option
             (\<lambda>(err2, cache2, ms2). (err2, cache2, emitted callback (best_imp target ms1) ms2 u))
             (plcrash_async_objc_enumerate fuel host img cache1))"
proof -
  have p1: "plcrash_async_objc_parse fuel host img cache
             pl_async_objc_find_method_search_callback \<lparr>searchIMP = target, bestIMP = 0\<rparr> =
        Some (err1, cache1, fold (invoke pl_async_objc_find_method_search_callback) ms1
                \<lparr>searchIMP = target, bestIMP = 0\<rparr>)"
    by (simp add: parse_enumerate assms)
  have b: "bestIMP (fold (invoke pl_async_objc_find_method_search_callback) ms1
                \<lparr>searchIMP = target, bestIMP = 0\<rparr>) = best_imp target ms1"
    by (simp add: search_fold_bestIMP best_imp_def)
  show ?thesis
    unfolding plcrash_async_objc_find_method_def p1
    by (simp add: b parse_enumerate[of _ _ _ cache1] call_fold split: option.splits prod.splits)
qed

lemma find_method_diverges:
  "plcrash_async_objc_enumerate fuel host img cache = None \<Longrightarrow>
   plcrash_async_objc_find_method fuel host img cache target callback u = None"
  by (simp add: plcrash_async_objc_find_method_def parse_enumerate)

lemma best_imp_in_set:
  assumes "best_imp target ms \<noteq> 0"
  shows "\<exists>m. find (\<lambda>m. found_imp m = best_imp target ms) ms = Some m \<and> m \<in> set ms \<and>
             found_imp m = best_imp target ms \<and> found_imp m \<le> target"
proof -
  let ?S = "{i \<in> found_imp ` set ms. i \<le> target}"
  have "Max (insert 0 ?S) \<in> insert 0 ?S" by (rule Max_in) auto
  with assms have "best_imp target ms \<in> ?S" by (auto simp: best_imp_def)
  then obtain m where m: "m \<in> set ms" "found_imp m = best_imp target ms"
      and le: "best_imp target ms \<le> target" by auto
  then have "find (\<lambda>m. found_imp m = best_imp target ms) ms \<noteq> None"
    unfolding find_None_iff by blast
  then obtain m' where f: "find (\<lambda>m. found_imp m = best_imp target ms) ms = Some m'" by auto
  then have "m' \<in> set ms \<and> found_imp m' = best_imp target ms"
    by (auto simp: find_Some_iff)
  with f le show ?thesis by auto
qed

subsection \<open>The latch\<close>

lemma cache_set_gotObjC2Info [simp]:
  "gotObjC2Info (cache_set ok c k v) = gotObjC2Info c"
  by (simp add: cache_set_def cache_set_bucket_def Let_def split: option.splits)

lemma objc2_class_data_ro_gotObjC2Info:
  "objc2_class_data_ro host img c d = (e, c1, ro) \<Longrightarrow> gotObjC2Info c1 = gotObjC2Info c"
  by (auto simp: objc2_class_data_ro_def Let_def split: if_splits)

lemma pl_async_objc_parse_objc2_class_gotObjC2Info:
  "pl_async_objc_parse_objc2_class host img c cls isMeta cb x = (e, c1, x1) \<Longrightarrow>
   gotObjC2Info c1 = gotObjC2Info c"
  by (auto simp: pl_async_objc_parse_objc2_class_def Let_def
      split: prod.splits if_splits dest: objc2_class_data_ro_gotObjC2Info)

lemma objc2_classes_loop_gotObjC2Info:
  "objc2_classes_loop host img cb base is c x = (e, c1, x1) \<Longrightarrow>
   gotObjC2Info c1 = gotObjC2Info c"
proof (induction "is" arbitrary: c x)
  case Nil
  then show ?case by simp
next
  case (Cons i rest)
  then show ?case
    by (auto simp: Let_def split: prod.splits if_splits
        dest!: pl_async_objc_parse_objc2_class_gotObjC2Info)
qed

lemma map_sections_gotObjC2Info:
  "map_sections img c = (e, c1) \<Longrightarrow> gotObjC2Info c1 = gotObjC2Info c"
  by (auto simp: map_sections_def Let_def free_mapped_sections_def split: prod.splits if_splits)

lemma pl_async_objc_parse_from_data_section_gotObjC2Info:
  "pl_async_objc_parse_from_data_section host img c cb x = (e, c1, x1) \<Longrightarrow>
   gotObjC2Info c1 = gotObjC2Info c"
  by (auto simp: pl_async_objc_parse_from_data_section_def Let_def
      split: prod.splits if_splits
      dest!: map_sections_gotObjC2Info objc2_classes_loop_gotObjC2Info)

lemma parse_objc2_attempt:
  "(case pl_async_objc_parse_from_data_section host img c cb x of
                    (err, c1, ctx2) \<Rightarrow>
                      if err = PLCRASH_ESUCCESS
                      then Some (err, Some (c1\<lparr>gotObjC2Info := True\<rparr>), ctx2)
                      else Some (err, Some c1, ctx2)) = objc2_attempt host img c cb x"
proof -
  obtain e c1 x1 where d: "pl_async_objc_parse_from_data_section host img c cb x = (e, c1, x1)"
    by (cases "pl_async_objc_parse_from_data_section host img c cb x") auto
  from pl_async_objc_parse_from_data_section_gotObjC2Info[OF d]
  have "c1\<lparr>gotObjC2Info := gotObjC2Info c\<rparr> = c1" by simp
  then show ?thesis using d by (simp add: objc2_attempt_def)
qed

lemma parse_structure:
  "plcrash_async_objc_parse fuel host img (Some c) cb ctx =
     (if gotObjC2Info c then objc2_attempt host img c cb ctx
      else
        (case pl_async_objc_parse_from_module_info fuel img cb ctx of
           None \<Rightarrow> None
         | Some (err1, ctx1) \<Rightarrow>
             if err1 \<noteq> PLCRASH_ENOTFOUND then Some (err1, Some c, ctx1)
             else objc2_attempt host img c cb ctx1))"
  by (simp add: plcrash_async_objc_parse_def parse_objc2_attempt split: option.splits prod.splits)

lemma parse_monotonic:
  assumes "plcrash_async_objc_parse fuel host img (Some c) cb ctx = Some (err, cache1, ctx1)"
  shows "\<exists>c1. cache1 = Some c1 \<and> (gotObjC2Info c \<longrightarrow> gotObjC2Info c1)"
  using assms unfolding parse_structure
  by (auto simp: objc2_attempt_def split: if_splits option.splits prod.splits)

lemma parse_sequence_length:
  "parse_sequence fuel host calls c = Some cs \<Longrightarrow> length cs = length calls"
  by (induction calls arbitrary: c cs) (auto split: option.splits prod.splits)

lemma parse_sequence_monotonic_all:
  "parse_sequence fuel host calls c = Some cs \<Longrightarrow> gotObjC2Info c \<Longrightarrow>
   list_all gotObjC2Info cs"
proof (induction calls arbitrary: c cs)
  case Nil
  then show ?case by simp
next
  case (Cons call calls)
  obtain img cb ctx where call: "call = (img, cb, ctx)" by (cases call)
  from Cons.prems(1) call obtain err c1 ctx1 cs1 where
    p: "plcrash_async_objc_parse fuel host img (Some c) cb ctx = Some (err, Some c1, ctx1)"
    and s: "parse_sequence fuel host calls c1 = Some cs1" and cs: "cs = c1 # cs1"
    by (auto split: option.splits prod.splits)
  from parse_monotonic[OF p] Cons.prems(2) have g: "gotObjC2Info c1" by auto
  from Cons.IH[OF s g] g cs show ?case by simp
qed

lemma parse_sequence_drop:
  "parse_sequence fuel host calls c = Some cs \<Longrightarrow> i < length cs \<Longrightarrow>
   parse_sequence fuel host (drop (Suc i) calls) (cs ! i) = Some (drop (Suc i) cs)"
proof (induction calls arbitrary: c cs i)
  case Nil
  then show ?case by simp
next
  case (Cons call calls)
  obtain img cb ctx where call: "call = (img, cb, ctx)" by (cases call)
  from Cons.prems(1) call obtain err c1 ctx1 cs1 where
    s: "parse_sequence fuel host calls c1 = Some cs1" and cs: "cs = c1 # cs1"
    by (auto split: option.splits prod.splits)
  show ?case
  proof (cases i)
    case 0
    then show ?thesis using s cs by simp
  next
    case (Suc j)
    then show ?thesis using Cons.IH[OF s, of j] Cons.prems(2) cs by simp
  qed
qed

lemma parse_sequence_latch:
  assumes "parse_sequence fuel host calls c = Some cs"
    and "i < j" and "j < length cs" and "gotObjC2Info (cs ! i)"
  shows "gotObjC2Info (cs ! j)"
proof -
  from assms have i: "i < length cs" by simp
  from parse_sequence_monotonic_all[OF parse_sequence_drop[OF assms(1) i] assms(4)]
  have "list_all gotObjC2Info (drop (Suc i) cs)" .
  moreover from assms have "cs ! j = drop (Suc i) cs ! (j - Suc i)" "j - Suc i < length (drop (Suc i) cs)"
    by auto
  ultimately show ?thesis by (simp add: list_all_length)
qed

subsection \<open>Class cache entries\<close>

lemma same_sections_refl [simp]: "same_sections c c"
  by (simp add: same_sections_def)

lemma same_sections_trans: "same_sections a b \<Longrightarrow> same_sections b c \<Longrightarrow> same_sections a c"
  by (simp add: same_sections_def)

lemma same_sections_sym: "same_sections a b \<Longrightarrow> same_sections b a"
  by (simp add: same_sections_def)

lemma warm_rel_sym: "warm_rel img K c c' \<Longrightarrow> warm_rel img K c' c"
  unfolding warm_rel_def by (metis same_sections_sym)

lemma cache_lookup_cache_set_bucket:
  "cache_lookup (cache_set_bucket c k v) k' = cache_lookup c k' \<or>
   cache_lookup (cache_set_bucket c k v) k' = (if k' = k then v else 0)"
proof (cases "classCacheKeys c")
  case None
  then show ?thesis by (simp add: cache_set_bucket_def)
next
  case (Some ks)
  show ?thesis
  proof (cases "classCacheValues c")
    case None
    with Some show ?thesis by (simp add: cache_set_bucket_def)
  next
    case vs: (Some vs)
    show ?thesis
    proof (cases "ks (cache_index c k) = 0")
      case False
      with Some vs show ?thesis by (simp add: cache_set_bucket_def Let_def)
    next
      case True
      let ?c' = "c\<lparr>classCacheKeys := Some (ks(cache_index c k := k)),
                     classCacheValues := Some (vs(cache_index c k := v))\<rparr>"
      have c': "cache_set_bucket c k v = ?c'"
        using Some vs True by (simp add: cache_set_bucket_def Let_def)
      have idx: "\<And>x. cache_index ?c' x = cache_index c x" by (simp add: cache_index_def)
      show ?thesis
      proof (cases "cache_index c k' = cache_index c k")
        case True
        then show ?thesis unfolding c' using Some vs
          by (simp add: cache_lookup_def idx Let_def)
      next
        case False
        then show ?thesis unfolding c' using Some vs
          by (simp add: cache_lookup_def idx Let_def)
      qed
    qed
  qed
qed

lemma cache_lookup_cache_set:
  "cache_lookup (cache_set ok c k v) k' = cache_lookup c k' \<or>
   cache_lookup (cache_set ok c k v) k' = (if k' = k then v else 0)"
proof (cases "classCacheKeys c")
  case (Some ks)
  then show ?thesis using cache_lookup_cache_set_bucket[of c k v k']
    by (simp add: cache_set_def)
next
  case None
  show ?thesis
  proof (cases ok)
    case False
    with None show ?thesis by (simp add: cache_set_def cache_lookup_def)
  next
    case True
    let ?c0 = "c\<lparr>classCacheSize := 1024, classCacheKeys := Some (\<lambda>i. 0),
                    classCacheValues := Some (\<lambda>i. 0)\<rparr>"
    have z: "cache_lookup ?c0 k' = 0" by (simp add: cache_lookup_def Let_def)
    have l: "cache_lookup c k' = 0" using None by (simp add: cache_lookup_def)
    from cache_lookup_cache_set_bucket[of ?c0 k v k'] z l True None
    show ?thesis by (simp add: cache_set_def)
  qed
qed

text \<open>A value held under a key other than 0 stays: its bucket is never written again.\<close>

lemma cache_lookup_kept:
  assumes "d \<noteq> 0" and "cache_lookup c d \<noteq> 0"
  shows "cache_lookup (cache_set ok c k v) d = cache_lookup c d"
proof -
  from assms(2) obtain ks vs where ks: "classCacheKeys c = Some ks"
    and vs: "classCacheValues c = Some vs" and kd: "ks (cache_index c d) = d"
    by (auto simp: cache_lookup_def Let_def split: if_splits option.splits)
  show ?thesis
  proof (cases "ks (cache_index c k) = 0")
    case False
    with ks vs show ?thesis by (simp add: cache_set_def cache_set_bucket_def Let_def)
  next
    case True
    let ?c' = "c\<lparr>classCacheKeys := Some (ks(cache_index c k := k)),
                   classCacheValues := Some (vs(cache_index c k := v))\<rparr>"
    have c': "cache_set ok c k v = ?c'"
      using ks vs True by (simp add: cache_set_def cache_set_bucket_def Let_def)
    have idx: "\<And>x. cache_index ?c' x = cache_index c x" by (simp add: cache_index_def)
    from True kd assms(1) have ne: "cache_index c d \<noteq> cache_index c k" by auto
    show ?thesis unfolding c' using ks vs ne
      by (simp add: cache_lookup_def idx Let_def)
  qed
qed

lemma cache_set_bucket_same_sections: "same_sections (cache_set_bucket c k v) c"
  by (cases "classCacheKeys c"; cases "classCacheValues c")
     (simp_all add: same_sections_def cache_set_bucket_def Let_def)

lemma cache_set_same_sections [simp]: "same_sections (cache_set ok c k v) c"
  using cache_set_bucket_same_sections[of c k v]
    cache_set_bucket_same_sections[of "c\<lparr>classCacheSize := 1024, classCacheKeys := Some (\<lambda>i. 0),
                    classCacheValues := Some (\<lambda>i. 0)\<rparr>" k v]
  by (cases "classCacheKeys c") (simp_all add: same_sections_def cache_set_def)

text \<open>Storing what a miss found keeps the relation, whatever the other cache is.\<close>

lemma cache_set_warm:
  assumes w: "warm_rel img K a c"
    and f: "v \<noteq> 0 \<Longrightarrow> class_ro_from_rw img (objcConstMobj c) k v"
  shows "warm_rel img K a (cache_set ok c k v)"
proof -
  let ?c1 = "cache_set ok c k v"
  have m: "objcConstMobj ?c1 = objcConstMobj c"
    using cache_set_same_sections[of ok c k v] by (simp add: same_sections_def)
  from w have s: "same_sections a ?c1"
    using cache_set_same_sections[of ok c k v]
    by (meson warm_rel_def same_sections_sym same_sections_trans)
  have "(class_entry_ok img a d \<and> class_entry_ok img ?c1 d) \<or>
        (d \<noteq> 0 \<and> cache_lookup a d = cache_lookup ?c1 d)" if dK: "d \<in> K" for d
  proof -
    from w dK have wd: "(class_entry_ok img a d \<and> class_entry_ok img c d) \<or>
        (d \<noteq> 0 \<and> cache_lookup a d = cache_lookup c d)" by (simp add: warm_rel_def)
    from cache_lookup_cache_set[of ok c k v d] show ?thesis
    proof
      assume e: "cache_lookup ?c1 d = cache_lookup c d"
      then have "class_entry_ok img ?c1 d = class_entry_ok img c d"
        by (simp add: class_entry_ok_def m)
      with wd e show ?thesis by simp
    next
      assume e: "cache_lookup ?c1 d = (if d = k then v else 0)"
      then have n: "class_entry_ok img ?c1 d"
        using f by (auto simp: class_entry_ok_def m)
      show ?thesis
      proof (cases "class_entry_ok img a d")
        case True
        with n show ?thesis by simp
      next
        case False
        with wd have d0: "d \<noteq> 0" and eq: "cache_lookup a d = cache_lookup c d" by simp_all
        from False have "cache_lookup a d \<noteq> 0" by (auto simp: class_entry_ok_def)
        with eq have "cache_lookup c d \<noteq> 0" by simp
        from cache_lookup_kept[OF d0 this, of ok k v] d0 eq show ?thesis by simp
      qed
    qed
  qed
  with s show ?thesis by (simp add: warm_rel_def)
qed

lemma objc2_class_data_ro_step:
  assumes "objc2_class_data_ro host img c d = (e, c1, ro)"
  shows "c1 = c \<or>
         (c1 = cache_set (vm_allocate_ok host) c d ro \<and> class_ro_from_rw img (objcConstMobj c) d ro)"
  using assms
  by (auto simp: objc2_class_data_ro_def class_ro_from_rw_def Let_def split: if_splits)

lemma objc2_class_data_ro_warm:
  assumes "warm_rel img K a c" and "objc2_class_data_ro host img c d = (e, c1, ro)"
  shows "warm_rel img K a c1"
  using objc2_class_data_ro_step[OF assms(2)] cache_set_warm[OF assms(1), of ro d] assms(1)
  by auto

lemma class_ro_from_rw_fun:
  "class_ro_from_rw img m d v \<Longrightarrow> class_ro_from_rw img m d v' \<Longrightarrow> v = v'"
  by (simp add: class_ro_from_rw_def)

lemma objc2_class_data_ro_miss_ok:
  assumes "class_ro_from_rw img (objcConstMobj c) d v" and "cache_lookup c d = 0"
  shows "\<exists>c1. objc2_class_data_ro host img c d = (PLCRASH_ESUCCESS, c1, v)"
  using assms
  by (auto simp: objc2_class_data_ro_def class_ro_from_rw_def Let_def)

lemma objc2_class_data_ro_hit_ok:
  assumes "class_ro_from_rw img (objcConstMobj c) d v" and "cache_lookup c d = v" and "v \<noteq> 0"
  shows "objc2_class_data_ro host img c d = (PLCRASH_ESUCCESS, c, v)"
  using assms
  by (auto simp: objc2_class_data_ro_def class_ro_from_rw_def Let_def split: if_splits)

lemma objc2_class_data_ro_cong:
  assumes "cache_lookup c d = cache_lookup c' d"
    and "objcConstMobj c = objcConstMobj c'"
  shows "fst (objc2_class_data_ro host img c d) = fst (objc2_class_data_ro host img c' d) \<and>
         snd (snd (objc2_class_data_ro host img c d)) = snd (snd (objc2_class_data_ro host img c' d))"
  using assms
  by (auto simp: objc2_class_data_ro_def Let_def)

text \<open>
  The class_ro structure of a class is found alike from two related caches: with the same
  status and, when that is success, at the same address.
\<close>

lemma objc2_class_data_ro_two_runs:
  assumes w: "warm_rel img K c c'" and dK: "d \<in> K"
    and r: "objc2_class_data_ro host img c d = (e, c1, ro)"
    and r': "objc2_class_data_ro host img c' d = (e', c1', ro')"
  shows "e' = e \<and> (e = PLCRASH_ESUCCESS \<longrightarrow> ro' = ro)"
proof -
  from w have m: "objcConstMobj c = objcConstMobj c'" by (simp add: warm_rel_def same_sections_def)
  show ?thesis
  proof (cases "cache_lookup c d = cache_lookup c' d")
    case True
    from objc2_class_data_ro_cong[OF True m, of host img] r r' show ?thesis by simp
  next
    case ne: False
    with w dK have v: "class_entry_ok img c d" and v': "class_entry_ok img c' d"
      by (auto simp: warm_rel_def)
    show ?thesis
    proof (cases "cache_lookup c d = 0")
      case miss: True
      with ne have hit': "cache_lookup c' d \<noteq> 0" by simp
      with v' have f: "class_ro_from_rw img (objcConstMobj c') d (cache_lookup c' d)"
        by (simp add: class_entry_ok_def)
      from objc2_class_data_ro_hit_ok[OF f refl hit', of host] r'
      have a: "e' = PLCRASH_ESUCCESS" "ro' = cache_lookup c' d" by simp_all
      from objc2_class_data_ro_miss_ok[OF f[folded m] miss, of host] r
      have b: "e = PLCRASH_ESUCCESS" "ro = cache_lookup c' d" by auto
      from a b show ?thesis by simp
    next
      case hit: False
      with v have f: "class_ro_from_rw img (objcConstMobj c) d (cache_lookup c d)"
        by (simp add: class_entry_ok_def)
      from objc2_class_data_ro_hit_ok[OF f refl hit, of host] r
      have a: "e = PLCRASH_ESUCCESS" "ro = cache_lookup c d" by simp_all
      show ?thesis
      proof (cases "cache_lookup c' d = 0")
        case True
        from objc2_class_data_ro_miss_ok[OF f[unfolded m] True, of host] r'
        have "e' = PLCRASH_ESUCCESS" "ro' = cache_lookup c d" by auto
        with a show ?thesis by simp
      next
        case False
        with v' have f': "class_ro_from_rw img (objcConstMobj c') d (cache_lookup c' d)"
          by (simp add: class_entry_ok_def)
        from objc2_class_data_ro_hit_ok[OF f' refl False, of host] r'
        have "e' = PLCRASH_ESUCCESS" "ro' = cache_lookup c' d" by simp_all
        with a class_ro_from_rw_fun[OF f[unfolded m] f'] show ?thesis by simp
      qed
    qed
  qed
qed

lemma method_list_cong:
  "objcConstMobj c = objcConstMobj c' \<Longrightarrow>
   pl_async_objc_parse_objc2_method_list img c cn isMeta a cb x =
   pl_async_objc_parse_objc2_method_list img c' cn isMeta a cb x"
  by (simp add: pl_async_objc_parse_objc2_method_list_def)

lemma parse_objc2_class_cache:
  assumes "pl_async_objc_parse_objc2_class host img c cls isMeta cb x = (e, c1, x1)"
    and "objc2_class_data_ro host img c (data_rw cls AND NOT 3) = (e0, c0, ro)"
  shows "c1 = c0"
  using assms
  by (auto simp: pl_async_objc_parse_objc2_class_def Let_def split: if_splits prod.splits)

lemma parse_objc2_class_warm:
  assumes w: "warm_rel img K a c"
    and r: "pl_async_objc_parse_objc2_class host img c cls isMeta cb x = (e, c1, x1)"
  shows "warm_rel img K a c1"
proof -
  obtain e0 c0 ro where d: "objc2_class_data_ro host img c (data_rw cls AND NOT 3) = (e0, c0, ro)"
    by (cases "objc2_class_data_ro host img c (data_rw cls AND NOT 3)") auto
  from parse_objc2_class_cache[OF r d] objc2_class_data_ro_warm[OF w d] show ?thesis by simp
qed

lemma parse_objc2_class_two_runs:
  assumes w: "warm_rel img K c c'" and dK: "data_rw cls AND NOT 3 \<in> K"
    and r: "pl_async_objc_parse_objc2_class host img c cls isMeta cb x = (e, c1, x1)"
    and r': "pl_async_objc_parse_objc2_class host img c' cls isMeta cb x = (e', c1', x1')"
  shows "e' = e \<and> x1' = x1 \<and> warm_rel img K c1 c1'"
proof -
  let ?d = "data_rw cls AND NOT 3"
  obtain e0 c0 ro where d: "objc2_class_data_ro host img c ?d = (e0, c0, ro)"
    by (cases "objc2_class_data_ro host img c ?d") auto
  obtain e0' c0' ro' where d': "objc2_class_data_ro host img c' ?d = (e0', c0', ro')"
    by (cases "objc2_class_data_ro host img c' ?d") auto
  from objc2_class_data_ro_two_runs[OF w dK d d']
  have ee: "e0' = e0" and rr: "e0 = PLCRASH_ESUCCESS \<longrightarrow> ro' = ro" by simp_all
  have c1: "c1 = c0" by (rule parse_objc2_class_cache[OF r d])
  have c1': "c1' = c0'" by (rule parse_objc2_class_cache[OF r' d'])
  from parse_objc2_class_warm[OF w r'] have "warm_rel img K c c1'" .
  from parse_objc2_class_warm[OF warm_rel_sym[OF this] r] have "warm_rel img K c1' c1" .
  then have w0: "warm_rel img K c0 c0'" unfolding c1 c1' by (rule warm_rel_sym)
  then have m: "objcConstMobj c0 = objcConstMobj c0'" by (simp add: warm_rel_def same_sections_def)
  show ?thesis
  proof (cases "e0 = PLCRASH_ESUCCESS")
    case False
    then show ?thesis using r r' d d' ee w0 c1 c1'
      by (simp add: pl_async_objc_parse_objc2_class_def)
  next
    case True
    with rr have "ro' = ro" by simp
    then show ?thesis using r r' d d' ee w0 c1 c1' True
      by (auto simp: pl_async_objc_parse_objc2_class_def Let_def method_list_cong[OF m]
          split: if_splits prod.splits)
  qed
qed

lemma objc2_classes_loop_two_runs:
  assumes "warm_rel img K c c'"
    and "objc2_classes_loop host img cb base is c x = (e, c1, x1)"
    and "objc2_classes_loop host img cb base is c' x = (e', c1', x1')"
    and "\<forall>i \<in> set is. set (objc2_class_keys host img base i) \<subseteq> K"
  shows "e' = e \<and> x1' = x1 \<and> warm_rel img K c1 c1'"
  using assms
proof (induction "is" arbitrary: c c' x)
  case Nil
  then show ?case by simp
next
  case (Cons i rest)
  let ?ptr = "pointer_at img (base + of_nat i * of_nat (sizeof_pointer (m64 img)))"
  let ?cls = "objc2_class_at img ?ptr"
  let ?isa = "TAGGED_ISA (host_arm64 host) (isa ?cls)"
  let ?meta = "objc2_class_at img ?isa"
  from Cons.prems(4) have kc: "data_rw ?cls AND NOT 3 \<in> K" and km: "data_rw ?meta AND NOT 3 \<in> K"
    and kr: "\<forall>i \<in> set rest. set (objc2_class_keys host img base i) \<subseteq> K"
    by (simp_all add: objc2_class_keys_def Let_def)
  from Cons.prems(1) have dm: "objcDataMobj c = objcDataMobj c'"
    by (simp add: warm_rel_def same_sections_def)
  show ?case
  proof (cases "plcrash_async_mobject_remap_address (objcDataMobj c) ?ptr (sizeof_objc2_class (m64 img))")
    case False
    then show ?thesis using Cons.prems dm by (simp add: Let_def)
  next
    case rm: True
    obtain ea ca xa where a: "pl_async_objc_parse_objc2_class host img c ?cls False cb x = (ea, ca, xa)"
      by (cases "pl_async_objc_parse_objc2_class host img c ?cls False cb x") auto
    obtain ea' ca' xa' where a': "pl_async_objc_parse_objc2_class host img c' ?cls False cb x = (ea', ca', xa')"
      by (cases "pl_async_objc_parse_objc2_class host img c' ?cls False cb x") auto
    from parse_objc2_class_two_runs[OF Cons.prems(1) kc a a']
    have ea: "ea' = ea" and xa: "xa' = xa" and wa: "warm_rel img K ca ca'" by simp_all
    from wa have dma: "objcDataMobj ca = objcDataMobj ca'"
      by (simp add: warm_rel_def same_sections_def)
    show ?thesis
    proof (cases "ea = PLCRASH_ESUCCESS")
      case False
      then show ?thesis using Cons.prems(2,3) rm dm a a' ea xa wa by (simp add: Let_def)
    next
      case oka: True
      show ?thesis
      proof (cases "plcrash_async_mobject_remap_address (objcDataMobj ca) ?isa (sizeof_objc2_class (m64 img))")
        case False
        then show ?thesis using Cons.prems(2,3) rm dm dma a a' ea xa wa oka by (simp add: Let_def)
      next
        case rm2: True
        obtain eb cb2 xb where b: "pl_async_objc_parse_objc2_class host img ca ?meta True cb xa = (eb, cb2, xb)"
          by (cases "pl_async_objc_parse_objc2_class host img ca ?meta True cb xa") auto
        obtain eb' cb2' xb' where b': "pl_async_objc_parse_objc2_class host img ca' ?meta True cb xa = (eb', cb2', xb')"
          by (cases "pl_async_objc_parse_objc2_class host img ca' ?meta True cb xa") auto
        from parse_objc2_class_two_runs[OF wa km b b']
        have eb: "eb' = eb" and xb: "xb' = xb" and wb: "warm_rel img K cb2 cb2'" by simp_all
        show ?thesis
        proof (cases "eb = PLCRASH_ESUCCESS")
          case False
          then show ?thesis
            using Cons.prems(2,3) rm rm2 dm dma a a' ea xa oka b b' eb xb wb
            by (simp add: Let_def)
        next
          case True
          have l: "objc2_classes_loop host img cb base rest cb2 xb = (e, c1, x1)"
            using Cons.prems(2) rm rm2 a oka b True by (simp add: Let_def)
          have l': "objc2_classes_loop host img cb base rest cb2' xb = (e', c1', x1')"
            using Cons.prems(3) rm rm2 dm dma a' ea xa oka b' eb xb True by (simp add: Let_def)
          from Cons.IH[OF wb l l' kr] show ?thesis .
        qed
      qed
    qed
  qed
qed

text \<open>The cache a walk of the class list leaves is related to every cache its start was.\<close>

lemma objc2_classes_loop_warm:
  assumes "warm_rel img K a c"
    and "objc2_classes_loop host img cb base is c x = (e, c1, x1)"
  shows "warm_rel img K a c1"
  using assms
proof (induction "is" arbitrary: c x)
  case Nil
  then show ?case by simp
next
  case (Cons i rest)
  let ?ptr = "pointer_at img (base + of_nat i * of_nat (sizeof_pointer (m64 img)))"
  let ?cls = "objc2_class_at img ?ptr"
  let ?isa = "TAGGED_ISA (host_arm64 host) (isa ?cls)"
  let ?meta = "objc2_class_at img ?isa"
  show ?case
  proof (cases "plcrash_async_mobject_remap_address (objcDataMobj c) ?ptr (sizeof_objc2_class (m64 img))")
    case False
    then show ?thesis using Cons.prems by (simp add: Let_def)
  next
    case rm: True
    obtain ea ca xa where a: "pl_async_objc_parse_objc2_class host img c ?cls False cb x = (ea, ca, xa)"
      by (cases "pl_async_objc_parse_objc2_class host img c ?cls False cb x") auto
    from parse_objc2_class_warm[OF Cons.prems(1) a] have wa: "warm_rel img K a ca" .
    show ?thesis
    proof (cases "ea = PLCRASH_ESUCCESS \<and>
        plcrash_async_mobject_remap_address (objcDataMobj ca) ?isa (sizeof_objc2_class (m64 img))")
      case False
      then show ?thesis using Cons.prems(2) rm a wa by (auto simp: Let_def split: if_splits)
    next
      case ok: True
      obtain eb cb2 xb where b: "pl_async_objc_parse_objc2_class host img ca ?meta True cb xa = (eb, cb2, xb)"
        by (cases "pl_async_objc_parse_objc2_class host img ca ?meta True cb xa") auto
      from parse_objc2_class_warm[OF wa b] have wb: "warm_rel img K a cb2" .
      show ?thesis
      proof (cases "eb = PLCRASH_ESUCCESS")
        case False
        then show ?thesis using Cons.prems(2) rm a ok b wb by (simp add: Let_def)
      next
        case True
        have l: "objc2_classes_loop host img cb base rest cb2 xb = (e, c1, x1)"
          using Cons.prems(2) rm a ok b True by (simp add: Let_def)
        from Cons.IH[OF wb l] show ?thesis .
      qed
    qed
  qed
qed

subsection \<open>The second walk over an image\<close>

lemma map_sections_ok_lastImage:
  "map_sections img c = (PLCRASH_ESUCCESS, c0) \<Longrightarrow> lastImage c0 = Some (image_ptr img)"
  by (auto simp: map_sections_def Let_def split: if_splits prod.splits)

lemma map_sections_again:
  "lastImage c = Some (image_ptr img) \<Longrightarrow> map_sections img c = (PLCRASH_ESUCCESS, c)"
  by (simp add: map_sections_def)

lemma cache_lookup_gotObjC2Info [simp]:
  "cache_lookup (c\<lparr>gotObjC2Info := g\<rparr>) k = cache_lookup c k"
  by (simp add: cache_lookup_def cache_index_def Let_def split: option.splits)

lemma class_entry_ok_gotObjC2Info [simp]:
  "class_entry_ok img (c\<lparr>gotObjC2Info := g\<rparr>) d = class_entry_ok img c d"
  by (simp add: class_entry_ok_def)

lemma same_sections_gotObjC2Info [simp]:
  "same_sections (c\<lparr>gotObjC2Info := g\<rparr>) c' = same_sections c c'"
  "same_sections c' (c\<lparr>gotObjC2Info := g\<rparr>) = same_sections c' c"
  by (simp_all add: same_sections_def)

lemma warm_rel_gotObjC2Info [simp]:
  "warm_rel img K a (c\<lparr>gotObjC2Info := g\<rparr>) = warm_rel img K a c"
  by (simp add: warm_rel_def)

lemma warm_rel_start:
  "0 \<notin> K \<or> class_entry_ok img c 0 \<Longrightarrow> warm_rel img K c c"
  unfolding warm_rel_def by (metis same_sections_refl)

lemma map_sections_class_cache:
  "classCacheSize (snd (map_sections img c)) = classCacheSize c"
  "classCacheKeys (snd (map_sections img c)) = classCacheKeys c"
  "classCacheValues (snd (map_sections img c)) = classCacheValues c"
  by (simp_all add: map_sections_def Let_def free_mapped_sections_def split: prod.splits)

lemma cache_lookup_map_sections:
  "cache_lookup (snd (map_sections img c)) k = cache_lookup c k"
proof -
  have "cache_index (snd (map_sections img c)) k = cache_index c k"
    by (simp add: cache_index_def map_sections_class_cache)
  then show ?thesis
    by (simp add: cache_lookup_def Let_def map_sections_class_cache split: option.splits)
qed

lemma class_entry_ok_no_value:
  "cache_lookup c 0 = 0 \<Longrightarrow> class_entry_ok img (snd (map_sections img c)) 0"
  by (simp add: class_entry_ok_def cache_lookup_map_sections)

lemma has_null_class_rw_keys:
  "has_null_class_rw host img c =
     (0 \<in> (\<Union>i \<in> set [0..<(unat (mobj_length (classMobj c)) div sizeof_pointer (m64 img)) mod 2 ^ 32].
             set (objc2_class_keys host img (task_address (classMobj c)) i)))"
  by (simp add: has_null_class_rw_def Let_def list_ex_iff del: upt_Suc set_upt)

lemma objc2_categories_loop_cong:
  "objcDataMobj c = objcDataMobj c' \<Longrightarrow>
   objc2_categories_loop img c cb base is x = objc2_categories_loop img c' cb base is x"
  by (induction "is") (simp_all add: Let_def pl_async_objc_parse_objc2_category_def)

lemma data_section_second_pass:
  assumes v: "\<not> has_null_class_rw host img (snd (map_sections img c)) \<or>
              class_entry_ok img (snd (map_sections img c)) 0"
    and p: "pl_async_objc_parse_from_data_section host img c cb x = (PLCRASH_ESUCCESS, c1, x1)"
  shows "\<exists>c2. pl_async_objc_parse_from_data_section host img (c1\<lparr>gotObjC2Info := g\<rparr>) cb x =
           (PLCRASH_ESUCCESS, c2, x1)"
proof -
  obtain e0 c0 where m: "map_sections img c = (e0, c0)" by (cases "map_sections img c") auto
  let ?base = "task_address (classMobj c0)"
  let ?n = "(unat (mobj_length (classMobj c0)) div sizeof_pointer (m64 img)) mod 2 ^ 32"
  let ?K = "\<Union>i \<in> set [0..<?n]. set (objc2_class_keys host img ?base i)"
  from v m have "0 \<notin> ?K \<or> class_entry_ok img c0 0"
    by (simp add: has_null_class_rw_keys del: upt_Suc set_upt)
  then have v0: "warm_rel img ?K c0 c0" by (rule warm_rel_start)
  have kK: "\<forall>i \<in> set [0..<?n]. set (objc2_class_keys host img ?base i) \<subseteq> ?K" by blast
  obtain eA cA xA where l: "objc2_classes_loop host img cb ?base [0..<?n] c0 x = (eA, cA, xA)"
    by (cases "objc2_classes_loop host img cb ?base [0..<?n] c0 x") auto
  let ?k = "(unat (mobj_length (catMobj cA)) div sizeof_pointer (m64 img)) mod 2 ^ 32"
  from p m l have e0: "e0 = PLCRASH_ESUCCESS"
    and rc: "plcrash_async_mobject_remap_address (classMobj c0) ?base (unat (mobj_length (classMobj c0)))"
    and eA: "eA = PLCRASH_ESUCCESS"
    and rk: "plcrash_async_mobject_remap_address (catMobj cA) (task_address (catMobj cA))
               (unat (mobj_length (catMobj cA)))"
    and cat: "objc2_categories_loop img cA cb ?base [0..<?k] xA = PLCRASH_ESUCCESS"
    and c1: "c1 = cA" and x1: "x1 = xA"
    by (auto simp: pl_async_objc_parse_from_data_section_def Let_def split: if_splits)
  from objc2_classes_loop_warm[OF v0 l] have w: "warm_rel img ?K c0 cA" .
  let ?c1 = "cA\<lparr>gotObjC2Info := g\<rparr>"
  from w have w': "warm_rel img ?K c0 ?c1" by simp
  from w' have ss: "same_sections c0 ?c1" by (simp add: warm_rel_def)
  from map_sections_ok_lastImage m e0 ss have li: "lastImage ?c1 = Some (image_ptr img)"
    by (simp add: same_sections_def)
  have m2: "map_sections img ?c1 = (PLCRASH_ESUCCESS, ?c1)" by (rule map_sections_again[OF li])
  from ss have cm: "classMobj ?c1 = classMobj c0" by (simp add: same_sections_def)
  obtain eB cB xB where l2: "objc2_classes_loop host img cb ?base [0..<?n] ?c1 x = (eB, cB, xB)"
    by (cases "objc2_classes_loop host img cb ?base [0..<?n] ?c1 x") auto
  from objc2_classes_loop_two_runs[OF w' l l2 kK] eA
  have eB: "eB = PLCRASH_ESUCCESS" and xB: "xB = xA" and wB: "warm_rel img ?K cA cB" by simp_all
  from wB have km: "catMobj cB = catMobj cA" and dm: "objcDataMobj cB = objcDataMobj cA"
    by (simp_all add: warm_rel_def same_sections_def)
  have "pl_async_objc_parse_from_data_section host img ?c1 cb x = (PLCRASH_ESUCCESS, cB, xA)"
    unfolding pl_async_objc_parse_from_data_section_def m2
    using rc rk cat l2 eB xB objc2_categories_loop_cong[OF dm, of img cb]
    by (simp add: Let_def cm km del: upt_Suc)
  then show ?thesis using c1 x1 by auto
qed

lemma module_info_absent:
  "objc1_metadata_absent img \<Longrightarrow>
   pl_async_objc_parse_from_module_info fuel img cb x = Some (PLCRASH_ENOTFOUND, x)"
  by (auto simp: objc1_metadata_absent_def pl_async_objc_parse_from_module_info_def
      split: prod.splits)

text \<open>
  A second walk by the ObjC2 walker presents what the first did, when no class_rw pointer it
  looks up is null or the cache held under key 0 nothing or what a miss would find.
\<close>

lemma enumerate_second_pass_objc2:
  assumes p: "plcrash_async_objc_enumerate fuel host img (Some c) = Some (PLCRASH_ESUCCESS, cache1, ms1)"
    and v: "\<not> has_null_class_rw host img (snd (map_sections img c)) \<or>
            class_entry_ok img (snd (map_sections img c)) 0"
    and o: "gotObjC2Info c \<or> objc1_metadata_absent img"
  shows "\<exists>cache2. plcrash_async_objc_enumerate fuel host img cache1 =
           Some (PLCRASH_ESUCCESS, cache2, ms1)"
proof -
  have "objc2_attempt host img c collect_method [] = Some (PLCRASH_ESUCCESS, cache1, ms1)"
  proof (cases "gotObjC2Info c")
    case True
    with p show ?thesis by (simp add: plcrash_async_objc_enumerate_def parse_structure)
  next
    case False
    with o have ab: "objc1_metadata_absent img" by simp
    from p False show ?thesis
      by (simp add: plcrash_async_objc_enumerate_def parse_structure module_info_absent[OF ab])
  qed
  then have a: "objc2_attempt host img c collect_method [] = Some (PLCRASH_ESUCCESS, cache1, ms1)" .
  obtain e c1 x1 where d: "pl_async_objc_parse_from_data_section host img c collect_method [] = (e, c1, x1)"
    by (cases "pl_async_objc_parse_from_data_section host img c collect_method []") auto
  with a have e: "e = PLCRASH_ESUCCESS" and x: "x1 = ms1"
    and c1: "cache1 = Some (c1\<lparr>gotObjC2Info := True\<rparr>)"
    by (auto simp: objc2_attempt_def)
  from data_section_second_pass[OF v d[unfolded e], of True] obtain c2 where
    d2: "pl_async_objc_parse_from_data_section host img (c1\<lparr>gotObjC2Info := True\<rparr>)
           collect_method [] = (PLCRASH_ESUCCESS, c2, x1)" by auto
  show ?thesis
    unfolding plcrash_async_objc_enumerate_def c1 parse_structure
    using d2 x by (simp add: objc2_attempt_def)
qed

text \<open>A second walk by the ObjC1 walker is the first again: it does not read the cache.\<close>

lemma enumerate_second_pass_objc1:
  assumes p: "plcrash_async_objc_enumerate fuel host img (Some c) = Some (err1, cache1, ms1)"
    and g: "\<not> gotObjC2Info c"
    and o: "pl_async_objc_parse_from_module_info fuel img collect_method [] =
              Some (PLCRASH_ESUCCESS, ms)"
  shows "ms1 = ms \<and> err1 = PLCRASH_ESUCCESS \<and>
         plcrash_async_objc_enumerate fuel host img cache1 = Some (PLCRASH_ESUCCESS, cache1, ms1)"
  using p g o by (auto simp: plcrash_async_objc_enumerate_def parse_structure)

subsection \<open>Sequences of stores\<close>

lemma store_all_snoc: "store_all ok c (kvs @ [(k, v)]) = cache_set ok (store_all ok c kvs) k v"
  by (simp add: store_all_def)

lemma first_stored_snoc:
  "first_stored (kvs @ [(k, v)]) i =
     (case first_stored kvs i of Some p \<Rightarrow> Some p
      | None \<Rightarrow> if unat (drop_bit 2 k) mod 1024 = i then Some (k, v) else None)"
  unfolding first_stored_def by (induction kvs) auto

lemma first_stored_nonzero:
  "list_all (\<lambda>(k, v). k \<noteq> 0) kvs \<Longrightarrow> first_stored kvs i = Some (k, v) \<Longrightarrow> k \<noteq> 0"
  unfolding first_stored_def
  by (induction kvs) (auto split: if_splits)

lemma store_all_fresh_inv:
  assumes "list_all (\<lambda>(k, v). k \<noteq> 0) kvs" and "kvs \<noteq> []"
    and "classCacheKeys c0 = None"
  shows "classCacheSize (store_all True c0 kvs) = 1024 \<and>
         classCacheKeys (store_all True c0 kvs) =
           Some (\<lambda>i. case first_stored kvs i of None \<Rightarrow> 0 | Some (k, v) \<Rightarrow> k) \<and>
         classCacheValues (store_all True c0 kvs) =
           Some (\<lambda>i. case first_stored kvs i of None \<Rightarrow> 0 | Some (k, v) \<Rightarrow> v)"
  using assms
proof (induction kvs rule: rev_induct)
  case Nil
  then show ?case by simp
next
  case (snoc x xs)
  obtain k v where x: "x = (k, v)" by (cases x)
  from snoc.prems x have k0: "k \<noteq> 0" and nz: "list_all (\<lambda>(k, v). k \<noteq> 0) xs" by auto
  show ?case
  proof (cases "xs = []")
    case True
    then show ?thesis using snoc.prems(3) k0 x
      by (auto simp: store_all_def cache_set_def cache_set_bucket_def cache_index_def
          first_stored_def Let_def fun_eq_iff)
  next
    case False
    from snoc.IH[OF nz False snoc.prems(3)] k0 first_stored_nonzero[OF nz]
    show ?thesis unfolding x store_all_snoc
      by (auto simp: cache_set_def cache_set_bucket_def cache_index_def
          first_stored_snoc Let_def fun_eq_iff split: option.splits)
  qed
qed

lemma store_all_noalloc:
  "classCacheKeys c0 = None \<Longrightarrow> classCacheSize c0 = 0 \<Longrightarrow>
   classCacheKeys (store_all False c0 kvs) = None \<and> classCacheSize (store_all False c0 kvs) = 0"
  by (induction kvs rule: rev_induct) (auto simp: store_all_snoc cache_set_def store_all_def)

lemma cache_init_fresh:
  "classCacheKeys (snd (plcrash_async_objc_cache_init c0)) = None"
  "classCacheSize (snd (plcrash_async_objc_cache_init c0)) = 0"
  by (simp_all add: plcrash_async_objc_cache_init_def)

subsection \<open>Evaluation on the concrete images\<close>

lemma END_OF_METHODS_LIST_eq: "END_OF_METHODS_LIST = 0xFFFFFFFF"
  by (simp add: END_OF_METHODS_LIST_def)

lemma RW_REALIZED_eq: "RW_REALIZED = 0x80000000"
  by (simp add: RW_REALIZED_def)

lemma RW_COPIED_RO_eq: "RW_COPIED_RO = 0x08000000"
  by (simp add: RW_COPIED_RO_def)

lemma upt_2: "[0..<2] = [0, Suc 0]"
  by (simp add: upt_rec)

lemmas eval_defs =
  unmapped_image_def objc1_image_def mixed_image_def objc2_image_def imp_zero_image_def
  unrealized_first_image_def category_image_def catlist_missing_image_def evicting_image_def
  evicting_image2_def evicting_cache2_def
  stale_cache_def zeroed_cache_def zeroed_mobject_def zeroed_objc1_class_def
  zeroed_objc2_class_data_ro_def host0_def
  mixed_cache1_def objc2_cache1_def evicting_cache1_def
  null_rw_image_def null_rw_cache1_def bad_isa_image_def bad_isa_cache1_def
  imp_zero_bad_isa_image_def second_image_def
  plcrash_async_macho_map_section_def plcrash_async_task_memcpy_def
  plcrash_async_macho_string_init_def plcrash_async_mobject_remap_address_def
  kObjCSegmentName_def kObjCModuleInfoSectionName_def kDataSegmentName_def
  kClassListSectionName_def kCategoryListSectionName_def kObjCConstSectionName_def
  kObjCDataSectionName_def
  sizeof_pointer_def sizeof_objc2_class_def sizeof_objc2_class_data_rw_def
  sizeof_objc2_class_data_ro_def sizeof_objc2_category_def sizeof_objc2_list_header_def
  sizeof_objc1_module_def sizeof_objc1_symtab_def sizeof_objc1_class_def
  sizeof_objc1_method_list_def sizeof_objc1_method_def
  CLS_NO_METHOD_ARRAY_def END_OF_METHODS_LIST_eq RW_REALIZED_eq RW_COPIED_RO_eq TAGGED_ISA_def
  collect_method_def
  map_sections_def free_mapped_sections_def cache_lookup_def cache_set_def cache_set_bucket_def
  cache_index_def
  pl_async_objc_parse_from_module_info_def pl_async_parse_obj1_class_def obj1_method_list_def
  pl_async_objc_parse_from_data_section_def pl_async_objc_parse_objc2_class_def
  objc2_class_data_ro_def pl_async_objc_parse_objc2_method_list_def
  pl_async_objc_parse_objc2_category_def objc2_category_ptr_def
  plcrash_async_objc_parse_def plcrash_async_objc_enumerate_def
  Let_def numeral_3_eq_3 upt_2

lemma enumerate_objc1_image:
  "plcrash_async_objc_enumerate 3 host0 objc1_image (Some zeroed_cache) =
     Some (PLCRASH_ESUCCESS, Some zeroed_cache,
       [(False, ''Foo'', ''bar'', 0x1000), (False, ''Foo'', ''baz'', 0x2000),
        (True, ''Foo'', ''qux'', 0x3000)])"
  by (simp add: eval_defs)

lemma module_info_objc1_image:
  "pl_async_objc_parse_from_module_info 3 objc1_image collect_method [] =
     Some (PLCRASH_ESUCCESS,
       [(False, ''Foo'', ''bar'', 0x1000), (False, ''Foo'', ''baz'', 0x2000),
        (True, ''Foo'', ''qux'', 0x3000)])"
  by (simp add: eval_defs)

lemma enumerate_objc1_image_stale:
  "plcrash_async_objc_enumerate 3 host0 objc1_image (Some stale_cache) =
     Some (PLCRASH_ESUCCESS, Some stale_cache,
       [(False, ''Foo'', ''bar'', 0x1000), (False, ''Foo'', ''baz'', 0x2000),
        (True, ''Foo'', ''qux'', 0x3000)])"
  by (simp add: eval_defs)

lemma enumerate_objc2_image:
  "plcrash_async_objc_enumerate 0 host0 objc2_image (Some zeroed_cache) =
     Some (PLCRASH_ESUCCESS, Some objc2_cache1, [(False, ''Bar'', ''hello'', 0xdeadbe00)])"
  by (simp add: eval_defs)

lemma enumerate_objc2_image_stale:
  "plcrash_async_objc_enumerate 0 host0 objc2_image (Some stale_cache) =
     Some (PLCRASH_ESUCCESS, Some objc2_cache1, [(False, ''Bar'', ''hello'', 0xdeadbe00)])"
  by (simp add: eval_defs)

lemma objc2_image_no_null_class_rw:
  "\<not> has_null_class_rw host0 objc2_image (snd (map_sections objc2_image stale_cache))"
  by (simp add: has_null_class_rw_def objc2_class_keys_def eval_defs)

lemma enumerate_second_image:
  "plcrash_async_objc_enumerate 0 host0 second_image (Some objc2_cache1) =
     Some (PLCRASH_ESUCCESS, Some (objc2_cache1\<lparr>lastImage := Some 3\<rparr>),
       [(False, ''Bar'', ''hello'', 0xdeadbe00)])"
  by (simp add: eval_defs)

lemma enumerate_second_image_new:
  "plcrash_async_objc_enumerate 0 host0 second_image (Some zeroed_cache) =
     Some (PLCRASH_ESUCCESS,
       Some (objc2_cache1\<lparr>lastImage := Some 3,
               classCacheValues := Some ((\<lambda>i. 0)(0 := 0x3100, 8 := 0x3100))\<rparr>), [])"
  by (simp add: eval_defs)

lemma enumerate_imp_zero_image:
  "plcrash_async_objc_enumerate 0 host0 imp_zero_image (Some zeroed_cache) =
     Some (PLCRASH_ESUCCESS, Some objc2_cache1, [(False, ''Bar'', ''hello'', 0)])"
  by (simp add: eval_defs)

lemma enumerate_bad_isa_image:
  "plcrash_async_objc_enumerate 0 host0 bad_isa_image (Some zeroed_cache) =
     Some (PLCRASH_EINVAL, Some bad_isa_cache1, [(False, ''Bar'', ''hello'', 0xdeadbe00)])"
  by (simp add: eval_defs)

lemma enumerate_imp_zero_bad_isa_image:
  "plcrash_async_objc_enumerate 0 host0 imp_zero_bad_isa_image (Some zeroed_cache) =
     Some (PLCRASH_EINVAL, Some bad_isa_cache1, [(False, ''Bar'', ''hello'', 0)])"
  by (simp add: eval_defs)

lemma enumerate_evicting_image:
  "plcrash_async_objc_enumerate 0 host0 evicting_image (Some stale_cache) =
     Some (PLCRASH_ESUCCESS, Some evicting_cache1, [(False, ''Bar'', ''hello'', 0xdeadbe00)])"
  by (simp add: eval_defs)

lemma enumerate_evicting_image_again:
  "plcrash_async_objc_enumerate 0 host0 evicting_image (Some evicting_cache1) =
     Some (PLCRASH_ENOTFOUND, Some evicting_cache1, [(False, ''Bar'', ''hello'', 0xdeadbe00)])"
  by (simp add: eval_defs)

lemma enumerate_null_rw_image:
  "plcrash_async_objc_enumerate 0 host0 null_rw_image (Some zeroed_cache) =
     Some (PLCRASH_ESUCCESS, Some null_rw_cache1, [])"
  by (simp add: eval_defs fun_upd_idem_iff)

lemma enumerate_evicting_image2:
  "plcrash_async_objc_enumerate 0 host0 evicting_image2 (Some null_rw_cache1) =
     Some (PLCRASH_ESUCCESS, Some evicting_cache2,
       [(False, ''Bar'', ''hello'', 0xdeadbe00), (True, ''Bar'', ''hello'', 0xdeadbe00)])"
  by (simp add: eval_defs)

lemma enumerate_evicting_image2_again:
  "plcrash_async_objc_enumerate 0 host0 evicting_image2 (Some evicting_cache2) =
     Some (PLCRASH_ENOTFOUND, Some evicting_cache2, [])"
  by (simp add: eval_defs)

text \<open>
  An ObjC1 walk that answers not-found although the image has ObjC1 metadata. On
  \<open>mixed_image\<close> the walk presents \<open>bar\<close> and \<open>baz\<close>; the copy of the metaclass then fails
  with not-found, which the walk returns as its own status. The unified parser takes that for
  an image without ObjC1 metadata, walks the (empty) ObjC2 sections, succeeds and sets the
  latch, so that the next parse skips the ObjC1 walk and presents nothing.
\<close>

lemma enumerate_mixed_image:
  "\<not> objc1_metadata_absent mixed_image \<and>
   pl_async_objc_parse_from_module_info 3 mixed_image collect_method [] =
     Some (PLCRASH_ENOTFOUND,
       [(False, ''Foo'', ''bar'', 0x1000), (False, ''Foo'', ''baz'', 0x2000)]) \<and>
   plcrash_async_objc_enumerate 3 host0 mixed_image (Some zeroed_cache) =
     Some (PLCRASH_ESUCCESS, Some mixed_cache1,
       [(False, ''Foo'', ''bar'', 0x1000), (False, ''Foo'', ''baz'', 0x2000)]) \<and>
   plcrash_async_objc_enumerate 3 host0 mixed_image (Some mixed_cache1) =
     Some (PLCRASH_ESUCCESS, Some mixed_cache1, [])"
  by (simp add: eval_defs objc1_metadata_absent_def)

lemma best_imp_code:
  "best_imp target ms =
     fold (\<lambda>m b. if found_imp m \<ge> b \<and> found_imp m \<le> target then found_imp m else b) ms 0"
proof -
  have "\<And>s. bestIMP (fold (invoke pl_async_objc_find_method_search_callback) ms s) =
      fold (\<lambda>m b. if found_imp m \<ge> b \<and> found_imp m \<le> searchIMP s then found_imp m else b) ms (bestIMP s)"
  proof (induction ms)
    case Nil
    then show ?case by simp
  next
    case (Cons m ms)
    show ?case
      by (simp add: Cons.IH) (auto simp: invoke_def pl_async_objc_find_method_search_callback_def
          found_imp_def split: prod.splits)
  qed
  from this[of "\<lparr>searchIMP = target, bestIMP = 0\<rparr>"] show ?thesis
    by (simp add: search_fold_bestIMP best_imp_def)
qed

section \<open>The claims\<close>

subsection \<open>C1: the two-pass search\<close>

text \<open>
  Claim C1, as amended. Let pass 1 (the walk of \<open>plcrash_async_objc_parse\<close> from the cache
  \<open>c\<close>) return \<open>err1\<close>, leave the cache \<open>cache1\<close> and present the methods \<open>ms1\<close>. Then
  \<open>plcrash_async_objc_find_method\<close> returns \<open>err1\<close> without invoking the user callback when
  \<open>err1\<close> is not success; otherwise its best IMP is the greatest IMP of \<open>ms1\<close> that is at
  most the target, or 0 when there is none; when that is 0 it returns not-found without
  invoking the callback; otherwise it returns what pass 2 (the walk from \<open>cache1\<close>) returns,
  and the callback is invoked at most once, on the first method that pass 2 presents with the
  best IMP.

  When the best IMP is not 0, the callback is invoked exactly once, on the first method of
  \<open>ms1\<close> with the best IMP (which is what selecting the greatest IMP at most the target from
  the enumerated list gives), and the search returns success, in these two cases:
  \<^item> the ObjC1 walker serves the image: the latch is not set and the ObjC1 walk succeeds
    (whatever the cache holds);
  \<^item> the ObjC2 walker alone serves the image (the latch is set, or the image has no ObjC1
    metadata) and pass 1 succeeds, and either no class or metaclass of the class list has a
    null class_rw pointer, or the cache holds under the key 0, which marks an empty bucket,
    nothing or what a miss would find in this image. The other entries of the cache may come
    from any image.

  Neither case is an ObjC1 walk that answers not-found for an image that has ObjC1 metadata
  (\<open>enumerate_mixed_image\<close>): the documentation of the ObjC1 walker keeps that status for
  an image without ObjC1 metadata, and nothing is stated here about such a walk beyond the
  first part.
\<close>

theorem find_method_two_pass:
  assumes "plcrash_async_objc_enumerate fuel host img (Some c) = Some (err1, cache1, ms1)"
  shows "plcrash_async_objc_find_method fuel host img (Some c) target callback u =
           (if err1 \<noteq> PLCRASH_ESUCCESS then Some (err1, cache1, u)
            else if best_imp target ms1 = 0 then Some (PLCRASH_ENOTFOUND, cache1, u)
            else map_option
                   (\<lambda>(err2, cache2, ms2).
                      (err2, cache2, emitted callback (best_imp target ms1) ms2 u))
                   (plcrash_async_objc_enumerate fuel host img cache1)) \<and>
         (best_imp target ms1 \<noteq> 0 \<and>
          (\<not> gotObjC2Info c \<and>
           map_option fst (pl_async_objc_parse_from_module_info fuel img collect_method []) =
             Some PLCRASH_ESUCCESS \<or>
           (gotObjC2Info c \<or> objc1_metadata_absent img) \<and> err1 = PLCRASH_ESUCCESS \<and>
           (\<not> has_null_class_rw host img (snd (map_sections img c)) \<or>
            class_entry_ok img (snd (map_sections img c)) 0)) \<longrightarrow>
          (\<exists>cache2 m.
             find (\<lambda>m. found_imp m = best_imp target ms1) ms1 = Some m \<and>
             found_imp m \<le> target \<and>
             plcrash_async_objc_find_method fuel host img (Some c) target callback u =
               Some (PLCRASH_ESUCCESS, cache2,
                     case callback of None \<Rightarrow> u | Some cb \<Rightarrow> invoke cb m u)))"
proof (intro conjI impI)
  show "plcrash_async_objc_find_method fuel host img (Some c) target callback u =
           (if err1 \<noteq> PLCRASH_ESUCCESS then Some (err1, cache1, u)
            else if best_imp target ms1 = 0 then Some (PLCRASH_ENOTFOUND, cache1, u)
            else map_option
                   (\<lambda>(err2, cache2, ms2).
                      (err2, cache2, emitted callback (best_imp target ms1) ms2 u))
                   (plcrash_async_objc_enumerate fuel host img cache1))"
    by (rule find_method_closed_form[OF assms])
next
  assume h: "best_imp target ms1 \<noteq> 0 \<and>
          (\<not> gotObjC2Info c \<and>
           map_option fst (pl_async_objc_parse_from_module_info fuel img collect_method []) =
             Some PLCRASH_ESUCCESS \<or>
           (gotObjC2Info c \<or> objc1_metadata_absent img) \<and> err1 = PLCRASH_ESUCCESS \<and>
           (\<not> has_null_class_rw host img (snd (map_sections img c)) \<or>
            class_entry_ok img (snd (map_sections img c)) 0))"
  then consider
    (objc1) "\<not> gotObjC2Info c"
      "map_option fst (pl_async_objc_parse_from_module_info fuel img collect_method []) =
         Some PLCRASH_ESUCCESS"
    | (objc2) "gotObjC2Info c \<or> objc1_metadata_absent img" "err1 = PLCRASH_ESUCCESS"
      "\<not> has_null_class_rw host img (snd (map_sections img c)) \<or>
       class_entry_ok img (snd (map_sections img c)) 0"
    by blast
  then have "err1 = PLCRASH_ESUCCESS \<and>
      (\<exists>cache2. plcrash_async_objc_enumerate fuel host img cache1 =
                  Some (PLCRASH_ESUCCESS, cache2, ms1))"
  proof cases
    case objc1
    from objc1(2) obtain ms where
      "pl_async_objc_parse_from_module_info fuel img collect_method [] =
         Some (PLCRASH_ESUCCESS, ms)" by auto
    from enumerate_second_pass_objc1[OF assms objc1(1) this] show ?thesis by blast
  next
    case objc2
    from assms objc2(2) have "plcrash_async_objc_enumerate fuel host img (Some c) =
      Some (PLCRASH_ESUCCESS, cache1, ms1)" by simp
    from enumerate_second_pass_objc2[OF this objc2(3) objc2(1)] objc2(2) show ?thesis by blast
  qed
  then obtain cache2 where e1: "err1 = PLCRASH_ESUCCESS"
    and p2: "plcrash_async_objc_enumerate fuel host img cache1 =
           Some (PLCRASH_ESUCCESS, cache2, ms1)" by blast
  from h best_imp_in_set[of target ms1] obtain m where
    m: "find (\<lambda>m. found_imp m = best_imp target ms1) ms1 = Some m" "found_imp m \<le> target"
    by blast
  have "plcrash_async_objc_find_method fuel host img (Some c) target callback u =
          Some (PLCRASH_ESUCCESS, cache2, case callback of None \<Rightarrow> u | Some cb \<Rightarrow> invoke cb m u)"
    using h e1 m p2 by (simp add: find_method_closed_form[OF assms] emitted_def split: option.splits)
  with m show "\<exists>cache2 m.
             find (\<lambda>m. found_imp m = best_imp target ms1) ms1 = Some m \<and>
             found_imp m \<le> target \<and>
             plcrash_async_objc_find_method fuel host img (Some c) target callback u =
               Some (PLCRASH_ESUCCESS, cache2,
                     case callback of None \<Rightarrow> u | Some cb \<Rightarrow> invoke cb m u)" by blast
qed

text \<open>
  Scenarios 1 to 5 of the spec: on the ObjC1 image the targets 0x1500, 0x2FFF and 0x5000 give
  \<open>bar\<close>, \<open>baz\<close> and the metaclass method \<open>qux\<close>, and the target 0x0500 gives not-found;
  on the ObjC2 image the target 0xdeadbe50 gives \<open>hello\<close>. Then caches that have been
  used: the ObjC1 image, and the ObjC2 image (which has no null class_rw pointer), are served
  the same from a cache with a value under key 0; and \<open>second_image\<close>, searched from the
  cache the image of scenario 5 left, is served from the class_ro address that cache holds, in
  both passes.
\<close>

theorem find_method_two_pass_witness:
  "plcrash_async_objc_find_method 3 host0 objc1_image (Some zeroed_cache) 0x1500
     (Some collect_method) [] =
     Some (PLCRASH_ESUCCESS, Some zeroed_cache, [(False, ''Foo'', ''bar'', 0x1000)]) \<and>
   plcrash_async_objc_find_method 3 host0 objc1_image (Some zeroed_cache) 0x2FFF
     (Some collect_method) [] =
     Some (PLCRASH_ESUCCESS, Some zeroed_cache, [(False, ''Foo'', ''baz'', 0x2000)]) \<and>
   plcrash_async_objc_find_method 3 host0 objc1_image (Some zeroed_cache) 0x5000
     (Some collect_method) [] =
     Some (PLCRASH_ESUCCESS, Some zeroed_cache, [(True, ''Foo'', ''qux'', 0x3000)]) \<and>
   plcrash_async_objc_find_method 3 host0 objc1_image (Some zeroed_cache) 0x0500
     (Some collect_method) [] =
     Some (PLCRASH_ENOTFOUND, Some zeroed_cache, []) \<and>
   map_option (\<lambda>(err, cache, ms). (err, ms))
     (plcrash_async_objc_find_method 0 host0 objc2_image (Some zeroed_cache) 0xdeadbe50
        (Some collect_method) []) =
     Some (PLCRASH_ESUCCESS, [(False, ''Bar'', ''hello'', 0xdeadbe00)]) \<and>
   map_option (\<lambda>(err, cache, ms). (err, ms))
     (plcrash_async_objc_find_method 3 host0 objc1_image (Some stale_cache) 0x1500
        (Some collect_method) []) =
     Some (PLCRASH_ESUCCESS, [(False, ''Foo'', ''bar'', 0x1000)]) \<and>
   map_option (\<lambda>(err, cache, ms). (err, ms))
     (plcrash_async_objc_find_method 0 host0 objc2_image (Some stale_cache) 0xdeadbe50
        (Some collect_method) []) =
     Some (PLCRASH_ESUCCESS, [(False, ''Bar'', ''hello'', 0xdeadbe00)]) \<and>
   map_option (\<lambda>(err, cache, ms). (err, ms))
     (plcrash_async_objc_find_method 0 host0 second_image (Some objc2_cache1) 0xdeadbe50
        (Some collect_method) []) =
     Some (PLCRASH_ESUCCESS, [(False, ''Bar'', ''hello'', 0xdeadbe00)])"
proof -
  note t1 = find_method_two_pass[where callback = "Some collect_method" and u = "[]",
      OF enumerate_objc1_image, THEN conjunct1]
  have a: "plcrash_async_objc_find_method 3 host0 objc1_image (Some zeroed_cache) 0x1500
     (Some collect_method) [] =
     Some (PLCRASH_ESUCCESS, Some zeroed_cache, [(False, ''Foo'', ''bar'', 0x1000)])"
    by (simp add: t1 enumerate_objc1_image best_imp_code found_imp_def emitted_def invoke_def
        collect_method_def)
  have b: "plcrash_async_objc_find_method 3 host0 objc1_image (Some zeroed_cache) 0x2FFF
     (Some collect_method) [] =
     Some (PLCRASH_ESUCCESS, Some zeroed_cache, [(False, ''Foo'', ''baz'', 0x2000)])"
    by (simp add: t1 enumerate_objc1_image best_imp_code found_imp_def emitted_def invoke_def
        collect_method_def)
  have c: "plcrash_async_objc_find_method 3 host0 objc1_image (Some zeroed_cache) 0x5000
     (Some collect_method) [] =
     Some (PLCRASH_ESUCCESS, Some zeroed_cache, [(True, ''Foo'', ''qux'', 0x3000)])"
    by (simp add: t1 enumerate_objc1_image best_imp_code found_imp_def emitted_def invoke_def
        collect_method_def)
  have d: "plcrash_async_objc_find_method 3 host0 objc1_image (Some zeroed_cache) 0x0500
     (Some collect_method) [] =
     Some (PLCRASH_ENOTFOUND, Some zeroed_cache, [])"
    by (simp add: t1 best_imp_code found_imp_def)
  have nz: "best_imp 0xdeadbe50 [(False, ''Bar'', ''hello'', 0xdeadbe00)] \<noteq> 0"
    and bi: "best_imp 0xdeadbe50 [(False, ''Bar'', ''hello'', 0xdeadbe00)] = 0xdeadbe00"
    by (simp_all add: best_imp_code found_imp_def)
  have v: "class_entry_ok objc2_image (snd (map_sections objc2_image zeroed_cache)) 0"
    by (rule class_entry_ok_no_value) (simp add: cache_lookup_def zeroed_cache_def)
  have ab: "objc1_metadata_absent objc2_image"
    by (simp add: objc1_metadata_absent_def eval_defs)
  from find_method_two_pass[where target = "0xdeadbe50" and callback = "Some collect_method"
      and u = "[]", OF enumerate_objc2_image, THEN conjunct2] nz v ab
  obtain cache2 m where
    f: "find (\<lambda>m. found_imp m = best_imp 0xdeadbe50 [(False, ''Bar'', ''hello'', 0xdeadbe00)])
          [(False, ''Bar'', ''hello'', 0xdeadbe00)] = Some m"
    and r: "plcrash_async_objc_find_method 0 host0 objc2_image (Some zeroed_cache) 0xdeadbe50
              (Some collect_method) [] = Some (PLCRASH_ESUCCESS, cache2, invoke collect_method m [])"
    by auto
  from f have "m = (False, ''Bar'', ''hello'', 0xdeadbe00)"
    by (simp add: bi found_imp_def)
  with r have e: "map_option (\<lambda>(err, cache, ms). (err, ms))
     (plcrash_async_objc_find_method 0 host0 objc2_image (Some zeroed_cache) 0xdeadbe50
        (Some collect_method) []) =
     Some (PLCRASH_ESUCCESS, [(False, ''Bar'', ''hello'', 0xdeadbe00)])"
    by (simp add: invoke_def collect_method_def)
  have nz1: "best_imp 0x1500 [(False, ''Foo'', ''bar'', 0x1000), (False, ''Foo'', ''baz'', 0x2000),
        (True, ''Foo'', ''qux'', 0x3000)] \<noteq> 0"
    and bi1: "best_imp 0x1500 [(False, ''Foo'', ''bar'', 0x1000), (False, ''Foo'', ''baz'', 0x2000),
        (True, ''Foo'', ''qux'', 0x3000)] = 0x1000"
    by (simp_all add: best_imp_code found_imp_def)
  have l1: "\<not> gotObjC2Info stale_cache" by (simp add: stale_cache_def zeroed_cache_def)
  have s1: "map_option fst (pl_async_objc_parse_from_module_info 3 objc1_image collect_method []) =
      Some PLCRASH_ESUCCESS" by (simp add: module_info_objc1_image)
  from find_method_two_pass[where target = "0x1500" and callback = "Some collect_method"
      and u = "[]", OF enumerate_objc1_image_stale, THEN conjunct2] nz1 l1 s1
  obtain cache3 m1 where
    f1: "find (\<lambda>m. found_imp m = best_imp 0x1500 [(False, ''Foo'', ''bar'', 0x1000),
            (False, ''Foo'', ''baz'', 0x2000), (True, ''Foo'', ''qux'', 0x3000)])
          [(False, ''Foo'', ''bar'', 0x1000), (False, ''Foo'', ''baz'', 0x2000),
           (True, ''Foo'', ''qux'', 0x3000)] = Some m1"
    and r1: "plcrash_async_objc_find_method 3 host0 objc1_image (Some stale_cache) 0x1500
              (Some collect_method) [] = Some (PLCRASH_ESUCCESS, cache3, invoke collect_method m1 [])"
    by auto
  from f1 have "m1 = (False, ''Foo'', ''bar'', 0x1000)"
    by (simp add: bi1 found_imp_def)
  with r1 have g: "map_option (\<lambda>(err, cache, ms). (err, ms))
     (plcrash_async_objc_find_method 3 host0 objc1_image (Some stale_cache) 0x1500
        (Some collect_method) []) =
     Some (PLCRASH_ESUCCESS, [(False, ''Foo'', ''bar'', 0x1000)])"
    by (simp add: invoke_def collect_method_def)
  have l2: "gotObjC2Info objc2_cache1" by (simp add: objc2_cache1_def zeroed_cache_def)
  have v2: "class_entry_ok second_image (snd (map_sections second_image objc2_cache1)) 0"
    by (rule class_entry_ok_no_value)
       (simp add: cache_lookup_def cache_index_def objc2_cache1_def zeroed_cache_def)
  from find_method_two_pass[where target = "0xdeadbe50" and callback = "Some collect_method"
      and u = "[]", OF enumerate_second_image, THEN conjunct2] nz l2 v2
  obtain cache4 m2 where
    f2: "find (\<lambda>m. found_imp m = best_imp 0xdeadbe50 [(False, ''Bar'', ''hello'', 0xdeadbe00)])
          [(False, ''Bar'', ''hello'', 0xdeadbe00)] = Some m2"
    and r2: "plcrash_async_objc_find_method 0 host0 second_image (Some objc2_cache1) 0xdeadbe50
              (Some collect_method) [] = Some (PLCRASH_ESUCCESS, cache4, invoke collect_method m2 [])"
    by auto
  from f2 have "m2 = (False, ''Bar'', ''hello'', 0xdeadbe00)"
    by (simp add: bi found_imp_def)
  with r2 have i: "map_option (\<lambda>(err, cache, ms). (err, ms))
     (plcrash_async_objc_find_method 0 host0 second_image (Some objc2_cache1) 0xdeadbe50
        (Some collect_method) []) =
     Some (PLCRASH_ESUCCESS, [(False, ''Bar'', ''hello'', 0xdeadbe00)])"
    by (simp add: invoke_def collect_method_def)
  from find_method_two_pass[where target = "0xdeadbe50" and callback = "Some collect_method"
      and u = "[]", OF enumerate_objc2_image_stale, THEN conjunct2]
    nz ab objc2_image_no_null_class_rw
  obtain cache5 m3 where
    f3: "find (\<lambda>m. found_imp m = best_imp 0xdeadbe50 [(False, ''Bar'', ''hello'', 0xdeadbe00)])
          [(False, ''Bar'', ''hello'', 0xdeadbe00)] = Some m3"
    and r3: "plcrash_async_objc_find_method 0 host0 objc2_image (Some stale_cache) 0xdeadbe50
              (Some collect_method) [] = Some (PLCRASH_ESUCCESS, cache5, invoke collect_method m3 [])"
    by auto
  from f3 have "m3 = (False, ''Bar'', ''hello'', 0xdeadbe00)"
    by (simp add: bi found_imp_def)
  with r3 have j: "map_option (\<lambda>(err, cache, ms). (err, ms))
     (plcrash_async_objc_find_method 0 host0 objc2_image (Some stale_cache) 0xdeadbe50
        (Some collect_method) []) =
     Some (PLCRASH_ESUCCESS, [(False, ''Bar'', ''hello'', 0xdeadbe00)])"
    by (simp add: invoke_def collect_method_def)
  from a b c d e g j i show ?thesis by blast
qed

text \<open>
  The claim as stated fails in two ways. A value under the key 0 that is not what a miss
  finds: one parse of \<open>null_rw_image\<close> from a new cache leaves the value 0x3100 under the
  key 0. In the search on \<open>evicting_image2\<close> from that cache, pass 1 serves the first
  metaclass (whose class_rw pointer is null) from that value, then stores the second class in
  the same bucket, and succeeds with the best IMP 0xdeadbe00; pass 2 no longer finds the value,
  cannot read a class_rw structure at address 0 and fails at the first metaclass, before it
  presents any method: the search returns not-found and the callback was never invoked.
  And a pass 1 that fails: on \<open>bad_isa_image\<close> pass 1 presents \<open>hello\<close>, so that the
  best IMP is 0xdeadbe00, and then fails; the search returns the status of pass 1, and there
  is no pass 2.
\<close>

theorem find_method_two_pass_counterexample:
  "plcrash_async_objc_enumerate 0 host0 null_rw_image (Some zeroed_cache) =
     Some (PLCRASH_ESUCCESS, Some null_rw_cache1, []) \<and>
   plcrash_async_objc_enumerate 0 host0 evicting_image2 (Some null_rw_cache1) =
     Some (PLCRASH_ESUCCESS, Some evicting_cache2,
       [(False, ''Bar'', ''hello'', 0xdeadbe00), (True, ''Bar'', ''hello'', 0xdeadbe00)]) \<and>
   best_imp 0xdeadbe50
     [(False, ''Bar'', ''hello'', 0xdeadbe00), (True, ''Bar'', ''hello'', 0xdeadbe00)] =
     0xdeadbe00 \<and>
   plcrash_async_objc_find_method 0 host0 evicting_image2 (Some null_rw_cache1) 0xdeadbe50
     (Some collect_method) [] =
     Some (PLCRASH_ENOTFOUND, Some evicting_cache2, []) \<and>
   plcrash_async_objc_enumerate 0 host0 bad_isa_image (Some zeroed_cache) =
     Some (PLCRASH_EINVAL, Some bad_isa_cache1, [(False, ''Bar'', ''hello'', 0xdeadbe00)]) \<and>
   best_imp 0xdeadbe50 [(False, ''Bar'', ''hello'', 0xdeadbe00)] = 0xdeadbe00 \<and>
   plcrash_async_objc_find_method 0 host0 bad_isa_image (Some zeroed_cache) 0xdeadbe50
     (Some collect_method) [] =
     Some (PLCRASH_EINVAL, Some bad_isa_cache1, [])"
  by (simp add: enumerate_null_rw_image enumerate_evicting_image2
      find_method_closed_form[OF enumerate_evicting_image2] enumerate_evicting_image2_again
      enumerate_bad_isa_image find_method_closed_form[OF enumerate_bad_isa_image]
      best_imp_code found_imp_def emitted_def)

subsection \<open>C2: an unrealized class\<close>

text \<open>
  Claim C2 does not hold of the code. \<open>pl_async_objc_parse_objc2_class\<close> returns not-found
  for a class whose class_rw flags have \<open>RW_REALIZED\<close> unset, and the loop over the class
  list returns every status but success: the walk ends there. On the image whose class list is
  an unrealized class followed by the realized class \<open>Bar\<close>, the walk returns not-found and
  presents no method, where the walk over \<open>Bar\<close> alone presents \<open>hello\<close>.
\<close>

theorem unrealized_class_ends_walk:
  "pl_async_objc_parse_from_data_section host0 unrealized_first_image zeroed_cache
     collect_method [] =
     (PLCRASH_ENOTFOUND, snd (map_sections unrealized_first_image zeroed_cache), []) \<and>
   pl_async_objc_parse_from_data_section host0 objc2_image zeroed_cache collect_method [] =
     (PLCRASH_ESUCCESS, objc2_cache1\<lparr>gotObjC2Info := False\<rparr>,
      [(False, ''Bar'', ''hello'', 0xdeadbe00)])"
  by (simp add: eval_defs)

subsection \<open>C3: the category list\<close>

text \<open>
  Claim C3 does not hold of the code. The category loop runs over the indices of the category
  list but reads its pointer at index \<open>i\<close> from the view of the class list. On the image
  with one class and two categories, both category pointers of \<open>__objc_catlist\<close> (0x2100 and
  0x2120) are inside \<open>__objc_data\<close>; the loop reads the word after the class list at index 1,
  which is 0, and the walk returns invalid.
\<close>

theorem category_loop_reads_class_list:
  "fst (pl_async_objc_parse_from_data_section host0 category_image zeroed_cache
          collect_method []) = PLCRASH_EINVAL \<and>
   objc2_category_ptr category_image
     (task_address (section_mobj category_image kDataSegmentName kClassListSectionName)) 1 = 0 \<and>
   objc2_category_ptr category_image
     (task_address (section_mobj category_image kDataSegmentName kCategoryListSectionName)) 1 =
     0x2120 \<and>
   plcrash_async_mobject_remap_address
     (section_mobj category_image kDataSegmentName kObjCDataSectionName) 0x2120
     sizeof_objc2_category"
  by (simp add: eval_defs)

subsection \<open>C4: mapping the sections\<close>

text \<open>
  Claim C4. \<open>map_sections\<close> returns success and the cache unchanged when \<open>lastImage\<close> is
  the image. Otherwise \<open>lastImage\<close> of the result is the image exactly when the four
  mappings succeed, which is also when the status is success; on a failure \<open>lastImage\<close> is
  null, the status is that of the first mapping that failed, and the slots initialized are
  exactly those mapped before it; the next call, for any image, starts from these slots
  released.
\<close>

theorem map_sections_last_image:
  assumes "map_sections img context = (err, context')"
  shows "(lastImage context = Some (image_ptr img) \<longrightarrow>
            err = PLCRASH_ESUCCESS \<and> context' = context) \<and>
         (lastImage context \<noteq> Some (image_ptr img) \<longrightarrow>
            (let ok1 = (section_status img kDataSegmentName kObjCConstSectionName = PLCRASH_ESUCCESS);
                 ok2 = (ok1 \<and> section_status img kDataSegmentName kClassListSectionName = PLCRASH_ESUCCESS);
                 ok3 = (ok2 \<and> section_status img kDataSegmentName kCategoryListSectionName = PLCRASH_ESUCCESS);
                 ok4 = (ok3 \<and> section_status img kDataSegmentName kObjCDataSectionName = PLCRASH_ESUCCESS)
             in (lastImage context' = Some (image_ptr img)) = ok4 \<and>
                (err = PLCRASH_ESUCCESS) = ok4 \<and>
                (\<not> ok4 \<longrightarrow> lastImage context' = None) \<and>
                err = (if \<not> ok1 then section_status img kDataSegmentName kObjCConstSectionName
                       else if \<not> ok2 then section_status img kDataSegmentName kClassListSectionName
                       else if \<not> ok3 then section_status img kDataSegmentName kCategoryListSectionName
                       else section_status img kDataSegmentName kObjCDataSectionName) \<and>
                objcConstMobjInitialized context' = ok1 \<and>
                classMobjInitialized context' = ok2 \<and>
                catMobjInitialized context' = ok3 \<and>
                objcDataMobjInitialized context' = ok4 \<and>
                (\<not> ok4 \<longrightarrow>
                   map_sections img2 context' = map_sections img2 (free_mapped_sections context'))))"
  using assms
  by (auto simp: map_sections_def Let_def plcrash_async_macho_map_section_def
      free_mapped_sections_def split: if_splits)

theorem map_sections_last_image_witness:
  "map_sections catlist_missing_image zeroed_cache =
     (PLCRASH_ENOTFOUND,
      zeroed_cache
        \<lparr>objcConstMobj := \<lparr>task_address = 0x3000, mobj_length = 0x1000\<rparr>,
         objcConstMobjInitialized := True,
         classMobj := \<lparr>task_address = 0x1000, mobj_length = 8\<rparr>,
         classMobjInitialized := True\<rparr>) \<and>
   lastImage (snd (map_sections catlist_missing_image zeroed_cache)) = None \<and>
   catMobjInitialized (snd (map_sections catlist_missing_image zeroed_cache)) = False \<and>
   objcDataMobjInitialized (snd (map_sections catlist_missing_image zeroed_cache)) = False \<and>
   lastImage (snd (map_sections objc2_image zeroed_cache)) = Some 2 \<and>
   map_sections objc2_image (snd (map_sections objc2_image zeroed_cache)) =
     (PLCRASH_ESUCCESS, snd (map_sections objc2_image zeroed_cache))"
proof -
  have m: "map_sections catlist_missing_image zeroed_cache =
     (PLCRASH_ENOTFOUND,
      zeroed_cache
        \<lparr>objcConstMobj := \<lparr>task_address = 0x3000, mobj_length = 0x1000\<rparr>,
         objcConstMobjInitialized := True,
         classMobj := \<lparr>task_address = 0x1000, mobj_length = 8\<rparr>,
         classMobjInitialized := True\<rparr>)"
    by (simp add: eval_defs)
  have l: "lastImage zeroed_cache \<noteq> Some (image_ptr catlist_missing_image)"
    by (simp add: zeroed_cache_def)
  obtain e2 c2 where m2: "map_sections objc2_image zeroed_cache = (e2, c2)"
    by (cases "map_sections objc2_image zeroed_cache") auto
  have l2: "lastImage zeroed_cache \<noteq> Some (image_ptr objc2_image)"
    by (simp add: zeroed_cache_def)
  obtain e3 c3 where m3: "map_sections objc2_image c2 = (e3, c3)"
    by (cases "map_sections objc2_image c2") auto
  have ip: "image_ptr objc2_image = 2" by (simp add: objc2_image_def unmapped_image_def)
  have st2: "section_status objc2_image kDataSegmentName kObjCConstSectionName = PLCRASH_ESUCCESS"
    "section_status objc2_image kDataSegmentName kClassListSectionName = PLCRASH_ESUCCESS"
    "section_status objc2_image kDataSegmentName kCategoryListSectionName = PLCRASH_ESUCCESS"
    "section_status objc2_image kDataSegmentName kObjCDataSectionName = PLCRASH_ESUCCESS"
    by (simp_all add: eval_defs)
  have st: "section_status catlist_missing_image kDataSegmentName kObjCConstSectionName = PLCRASH_ESUCCESS"
    "section_status catlist_missing_image kDataSegmentName kClassListSectionName = PLCRASH_ESUCCESS"
    "section_status catlist_missing_image kDataSegmentName kCategoryListSectionName = PLCRASH_ENOTFOUND"
    by (simp_all add: eval_defs)
  from map_sections_last_image[OF m2, THEN conjunct2] l2
  have a: "lastImage c2 = Some 2"
    by (simp add: Let_def ip st2)
  from map_sections_last_image[OF m3, THEN conjunct1] a ip
  have b: "e3 = PLCRASH_ESUCCESS \<and> c3 = c2" by simp
  from map_sections_last_image[OF m, THEN conjunct2] l
  have "lastImage (snd (map_sections catlist_missing_image zeroed_cache)) = None \<and>
        catMobjInitialized (snd (map_sections catlist_missing_image zeroed_cache)) = False \<and>
        objcDataMobjInitialized (snd (map_sections catlist_missing_image zeroed_cache)) = False"
    by (simp add: m Let_def st)
  with m a b m2 m3 show ?thesis by simp
qed

subsection \<open>C5: the class cache\<close>

text \<open>
  Claim C5, as amended. In an allocated cache the bucket of a key \<open>k\<close> is the one at index
  \<open>(k >> 2) mod 1024\<close>; \<open>cache_set\<close> writes the key and the value into that bucket if the
  key of the bucket is 0 and leaves the cache unchanged otherwise, so a bucket whose key is
  not 0 is never changed; \<open>cache_lookup\<close> returns the value of the bucket if the key of the
  bucket is \<open>k\<close>, else 0. Hence, after any sequence of stores of keys other than 0 into a
  new cache, the lookup of any key returns the value stored first into its bucket if that store
  was for this key, else 0 (and 0 throughout if the arena could not be allocated).
\<close>

theorem class_cache_first_writer_wins:
  assumes "classCacheKeys c = Some keys" and "classCacheValues c = Some vals"
    and "classCacheSize c = 1024"
    and "list_all (\<lambda>(k', v'). k' \<noteq> 0) kvs"
  shows "cache_index c k = unat (drop_bit 2 k) mod 1024 \<and>
         cache_set ok c k v =
           (if keys (cache_index c k) = 0
            then c\<lparr>classCacheKeys := Some (keys(cache_index c k := k)),
                   classCacheValues := Some (vals(cache_index c k := v))\<rparr>
            else c) \<and>
         cache_lookup c k = (if keys (cache_index c k) = k then vals (cache_index c k) else 0) \<and>
         cache_lookup (store_all ok (snd (plcrash_async_objc_cache_init c0)) kvs) k =
           (if ok then
              (case first_stored kvs (unat (drop_bit 2 k) mod 1024) of
                 None \<Rightarrow> 0
               | Some (k', v') \<Rightarrow> if k' = k then v' else 0)
            else 0)"
proof -
  have idx: "cache_index c k = unat (drop_bit 2 k) mod 1024"
    using assms(3) by (simp add: cache_index_def)
  have st: "cache_set ok c k v =
           (if keys (cache_index c k) = 0
            then c\<lparr>classCacheKeys := Some (keys(cache_index c k := k)),
                   classCacheValues := Some (vals(cache_index c k := v))\<rparr>
            else c)"
    using assms(1,2) by (simp add: cache_set_def cache_set_bucket_def Let_def)
  have lk: "cache_lookup c k = (if keys (cache_index c k) = k then vals (cache_index c k) else 0)"
    using assms(1,2,3) by (simp add: cache_lookup_def Let_def)
  let ?c0 = "snd (plcrash_async_objc_cache_init c0)"
  have sq: "cache_lookup (store_all ok ?c0 kvs) k =
           (if ok then
              (case first_stored kvs (unat (drop_bit 2 k) mod 1024) of
                 None \<Rightarrow> 0
               | Some (k', v') \<Rightarrow> if k' = k then v' else 0)
            else 0)"
  proof (cases ok)
    case False
    with store_all_noalloc[OF cache_init_fresh, of c0 kvs] show ?thesis
      by (simp add: cache_lookup_def)
  next
    case True
    show ?thesis
    proof (cases "kvs = []")
      case True
      then show ?thesis using cache_init_fresh[of c0]
        by (simp add: store_all_def cache_lookup_def first_stored_def)
    next
      case False
      from store_all_fresh_inv[OF assms(4) False cache_init_fresh(1), of c0]
        first_stored_nonzero[OF assms(4)] \<open>ok\<close>
      show ?thesis
        by (auto simp: cache_lookup_def cache_index_def Let_def split: option.splits)
    qed
  qed
  from idx st lk sq show ?thesis by blast
qed

theorem class_cache_first_writer_wins_witness:
  "cache_set True (cache_set True (snd (plcrash_async_objc_cache_init zeroed_cache)) 4096 7) 8192 9 =
     cache_set True (snd (plcrash_async_objc_cache_init zeroed_cache)) 4096 7 \<and>
   cache_lookup (cache_set True (snd (plcrash_async_objc_cache_init zeroed_cache)) 4096 7) 4096 = 7 \<and>
   cache_lookup
     (store_all True (snd (plcrash_async_objc_cache_init zeroed_cache)) [(4096, 7), (8192, 9)])
     4096 = 7 \<and>
   cache_lookup
     (store_all True (snd (plcrash_async_objc_cache_init zeroed_cache)) [(4096, 7), (8192, 9)])
     8192 = 0"
proof -
  let ?c = "cache_set True (snd (plcrash_async_objc_cache_init zeroed_cache)) 4096 7"
  have k: "classCacheKeys ?c = Some ((\<lambda>i. 0)(0 := 4096))"
    and v: "classCacheValues ?c = Some ((\<lambda>i. 0)(0 := 7))"
    and s: "classCacheSize ?c = 1024"
    by (simp_all add: plcrash_async_objc_cache_init_def zeroed_cache_def cache_set_def
        cache_set_bucket_def cache_index_def Let_def)
  have nz: "list_all (\<lambda>(k', v'). k' \<noteq> 0)
              [(4096 :: pl_vm_address_t, 7 :: pl_vm_address_t), (8192, 9)]"
    by simp
  from class_cache_first_writer_wins[where k = "8192" and ok = True and v = "9"
        and ?c0.0 = zeroed_cache, OF k v s nz]
    class_cache_first_writer_wins[where k = "4096" and ok = True and v = "7"
        and ?c0.0 = zeroed_cache, OF k v s nz]
  show ?thesis
    by (simp add: first_stored_def)
qed

text \<open>
  The claim as stated fails for the key 0. After \<open>store(0, 5)\<close> into a new cache the lookup of
  0 returns 5, and 5 is the value stored first into bucket 0; the key of the bucket is still 0,
  so \<open>store(4096, 7)\<close>, whose bucket is 0 as well, overwrites it: the lookup of the stored key
  4096 returns 7, which is neither the first-stored value of its bucket nor 0.
\<close>

theorem class_cache_key_zero_counterexample:
  "cache_lookup (store_all True (snd (plcrash_async_objc_cache_init zeroed_cache)) [(0, 5)]) 0 = 5 \<and>
   first_stored [(0, 5), (4096, 7)] (unat (drop_bit 2 (4096 :: pl_vm_address_t)) mod 1024) =
     Some (0, 5) \<and>
   cache_lookup
     (store_all True (snd (plcrash_async_objc_cache_init zeroed_cache)) [(0, 5), (4096, 7)])
     4096 = 7"
  by (simp add: store_all_def first_stored_def plcrash_async_objc_cache_init_def zeroed_cache_def
      cache_set_def cache_set_bucket_def cache_index_def cache_lookup_def Let_def)

subsection \<open>C6: the ObjC2 latch\<close>

text \<open>
  Claim C6. A parse call on a cache whose latch \<open>gotObjC2Info\<close> is set makes the ObjC2
  attempt alone; on a cache whose latch is not set it makes the ObjC1 attempt, returns its
  result when that is not not-found (the cache is unchanged) and makes the ObjC2 attempt
  otherwise. The ObjC2 attempt leaves the latch set if it was set or if the attempt returned
  success, and unset otherwise. Across a sequence of parse calls on one cache the latch, once
  set, is set after every later call.
\<close>

theorem unified_parser_latch:
  "plcrash_async_objc_parse fuel host img (Some c) callback ctx =
     (if gotObjC2Info c then objc2_attempt host img c callback ctx
      else
        (case pl_async_objc_parse_from_module_info fuel img callback ctx of
           None \<Rightarrow> None
         | Some (err1, ctx1) \<Rightarrow>
             if err1 \<noteq> PLCRASH_ENOTFOUND then Some (err1, Some c, ctx1)
             else objc2_attempt host img c callback ctx1)) \<and>
   (parse_sequence fuel host calls c = Some cs \<and> gotObjC2Info c \<longrightarrow>
      list_all gotObjC2Info cs) \<and>
   (parse_sequence fuel host calls c = Some cs \<and> i < j \<and> j < length cs \<and>
    gotObjC2Info (cs ! i) \<longrightarrow> gotObjC2Info (cs ! j))"
  using parse_structure[of fuel host img c callback ctx]
    parse_sequence_monotonic_all[of fuel host calls c cs]
    parse_sequence_latch[of fuel host calls c cs i j]
  by blast

text \<open>
  Two calls from a new cache: the ObjC2 image sets the latch; the ObjC1 image after it is not
  walked as ObjC1 (its call returns not-found), and the latch stays set.
\<close>

theorem unified_parser_latch_witness:
  "map_option (map gotObjC2Info)
     (parse_sequence 3 host0
        [(objc2_image, collect_method, []), (objc1_image, collect_method, [])] zeroed_cache) =
     Some [True, True] \<and>
   map_option fst (plcrash_async_objc_parse 3 host0 objc1_image (Some objc2_cache1)
     collect_method []) = Some PLCRASH_ENOTFOUND \<and>
   map_option fst (plcrash_async_objc_parse 3 host0 objc1_image (Some zeroed_cache)
     collect_method []) = Some PLCRASH_ESUCCESS"
proof -
  have p1: "plcrash_async_objc_parse 3 host0 objc2_image (Some zeroed_cache) collect_method [] =
      Some (PLCRASH_ESUCCESS, Some objc2_cache1, [(False, ''Bar'', ''hello'', 0xdeadbe00)])"
    by (simp add: eval_defs)
  have g: "gotObjC2Info objc2_cache1" by (simp add: objc2_cache1_def)
  have ng: "\<not> gotObjC2Info zeroed_cache" by (simp add: zeroed_cache_def)
  have d: "fst (pl_async_objc_parse_from_data_section host0 objc1_image objc2_cache1
              collect_method []) = PLCRASH_ENOTFOUND"
    by (simp add: eval_defs)
  have m: "pl_async_objc_parse_from_module_info 3 objc1_image collect_method [] =
      Some (PLCRASH_ESUCCESS,
        [(False, ''Foo'', ''bar'', 0x1000), (False, ''Foo'', ''baz'', 0x2000),
         (True, ''Foo'', ''qux'', 0x3000)])"
    by (simp add: eval_defs)
  note u = unified_parser_latch[THEN conjunct1]
  obtain e2 c2' x2 where dd: "pl_async_objc_parse_from_data_section host0 objc1_image objc2_cache1
      collect_method [] = (e2, c2', x2)"
    by (cases "pl_async_objc_parse_from_data_section host0 objc1_image objc2_cache1
      collect_method []") auto
  with d have e2: "e2 = PLCRASH_ENOTFOUND" by simp
  have p2: "plcrash_async_objc_parse 3 host0 objc1_image (Some objc2_cache1)
      collect_method [] = Some (PLCRASH_ENOTFOUND, Some (c2'\<lparr>gotObjC2Info := True\<rparr>), x2)"
    using g dd e2 by (simp add: u objc2_attempt_def)
  define c2 where "c2 = c2'\<lparr>gotObjC2Info := True\<rparr>"
  have a: "map_option fst (plcrash_async_objc_parse 3 host0 objc1_image (Some objc2_cache1)
     collect_method []) = Some PLCRASH_ENOTFOUND"
    by (simp add: p2)
  have b: "map_option fst (plcrash_async_objc_parse 3 host0 objc1_image (Some zeroed_cache)
     collect_method []) = Some PLCRASH_ESUCCESS"
    using m ng by (simp add: u)
  have s: "parse_sequence 3 host0
        [(objc2_image, collect_method, []), (objc1_image, collect_method, [])] zeroed_cache =
        Some [objc2_cache1, c2]"
    by (simp add: p1 p2 c2_def)
  from unified_parser_latch[where fuel = "3" and host = host0
        and calls = "[(objc2_image, collect_method, []), (objc1_image, collect_method, [])]"
        and c = zeroed_cache and cs = "[objc2_cache1, c2]" and i = "0" and j = "1",
      THEN conjunct2, THEN conjunct2] s g
  have "gotObjC2Info c2" by simp
  with s g a b show ?thesis by simp
qed

subsection \<open>C7: an ObjC1 class without methods\<close>

text \<open>
  Claim C7 does not hold of the code. With \<open>CLS_NO_METHOD_ARRAY\<close> unset the \<open>methods\<close> field
  is the address of an array of method list pointers, and the loop reads its first entry from
  the target task before it tests anything: for a null \<open>methods\<close> field it reads at address
  0, and the parse of the class returns the status of that read (not-found where address 0 is
  unmapped). It is with \<open>CLS_NO_METHOD_ARRAY\<close> set that a null \<open>methods\<close> field ends the
  parse at once, with success and without a read.
\<close>

theorem obj1_null_method_array_is_read:
  "pl_async_parse_obj1_class 1 unmapped_image zeroed_objc1_class False collect_method [] =
     Some (PLCRASH_ENOTFOUND, []) \<and>
   pl_async_parse_obj1_class 1 unmapped_image
     (zeroed_objc1_class\<lparr>objc1_info := CLS_NO_METHOD_ARRAY\<rparr>) False collect_method [] =
     Some (PLCRASH_ESUCCESS, [])"
  by (simp add: eval_defs)

subsection \<open>C8: a method at IMP 0\<close>

text \<open>
  Claim C8, as amended. Let pass 1 return \<open>err1\<close>, leave the cache \<open>cache1\<close> and present the
  methods \<open>ms1\<close>. If every method of \<open>ms1\<close> whose IMP is at most the target has the IMP 0, then
  \<open>plcrash_async_objc_find_method\<close> does not invoke the callback, and it returns not-found
  when pass 1 succeeded and the status of pass 1 when pass 1 failed. In no case is the
  callback invoked on a method whose IMP is 0.
\<close>

theorem find_method_imp_zero_not_found:
  assumes "plcrash_async_objc_enumerate fuel host img cache = Some (err1, cache1, ms1)"
    and "\<forall>m \<in> set ms1. found_imp m \<le> target \<longrightarrow> found_imp m = 0"
  shows "plcrash_async_objc_find_method fuel host img cache target callback u =
           Some (if err1 = PLCRASH_ESUCCESS then PLCRASH_ENOTFOUND else err1, cache1, u) \<and>
         (\<forall>fuel' host' img' cache' target' err cache2 invoked.
            plcrash_async_objc_find_method fuel' host' img' cache' target'
              (Some collect_method) [] = Some (err, cache2, invoked) \<longrightarrow>
            list_all (\<lambda>m. found_imp m \<noteq> 0) invoked)"
proof (intro conjI allI impI)
  have "{i \<in> found_imp ` set ms1. i \<le> target} \<subseteq> {0}" using assms(2) by auto
  then have e: "insert 0 {i \<in> found_imp ` set ms1. i \<le> target} = {0}" by auto
  have "best_imp target ms1 = Max {0}" by (simp only: best_imp_def e)
  then have "best_imp target ms1 = 0" by simp
  then show "plcrash_async_objc_find_method fuel host img cache target callback u =
           Some (if err1 = PLCRASH_ESUCCESS then PLCRASH_ENOTFOUND else err1, cache1, u)"
    by (simp add: find_method_closed_form[OF assms(1)])
next
  fix fuel' host' img' cache' target' err cache2 invoked
  assume r: "plcrash_async_objc_find_method fuel' host' img' cache' target'
              (Some collect_method) [] = Some (err, cache2, invoked)"
  obtain e1 c1 ms where
    e: "plcrash_async_objc_enumerate fuel' host' img' cache' = Some (e1, c1, ms)"
  proof (cases "plcrash_async_objc_enumerate fuel' host' img' cache'")
    case None
    with r show ?thesis by (simp add: find_method_diverges)
  next
    case (Some t)
    then show ?thesis using that by (cases t) auto
  qed
  show "list_all (\<lambda>m. found_imp m \<noteq> 0) invoked"
  proof (cases "e1 = PLCRASH_ESUCCESS \<and> best_imp target' ms \<noteq> 0")
    case False
    with r show ?thesis by (auto simp: find_method_closed_form[OF e] split: if_splits)
  next
    case True
    with r obtain e2 ms2 where
      i: "invoked = emitted (Some collect_method) (best_imp target' ms) ms2 []"
      by (auto simp: find_method_closed_form[OF e])
    show ?thesis
    proof (cases "find (\<lambda>m. found_imp m = best_imp target' ms) ms2")
      case None
      with i show ?thesis by (simp add: emitted_def)
    next
      case (Some m)
      then have "found_imp m = best_imp target' ms" by (auto simp: find_Some_iff)
      with i Some True show ?thesis
        by (cases m) (simp add: emitted_def invoke_def collect_method_def)
    qed
  qed
qed

text \<open>
  The ObjC2 image with its one method at IMP 0: the walk presents the method, and the search
  for any target returns not-found without invoking the callback.
\<close>

theorem find_method_imp_zero_not_found_witness:
  "plcrash_async_objc_enumerate 0 host0 imp_zero_image (Some zeroed_cache) =
     Some (PLCRASH_ESUCCESS, Some objc2_cache1, [(False, ''Bar'', ''hello'', 0)]) \<and>
   plcrash_async_objc_find_method 0 host0 imp_zero_image (Some zeroed_cache) 0xdeadbe50
     (Some collect_method) [] = Some (PLCRASH_ENOTFOUND, Some objc2_cache1, [])"
proof -
  have h: "\<forall>m \<in> set [(False, ''Bar'', ''hello'', 0 :: pl_vm_address_t)].
             found_imp m \<le> 0xdeadbe50 \<longrightarrow> found_imp m = 0"
    by (simp add: found_imp_def)
  from find_method_imp_zero_not_found[where callback = "Some collect_method" and u = "[]",
      OF enumerate_imp_zero_image h, THEN conjunct1] enumerate_imp_zero_image
  show ?thesis by simp
qed

text \<open>
  The claim as stated says that the search returns not-found. On \<open>imp_zero_bad_isa_image\<close>
  the only method presented has the IMP 0, and pass 1 fails after it has presented it (the
  metaclass pointer is outside the \<open>__objc_data\<close> section): the search returns the status of
  pass 1, which is not not-found.
\<close>

theorem find_method_imp_zero_counterexample:
  "plcrash_async_objc_enumerate 0 host0 imp_zero_bad_isa_image (Some zeroed_cache) =
     Some (PLCRASH_EINVAL, Some bad_isa_cache1, [(False, ''Bar'', ''hello'', 0)]) \<and>
   found_imp (False, ''Bar'', ''hello'', 0) = 0 \<and>
   plcrash_async_objc_find_method 0 host0 imp_zero_bad_isa_image (Some zeroed_cache) 0xdeadbe50
     (Some collect_method) [] =
     Some (PLCRASH_EINVAL, Some bad_isa_cache1, []) \<and>
   PLCRASH_EINVAL \<noteq> PLCRASH_ENOTFOUND"
  by (simp add: enumerate_imp_zero_bad_isa_image
      find_method_closed_form[OF enumerate_imp_zero_bad_isa_image] found_imp_def)

subsection \<open>C9: the status of pass 2\<close>

text \<open>
  Claim C9. When pass 1 succeeds with a best IMP other than 0, the status
  \<open>plcrash_async_objc_find_method\<close> returns is the status of pass 2, whatever it is; and when
  pass 2 presents a method with the best IMP (before it ends or fails), the callback has been
  invoked on the first such method. So a status other than success does not tell that the
  callback was not invoked.
\<close>

theorem find_method_returns_second_pass_status:
  assumes "plcrash_async_objc_enumerate fuel host img cache = Some (PLCRASH_ESUCCESS, cache1, ms1)"
    and "best_imp target ms1 \<noteq> 0"
    and "plcrash_async_objc_enumerate fuel host img cache1 = Some (err2, cache2, ms2)"
    and "find (\<lambda>m. found_imp m = best_imp target ms1) ms2 = Some m"
  shows "plcrash_async_objc_find_method fuel host img cache target (Some cb) u =
           Some (err2, cache2, invoke cb m u)"
  using assms by (simp add: find_method_closed_form emitted_def)

text \<open>
  On \<open>evicting_image\<close>, starting from \<open>stale_cache\<close>: pass 1 succeeds (the metaclass with the
  null class_rw pointer is served from bucket 0 of the cache, which the second class then
  takes); pass 2 presents \<open>hello\<close>, the callback is invoked, and the walk then fails at that
  metaclass, whose class_rw structure at address 0 cannot be read. The search returns
  not-found after it has invoked the callback.
\<close>

theorem find_method_returns_second_pass_status_witness:
  "plcrash_async_objc_find_method 0 host0 evicting_image (Some stale_cache) 0xdeadbe50
     (Some collect_method) [] =
   Some (PLCRASH_ENOTFOUND, Some evicting_cache1, [(False, ''Bar'', ''hello'', 0xdeadbe00)])"
proof -
  have b: "best_imp 0xdeadbe50 [(False, ''Bar'', ''hello'', 0xdeadbe00)] = 0xdeadbe00"
    by (simp add: best_imp_code found_imp_def)
  have nz: "best_imp 0xdeadbe50 [(False, ''Bar'', ''hello'', 0xdeadbe00)] \<noteq> 0"
    by (simp add: b)
  have f: "find (\<lambda>m. found_imp m = best_imp 0xdeadbe50 [(False, ''Bar'', ''hello'', 0xdeadbe00)])
             [(False, ''Bar'', ''hello'', 0xdeadbe00)] = Some (False, ''Bar'', ''hello'', 0xdeadbe00)"
    by (simp add: b found_imp_def)
  from find_method_returns_second_pass_status[where cb = collect_method and u = "[]",
      OF enumerate_evicting_image nz enumerate_evicting_image_again f]
  show ?thesis by (simp add: invoke_def collect_method_def)
qed

subsection \<open>C10: the best IMP depends on the IMPs alone\<close>

text \<open>
  Claim C10. Two enumerations that present the same sequence of IMPs, whatever their class
  names, method names and is-meta flags, leave the search callback with the same best IMP for
  the same target and the same starting value; so two pass-1 walks that present the same
  sequence of IMPs end with the same best IMP.
\<close>

theorem best_imp_depends_on_imps_only:
  assumes "map found_imp ms = map found_imp ms'"
  shows "bestIMP (fold (invoke pl_async_objc_find_method_search_callback) ms
                    \<lparr>searchIMP = target, bestIMP = b\<rparr>) =
         bestIMP (fold (invoke pl_async_objc_find_method_search_callback) ms'
                    \<lparr>searchIMP = target, bestIMP = b\<rparr>) \<and>
         best_imp target ms = best_imp target ms' \<and>
         (plcrash_async_objc_enumerate fuel host img cache = Some (err, cache1, ms) \<and>
          plcrash_async_objc_enumerate fuel' host' img' cache' = Some (err', cache1', ms') \<longrightarrow>
          map_option (\<lambda>(e, c, s). bestIMP s)
            (plcrash_async_objc_parse fuel host img cache
               pl_async_objc_find_method_search_callback \<lparr>searchIMP = target, bestIMP = 0\<rparr>) =
          map_option (\<lambda>(e, c, s). bestIMP s)
            (plcrash_async_objc_parse fuel' host' img' cache'
               pl_async_objc_find_method_search_callback \<lparr>searchIMP = target, bestIMP = 0\<rparr>))"
proof -
  have "set (map found_imp ms) = set (map found_imp ms')" using assms by simp
  then have s: "found_imp ` set ms = found_imp ` set ms'" by simp
  show ?thesis
    by (simp add: search_fold_bestIMP best_imp_def s parse_enumerate split: prod.splits)
qed

theorem best_imp_depends_on_imps_only_witness:
  "bestIMP (fold (invoke pl_async_objc_find_method_search_callback)
              [(False, ''Foo'', ''bar'', 0x1000), (True, ''Foo'', ''qux'', 0x3000)]
              \<lparr>searchIMP = 0x2000, bestIMP = 0\<rparr>) =
   bestIMP (fold (invoke pl_async_objc_find_method_search_callback)
              [(True, ''Other'', ''name'', 0x1000), (False, ''Class'', ''method'', 0x3000)]
              \<lparr>searchIMP = 0x2000, bestIMP = 0\<rparr>) \<and>
   best_imp 0x2000 [(True, ''Other'', ''name'', 0x1000), (False, ''Class'', ''method'', 0x3000)] =
     0x1000"
proof -
  have m: "map found_imp [(False, ''Foo'', ''bar'', 0x1000), (True, ''Foo'', ''qux'', 0x3000)] =
           map found_imp [(True, ''Other'', ''name'', 0x1000), (False, ''Class'', ''method'', 0x3000)]"
    by (simp add: found_imp_def)
  from best_imp_depends_on_imps_only[where target = "0x2000" and b = "0", OF m,
      THEN conjunct1]
  show ?thesis by (simp add: best_imp_code found_imp_def)
qed

end
